theory Spec2Isabelle
  imports Complex_Main "HOL-Library.Word" "HOL-Library.Signed_Division"
begin

section \<open>Data model\<close>

text \<open>
  The sized types of \<^verbatim>\<open>demosaic_conf_global_types.h\<close>: \<^verbatim>\<open>U8\<close> and \<^verbatim>\<open>U16\<close> are machine
  words. \<^verbatim>\<open>I32\<close> values (dimensions, coordinates, shift count, kernel accumulators)
  are integers; C promotes every \<^verbatim>\<open>U8\<close>/\<^verbatim>\<open>U16\<close> operand to \<^verbatim>\<open>int\<close> before it
  computes, which is what \<open>uint\<close> does here. \<^verbatim>\<open>F64\<close> values are reals; every
  floating-point operation rounds its exact result with a rounding function
  \<open>rnd\<close> that the mono functions take as their first argument.

  Two \<^verbatim>\<open>I32\<close> computations can leave the 32-bit range. The first is the flat index
  \<^verbatim>\<open>n_cols*row + col\<close> of an image of more than \<open>2\<^sup>3\<^sup>1 - 1\<close> samples: its product and
  its sum are \<open>I32_mul\<close> and \<open>I32_add\<close>, which wrap around in two's complement where
  C leaves the overflow undefined. The second is the shift count, see \<open>shr\<close> below.
  The kernel accumulators are shown below to stay inside the 32-bit range. The
  coordinates cannot leave it: a row function passes rows in \<open>[-2, n_rows + 2)\<close> and
  columns in \<open>[-2, n_cols + 2)\<close> of an image whose numbers of rows and of columns are
  even, hence at most \<open>2\<^sup>3\<^sup>1 - 2\<close>.
\<close>

type_synonym U8 = "8 word"
type_synonym U16 = "16 word"
type_synonym I32 = int
type_synonym F64 = real

definition I32_wrap :: "int \<Rightarrow> I32" where
  "I32_wrap x = (x + 2147483648) mod 4294967296 - 2147483648"

definition I32_mul :: "I32 \<Rightarrow> I32 \<Rightarrow> I32" where
  "I32_mul x y = I32_wrap (x * y)"

definition I32_add :: "I32 \<Rightarrow> I32 \<Rightarrow> I32" where
  "I32_add x y = I32_wrap (x + y)"

text \<open>
  \<^verbatim>\<open>demosaic_luma_coefs\<close>, \<^verbatim>\<open>demosaic_pix_rgb16\<close> and \<^verbatim>\<open>demosaic_pix_rgb8\<close> are three
  structs with the same three fields \<^verbatim>\<open>red\<close>, \<^verbatim>\<open>green\<close>, \<^verbatim>\<open>blue\<close>, of type
  \<^verbatim>\<open>F64\<close>, \<^verbatim>\<open>U16\<close> and \<^verbatim>\<open>U8\<close>.
\<close>

record 'a demosaic_rgb =
  red :: 'a
  green :: 'a
  blue :: 'a

type_synonym demosaic_luma_coefs = "F64 demosaic_rgb"
type_synonym demosaic_pix_rgb16 = "U16 demosaic_rgb"
type_synonym demosaic_pix_rgb8 = "U8 demosaic_rgb"

record demosaic_args =
  n_rows :: I32
  n_cols :: I32
  max_val :: U16
  rshift :: I32
  coefs :: demosaic_luma_coefs

text \<open>
  A buffer (the Bayer input, an output row) is the memory reached through its
  pointer: a function from the element index to the element. Reading index \<open>i\<close>
  of a buffer of \<open>n\<close> elements is inside the buffer when \<open>0 \<le> i < n\<close>.
\<close>

type_synonym 'a buffer = "int \<Rightarrow> 'a"

section \<open>Macros\<close>

text \<open>\<^verbatim>\<open>GET_PIX(bayer, n_cols, row, col)\<close>: the sample with no safety checking.\<close>

definition GET_PIX :: "'a buffer \<Rightarrow> I32 \<Rightarrow> I32 \<Rightarrow> I32 \<Rightarrow> 'a" where
  "GET_PIX bayer ncols row col = bayer (I32_add (I32_mul ncols row) col)"

text \<open>\<^verbatim>\<open>DM_LIMIT(x, min, max)\<close>: constrain between limits, inclusive.\<close>

definition DM_LIMIT :: "int \<Rightarrow> int \<Rightarrow> int \<Rightarrow> int" where
  "DM_LIMIT x mn mx = (if x \<ge> mx then mx else (if x \<le> mn then mn else x))"

text \<open>
  \<^verbatim>\<open>x >> s\<close> on a promoted, non-negative \<^verbatim>\<open>int\<close>, for a count \<open>0 \<le> s < 32\<close>. C
  leaves the shift undefined for \<open>s < 0\<close> and for \<open>s \<ge> 32\<close>, the width of \<^verbatim>\<open>int\<close>.
  The row functions assert \<open>s \<ge> 0\<close> before they shift, and a row function that would
  shift by 32 or more ends as \<open>Undefined\<close> (see below), so that no row function
  evaluates \<open>shr\<close> outside \<open>0 \<le> s < 32\<close>.
\<close>

definition shr :: "int \<Rightarrow> I32 \<Rightarrow> int" where
  "shr x s = drop_bit (nat s) x"

section \<open>Edge-safe pixel accessor\<close>

text \<open>
  \<^verbatim>\<open>get_pixel16_safe\<close> and \<^verbatim>\<open>get_pixel8_safe\<close>. \<^verbatim>\<open>%\<close> is C's remainder, \<open>smod\<close>.
  The four \<^verbatim>\<open>if\<close> statements run one after the other on the running value of
  \<^verbatim>\<open>row\<close> and \<^verbatim>\<open>col\<close>. The buffer is not null here: every caller has asserted it.
\<close>

definition get_pixel16_safe :: "U16 buffer \<Rightarrow> I32 \<Rightarrow> I32 \<Rightarrow> I32 \<Rightarrow> I32 \<Rightarrow> U16" where
  "get_pixel16_safe bayer nrows ncols row col =
     (let row = (if row < 0 then (- row) smod 2 else row);
          row = (if row \<ge> nrows then nrows - 2 + (row smod 2) else row);
          col = (if col < 0 then (- col) smod 2 else col);
          col = (if col \<ge> ncols then ncols - 2 + (col smod 2) else col)
      in bayer (I32_add (I32_mul ncols row) col))"

definition get_pixel8_safe :: "U8 buffer \<Rightarrow> I32 \<Rightarrow> I32 \<Rightarrow> I32 \<Rightarrow> I32 \<Rightarrow> U8" where
  "get_pixel8_safe bayer nrows ncols row col =
     (let row = (if row < 0 then (- row) smod 2 else row);
          row = (if row \<ge> nrows then nrows - 2 + (row smod 2) else row);
          col = (if col < 0 then (- col) smod 2 else col);
          col = (if col \<ge> ncols then ncols - 2 + (col smod 2) else col)
      in bayer (I32_add (I32_mul ncols row) col))"

section \<open>Interpolation kernels\<close>

text \<open>
  The four weighted sums. Each is written once here and occurs fourteen times in
  \<^verbatim>\<open>demosaic.c\<close> with the same taps in the same order: in the 16-bit and the 8-bit
  helper over the edge-safe accessor, and twice in the fast loop of each of the six
  row functions over \<^verbatim>\<open>GET_PIX\<close>. The argument \<open>p\<close> is the accessor, promoted to
  \<^verbatim>\<open>int\<close>.
\<close>

definition green_sum :: "(I32 \<Rightarrow> I32 \<Rightarrow> int) \<Rightarrow> I32 \<Rightarrow> I32 \<Rightarrow> int" where
  "green_sum p row col =
       p (row - 2) (col + 0) * (- 1)
     + p (row - 1) (col + 0) * 2
     + p (row + 0) (col - 2) * (- 1)
     + p (row + 0) (col - 1) * 2
     + p (row + 0) (col + 0) * 4
     + p (row + 0) (col + 1) * 2
     + p (row + 0) (col + 2) * (- 1)
     + p (row + 1) (col + 0) * 2
     + p (row + 2) (col + 0) * (- 1)"

definition red_blue_from_row_sum :: "(I32 \<Rightarrow> I32 \<Rightarrow> int) \<Rightarrow> I32 \<Rightarrow> I32 \<Rightarrow> int" where
  "red_blue_from_row_sum p row col =
       p (row - 2) (col + 0) * 1
     + p (row - 1) (col - 1) * (- 2)
     + p (row - 1) (col + 1) * (- 2)
     + p (row + 0) (col - 2) * (- 2)
     + p (row + 0) (col - 1) * 8
     + p (row + 0) (col + 0) * 10
     + p (row + 0) (col + 1) * 8
     + p (row + 0) (col + 2) * (- 2)
     + p (row + 1) (col - 1) * (- 2)
     + p (row + 1) (col + 1) * (- 2)
     + p (row + 2) (col + 0) * 1"

definition red_blue_from_column_sum :: "(I32 \<Rightarrow> I32 \<Rightarrow> int) \<Rightarrow> I32 \<Rightarrow> I32 \<Rightarrow> int" where
  "red_blue_from_column_sum p row col =
       p (row - 2) (col + 0) * (- 2)
     + p (row - 1) (col - 1) * (- 2)
     + p (row - 1) (col + 0) * 8
     + p (row - 1) (col + 1) * (- 2)
     + p (row + 0) (col - 2) * 1
     + p (row + 0) (col + 0) * 10
     + p (row + 0) (col + 2) * 1
     + p (row + 1) (col - 1) * (- 2)
     + p (row + 1) (col + 0) * 8
     + p (row + 1) (col + 1) * (- 2)
     + p (row + 2) (col + 0) * (- 2)"

definition red_blue_from_opposite_sum :: "(I32 \<Rightarrow> I32 \<Rightarrow> int) \<Rightarrow> I32 \<Rightarrow> I32 \<Rightarrow> int" where
  "red_blue_from_opposite_sum p row col =
       p (row - 2) (col + 0) * (- 3)
     + p (row - 1) (col - 1) * 4
     + p (row - 1) (col + 1) * 4
     + p (row + 0) (col - 2) * (- 3)
     + p (row + 0) (col + 0) * 12
     + p (row + 0) (col + 2) * (- 3)
     + p (row + 1) (col - 1) * 4
     + p (row + 1) (col + 1) * 4
     + p (row + 2) (col + 0) * (- 3)"

text \<open>The edge-safe accessors, promoted to \<^verbatim>\<open>int\<close>, as the kernels of the helpers read them.\<close>

definition safe16 :: "U16 buffer \<Rightarrow> demosaic_args \<Rightarrow> I32 \<Rightarrow> I32 \<Rightarrow> int" where
  "safe16 bayer args r c = uint (get_pixel16_safe bayer (n_rows args) (n_cols args) r c)"

definition safe8 :: "U8 buffer \<Rightarrow> demosaic_args \<Rightarrow> I32 \<Rightarrow> I32 \<Rightarrow> int" where
  "safe8 bayer args r c = uint (get_pixel8_safe bayer (n_rows args) (n_cols args) r c)"

text \<open>
  The helpers divide with C's truncating \<^verbatim>\<open>/\<close> (\<open>sdiv\<close>), limit the quotient and
  cast. The 8-bit \<^verbatim>\<open>get_red_blue_*8\<close> helpers cast to \<^verbatim>\<open>U16\<close> and return \<^verbatim>\<open>U8\<close>.
\<close>

definition get_green16 :: "U16 buffer \<Rightarrow> demosaic_args \<Rightarrow> I32 \<Rightarrow> I32 \<Rightarrow> U16" where
  "get_green16 bayer args row col =
     (let mx = uint (max_val args);
          val = green_sum (safe16 bayer args) row col sdiv 8
      in word_of_int (DM_LIMIT val 0 mx))"

definition get_green8 :: "U8 buffer \<Rightarrow> demosaic_args \<Rightarrow> I32 \<Rightarrow> I32 \<Rightarrow> U8" where
  "get_green8 bayer args row col =
     (let mx = uint (max_val args);
          val = green_sum (safe8 bayer args) row col sdiv 8
      in word_of_int (DM_LIMIT val 0 mx))"

definition get_red_blue_from_row16 :: "U16 buffer \<Rightarrow> demosaic_args \<Rightarrow> I32 \<Rightarrow> I32 \<Rightarrow> U16" where
  "get_red_blue_from_row16 bayer args row col =
     (let mx = uint (max_val args);
          val = red_blue_from_row_sum (safe16 bayer args) row col sdiv 16
      in word_of_int (DM_LIMIT val 0 mx))"

definition get_red_blue_from_row8 :: "U8 buffer \<Rightarrow> demosaic_args \<Rightarrow> I32 \<Rightarrow> I32 \<Rightarrow> U8" where
  "get_red_blue_from_row8 bayer args row col =
     (let mx = uint (max_val args);
          val = red_blue_from_row_sum (safe8 bayer args) row col sdiv 16
      in ucast (word_of_int (DM_LIMIT val 0 mx) :: U16))"

definition get_red_blue_from_column16 :: "U16 buffer \<Rightarrow> demosaic_args \<Rightarrow> I32 \<Rightarrow> I32 \<Rightarrow> U16" where
  "get_red_blue_from_column16 bayer args row col =
     (let mx = uint (max_val args);
          val = red_blue_from_column_sum (safe16 bayer args) row col sdiv 16
      in word_of_int (DM_LIMIT val 0 mx))"

definition get_red_blue_from_column8 :: "U8 buffer \<Rightarrow> demosaic_args \<Rightarrow> I32 \<Rightarrow> I32 \<Rightarrow> U8" where
  "get_red_blue_from_column8 bayer args row col =
     (let mx = uint (max_val args);
          val = red_blue_from_column_sum (safe8 bayer args) row col sdiv 16
      in ucast (word_of_int (DM_LIMIT val 0 mx) :: U16))"

definition get_red_blue_from_opposite16 :: "U16 buffer \<Rightarrow> demosaic_args \<Rightarrow> I32 \<Rightarrow> I32 \<Rightarrow> U16" where
  "get_red_blue_from_opposite16 bayer args row col =
     (let mx = uint (max_val args);
          val = red_blue_from_opposite_sum (safe16 bayer args) row col sdiv 16
      in word_of_int (DM_LIMIT val 0 mx))"

definition get_red_blue_from_opposite8 :: "U8 buffer \<Rightarrow> demosaic_args \<Rightarrow> I32 \<Rightarrow> I32 \<Rightarrow> U8" where
  "get_red_blue_from_opposite8 bayer args row col =
     (let mx = uint (max_val args);
          val = red_blue_from_opposite_sum (safe8 bayer args) row col sdiv 16
      in ucast (word_of_int (DM_LIMIT val 0 mx) :: U16))"

section \<open>Pixel assembly\<close>

text \<open>
  The twelve \<^verbatim>\<open>get_rgb*_at_*\<close> helpers store the three fields of the pixel their last
  argument points to; here they return that pixel. The pointer is never null: it is
  the address of an element of the asserted output row or of a local variable.
\<close>

definition get_rgb16_at_red16 :: "U16 buffer \<Rightarrow> demosaic_args \<Rightarrow> I32 \<Rightarrow> I32 \<Rightarrow> demosaic_pix_rgb16" where
  "get_rgb16_at_red16 bayer args row col =
     \<lparr> red = get_pixel16_safe bayer (n_rows args) (n_cols args) row col,
       green = get_green16 bayer args row col,
       blue = get_red_blue_from_opposite16 bayer args row col \<rparr>"

definition get_rgb8_at_red8 :: "U8 buffer \<Rightarrow> demosaic_args \<Rightarrow> I32 \<Rightarrow> I32 \<Rightarrow> demosaic_pix_rgb8" where
  "get_rgb8_at_red8 bayer args row col =
     \<lparr> red = get_pixel8_safe bayer (n_rows args) (n_cols args) row col,
       green = get_green8 bayer args row col,
       blue = get_red_blue_from_opposite8 bayer args row col \<rparr>"

definition get_rgb8_at_red16 :: "U16 buffer \<Rightarrow> demosaic_args \<Rightarrow> I32 \<Rightarrow> I32 \<Rightarrow> demosaic_pix_rgb8" where
  "get_rgb8_at_red16 bayer args row col =
     \<lparr> red = word_of_int (shr (uint (get_pixel16_safe bayer (n_rows args) (n_cols args) row col)) (rshift args)),
       green = word_of_int (shr (uint (get_green16 bayer args row col)) (rshift args)),
       blue = word_of_int (shr (uint (get_red_blue_from_opposite16 bayer args row col)) (rshift args)) \<rparr>"

definition get_rgb16_at_green_rg16 :: "U16 buffer \<Rightarrow> demosaic_args \<Rightarrow> I32 \<Rightarrow> I32 \<Rightarrow> demosaic_pix_rgb16" where
  "get_rgb16_at_green_rg16 bayer args row col =
     \<lparr> red = get_red_blue_from_row16 bayer args row col,
       green = get_pixel16_safe bayer (n_rows args) (n_cols args) row col,
       blue = get_red_blue_from_column16 bayer args row col \<rparr>"

definition get_rgb8_at_green_rg8 :: "U8 buffer \<Rightarrow> demosaic_args \<Rightarrow> I32 \<Rightarrow> I32 \<Rightarrow> demosaic_pix_rgb8" where
  "get_rgb8_at_green_rg8 bayer args row col =
     \<lparr> red = get_red_blue_from_row8 bayer args row col,
       green = get_pixel8_safe bayer (n_rows args) (n_cols args) row col,
       blue = get_red_blue_from_column8 bayer args row col \<rparr>"

definition get_rgb8_at_green_rg16 :: "U16 buffer \<Rightarrow> demosaic_args \<Rightarrow> I32 \<Rightarrow> I32 \<Rightarrow> demosaic_pix_rgb8" where
  "get_rgb8_at_green_rg16 bayer args row col =
     \<lparr> red = word_of_int (shr (uint (get_red_blue_from_row16 bayer args row col)) (rshift args)),
       green = word_of_int (shr (uint (get_pixel16_safe bayer (n_rows args) (n_cols args) row col)) (rshift args)),
       blue = word_of_int (shr (uint (get_red_blue_from_column16 bayer args row col)) (rshift args)) \<rparr>"

definition get_rgb16_at_green_gb16 :: "U16 buffer \<Rightarrow> demosaic_args \<Rightarrow> I32 \<Rightarrow> I32 \<Rightarrow> demosaic_pix_rgb16" where
  "get_rgb16_at_green_gb16 bayer args row col =
     \<lparr> red = get_red_blue_from_column16 bayer args row col,
       green = get_pixel16_safe bayer (n_rows args) (n_cols args) row col,
       blue = get_red_blue_from_row16 bayer args row col \<rparr>"

definition get_rgb8_at_green_gb8 :: "U8 buffer \<Rightarrow> demosaic_args \<Rightarrow> I32 \<Rightarrow> I32 \<Rightarrow> demosaic_pix_rgb8" where
  "get_rgb8_at_green_gb8 bayer args row col =
     \<lparr> red = get_red_blue_from_column8 bayer args row col,
       green = get_pixel8_safe bayer (n_rows args) (n_cols args) row col,
       blue = get_red_blue_from_row8 bayer args row col \<rparr>"

definition get_rgb8_at_green_gb16 :: "U16 buffer \<Rightarrow> demosaic_args \<Rightarrow> I32 \<Rightarrow> I32 \<Rightarrow> demosaic_pix_rgb8" where
  "get_rgb8_at_green_gb16 bayer args row col =
     \<lparr> red = word_of_int (shr (uint (get_red_blue_from_column16 bayer args row col)) (rshift args)),
       green = word_of_int (shr (uint (get_pixel16_safe bayer (n_rows args) (n_cols args) row col)) (rshift args)),
       blue = word_of_int (shr (uint (get_red_blue_from_row16 bayer args row col)) (rshift args)) \<rparr>"

definition get_rgb16_at_blue16 :: "U16 buffer \<Rightarrow> demosaic_args \<Rightarrow> I32 \<Rightarrow> I32 \<Rightarrow> demosaic_pix_rgb16" where
  "get_rgb16_at_blue16 bayer args row col =
     \<lparr> red = get_red_blue_from_opposite16 bayer args row col,
       green = get_green16 bayer args row col,
       blue = get_pixel16_safe bayer (n_rows args) (n_cols args) row col \<rparr>"

definition get_rgb8_at_blue8 :: "U8 buffer \<Rightarrow> demosaic_args \<Rightarrow> I32 \<Rightarrow> I32 \<Rightarrow> demosaic_pix_rgb8" where
  "get_rgb8_at_blue8 bayer args row col =
     \<lparr> red = get_red_blue_from_opposite8 bayer args row col,
       green = get_green8 bayer args row col,
       blue = get_pixel8_safe bayer (n_rows args) (n_cols args) row col \<rparr>"

definition get_rgb8_at_blue16 :: "U16 buffer \<Rightarrow> demosaic_args \<Rightarrow> I32 \<Rightarrow> I32 \<Rightarrow> demosaic_pix_rgb8" where
  "get_rgb8_at_blue16 bayer args row col =
     \<lparr> red = word_of_int (shr (uint (get_red_blue_from_opposite16 bayer args row col)) (rshift args)),
       green = word_of_int (shr (uint (get_green16 bayer args row col)) (rshift args)),
       blue = word_of_int (shr (uint (get_pixel16_safe bayer (n_rows args) (n_cols args) row col)) (rshift args)) \<rparr>"

section \<open>Assertions and the row loop\<close>

text \<open>
  A failed \<^verbatim>\<open>DEMOSAIC_ASSERT\<close> hands control to the host's handler, which does not
  come back: the call ends as \<open>Fatal\<close>. \<open>Fatal\<close> and \<open>Returned\<close> carry the output row
  as the call leaves it, with \<open>None\<close> for a null pointer, so that a \<open>Fatal\<close> call that
  has stored nothing carries the caller's row unchanged. A call that evaluates an
  expression whose behaviour C leaves undefined ends as \<open>Undefined\<close>, of which nothing
  more is known: in the 16-to-8 row functions this is \<^verbatim>\<open>max_val >> rshift\<close> with
  \<^verbatim>\<open>rshift\<close> of 32 or more, evaluated by the assertion that follows \<^verbatim>\<open>rshift >= 0\<close>.
\<close>

datatype 'o outcome = Fatal 'o | Returned 'o | Undefined

text \<open>\<^verbatim>\<open>demosaic_malvar_assert_proper_dimensions\<close>: true when none of its four assertions fails.\<close>

definition demosaic_malvar_assert_proper_dimensions :: "demosaic_args \<Rightarrow> bool" where
  "demosaic_malvar_assert_proper_dimensions args \<longleftrightarrow>
     n_cols args \<ge> 2 \<and> n_rows args \<ge> 2 \<and> n_cols args smod 2 = 0 \<and> n_rows args smod 2 = 0"

text \<open>
  Every loop of the row functions has the same shape:
  \<^verbatim>\<open>while (col < n) { output_row[col] = f(col); ++col; output_row[col] = g(col); ++col; }\<close>
  where \<open>f\<close> and \<open>g\<close> compute the pixels of the two Bayer phases of the row.
\<close>

function row_loop :: "(I32 \<Rightarrow> 'p) \<Rightarrow> (I32 \<Rightarrow> 'p) \<Rightarrow> I32 \<Rightarrow> I32 \<Rightarrow> 'p buffer \<Rightarrow> 'p buffer" where
  "row_loop f g n col output_row =
     (if col < n
      then row_loop f g n (col + 2) (output_row(col := f col, col + 1 := g (col + 1)))
      else output_row)"
  by pat_completeness auto
termination
  by (relation "measure (\<lambda>(f, g, n, col, output_row). nat (n - col))") auto

declare row_loop.simps [simp del]

section \<open>Helpers of the narrowing and the mono variants\<close>

definition U8_MAX :: int where
  "U8_MAX = 255"

text \<open>
  The fast loops of the two 16-to-8 row functions limit and shift in one expression,
  \<^verbatim>\<open>(v >= max_val) ? max_val_rshift : (v <= 0) ? 0 : (v >> rshift)\<close>,
  whose value is an \<^verbatim>\<open>int\<close>; \<^verbatim>\<open>max_val_rshift\<close> is a \<^verbatim>\<open>U8\<close> local.
\<close>

definition limit_rshift :: "int \<Rightarrow> int \<Rightarrow> U8 \<Rightarrow> I32 \<Rightarrow> int" where
  "limit_rshift v mx max_val_rshift rs =
     (if v \<ge> mx then uint max_val_rshift else (if v \<le> 0 then 0 else shr v rs))"

text \<open>
  The mono row functions assert that each coefficient is in \<open>[0, 1]\<close>, normalise
  the coefficients by their sum plus \<^verbatim>\<open>0.000001\<close>, and assert that the normalised
  coefficients add up to less than \<^verbatim>\<open>1.0\<close>. Sums associate to the left, as in C;
  the literal \<^verbatim>\<open>0.000001\<close> is the rounded value of \<open>1 / 10\<^sup>6\<close>, \<^verbatim>\<open>0.5\<close> and
  \<^verbatim>\<open>1.0\<close> are exact.
\<close>

definition coefs_in_range :: "demosaic_luma_coefs \<Rightarrow> bool" where
  "coefs_in_range c \<longleftrightarrow>
     (0 \<le> red c \<and> red c \<le> 1) \<and> (0 \<le> green c \<and> green c \<le> 1) \<and> (0 \<le> blue c \<and> blue c \<le> 1)"

definition normalize_coefs :: "(F64 \<Rightarrow> F64) \<Rightarrow> demosaic_luma_coefs \<Rightarrow> demosaic_luma_coefs" where
  "normalize_coefs rnd c =
     (let coef_sum = rnd (rnd (rnd (red c + green c) + blue c) + rnd (1 / 1000000))
      in \<lparr> red = rnd (red c / coef_sum),
           green = rnd (green c / coef_sum),
           blue = rnd (blue c / coef_sum) \<rparr>)"

definition coefs_normed_sum :: "(F64 \<Rightarrow> F64) \<Rightarrow> demosaic_luma_coefs \<Rightarrow> F64" where
  "coefs_normed_sum rnd cn = rnd (rnd (red cn + green cn) + blue cn)"

text \<open>
  The luma mix
  \<^verbatim>\<open>coefs_normed.red * r + coefs_normed.green * g + coefs_normed.blue * b + 0.5\<close>
  on integer channels, which convert to \<^verbatim>\<open>F64\<close> exactly, and its conversion to
  the integer type of the output element. The conversion drops the fraction; C leaves
  it undefined when the integer part does not fit the type, where the model keeps the
  low bits.
\<close>

definition luma :: "(F64 \<Rightarrow> F64) \<Rightarrow> demosaic_luma_coefs \<Rightarrow> int \<Rightarrow> int \<Rightarrow> int \<Rightarrow> F64" where
  "luma rnd cn r g b =
     rnd (rnd (rnd (rnd (red cn * of_int r) + rnd (green cn * of_int g)) + rnd (blue cn * of_int b)) + 1 / 2)"

definition F64_to_int :: "F64 \<Rightarrow> int" where
  "F64_to_int v = (if v \<ge> 0 then \<lfloor>v\<rfloor> else \<lceil>v\<rceil>)"

definition mix_to_U16 :: "(F64 \<Rightarrow> F64) \<Rightarrow> demosaic_luma_coefs \<Rightarrow> int \<Rightarrow> int \<Rightarrow> int \<Rightarrow> U16" where
  "mix_to_U16 rnd cn r g b = word_of_int (F64_to_int (luma rnd cn r g b))"

definition mix_to_U8 :: "(F64 \<Rightarrow> F64) \<Rightarrow> demosaic_luma_coefs \<Rightarrow> int \<Rightarrow> int \<Rightarrow> int \<Rightarrow> U8" where
  "mix_to_U8 rnd cn r g b = word_of_int (F64_to_int (luma rnd cn r g b))"

text \<open>The mix of the fields of a local \<^verbatim>\<open>rgb\<close> pixel, as the safe paths compute it.\<close>

definition luma_of_rgb16 :: "(F64 \<Rightarrow> F64) \<Rightarrow> demosaic_luma_coefs \<Rightarrow> demosaic_pix_rgb16 \<Rightarrow> U16" where
  "luma_of_rgb16 rnd cn rgb = mix_to_U16 rnd cn (uint (red rgb)) (uint (green rgb)) (uint (blue rgb))"

definition luma_of_rgb8 :: "(F64 \<Rightarrow> F64) \<Rightarrow> demosaic_luma_coefs \<Rightarrow> demosaic_pix_rgb8 \<Rightarrow> U8" where
  "luma_of_rgb8 rnd cn rgb = mix_to_U8 rnd cn (uint (red rgb)) (uint (green rgb)) (uint (blue rgb))"

section \<open>16-bit Bayer to 16-bit RGB\<close>

definition demosaic_malvar_row_rgb16_unoptimized ::
  "U16 buffer option \<Rightarrow> demosaic_args option \<Rightarrow> I32 \<Rightarrow> demosaic_pix_rgb16 buffer option
     \<Rightarrow> demosaic_pix_rgb16 buffer option outcome" where
  "demosaic_malvar_row_rgb16_unoptimized bayer args row output_row =
     (case bayer of None \<Rightarrow> Fatal output_row | Some b \<Rightarrow>
     (case args of None \<Rightarrow> Fatal output_row | Some a \<Rightarrow>
     (case output_row of None \<Rightarrow> Fatal output_row | Some out \<Rightarrow>
      if \<not> demosaic_malvar_assert_proper_dimensions a then Fatal output_row
      else if \<not> (0 \<le> row \<and> row < n_rows a) then Fatal output_row
      else if row smod 2 = 0
      then Returned (Some (row_loop (get_rgb16_at_red16 b a row)
                             (get_rgb16_at_green_rg16 b a row) (n_cols a) 0 out))
      else Returned (Some (row_loop (get_rgb16_at_green_gb16 b a row)
                             (get_rgb16_at_blue16 b a row) (n_cols a) 0 out)))))"

text \<open>The four pixel computations of the fast loop of \<^verbatim>\<open>demosaic_malvar_row_rgb16\<close>, in
  the order of the source: the red and the green pixel of a red-green row, the green
  and the blue pixel of a green-blue row.\<close>

definition fast_rgb16_at_red :: "U16 buffer \<Rightarrow> demosaic_args \<Rightarrow> I32 \<Rightarrow> I32 \<Rightarrow> demosaic_pix_rgb16" where
  "fast_rgb16_at_red bayer args row col =
     (let ncol = n_cols args;
          mx = uint (max_val args);
          p = (\<lambda>r c. uint (GET_PIX bayer ncol r c));
          green = green_sum p row col sdiv 8;
          blue = red_blue_from_opposite_sum p row col sdiv 16
      in \<lparr> red = GET_PIX bayer ncol row col,
           green = word_of_int (DM_LIMIT green 0 mx),
           blue = word_of_int (DM_LIMIT blue 0 mx) \<rparr>)"

definition fast_rgb16_at_green_rg :: "U16 buffer \<Rightarrow> demosaic_args \<Rightarrow> I32 \<Rightarrow> I32 \<Rightarrow> demosaic_pix_rgb16" where
  "fast_rgb16_at_green_rg bayer args row col =
     (let ncol = n_cols args;
          mx = uint (max_val args);
          p = (\<lambda>r c. uint (GET_PIX bayer ncol r c));
          red = red_blue_from_row_sum p row col sdiv 16;
          blue = red_blue_from_column_sum p row col sdiv 16
      in \<lparr> red = word_of_int (DM_LIMIT red 0 mx),
           green = GET_PIX bayer ncol row col,
           blue = word_of_int (DM_LIMIT blue 0 mx) \<rparr>)"

definition fast_rgb16_at_green_gb :: "U16 buffer \<Rightarrow> demosaic_args \<Rightarrow> I32 \<Rightarrow> I32 \<Rightarrow> demosaic_pix_rgb16" where
  "fast_rgb16_at_green_gb bayer args row col =
     (let ncol = n_cols args;
          mx = uint (max_val args);
          p = (\<lambda>r c. uint (GET_PIX bayer ncol r c));
          red = red_blue_from_column_sum p row col sdiv 16;
          blue = red_blue_from_row_sum p row col sdiv 16
      in \<lparr> red = word_of_int (DM_LIMIT red 0 mx),
           green = GET_PIX bayer ncol row col,
           blue = word_of_int (DM_LIMIT blue 0 mx) \<rparr>)"

definition fast_rgb16_at_blue :: "U16 buffer \<Rightarrow> demosaic_args \<Rightarrow> I32 \<Rightarrow> I32 \<Rightarrow> demosaic_pix_rgb16" where
  "fast_rgb16_at_blue bayer args row col =
     (let ncol = n_cols args;
          mx = uint (max_val args);
          p = (\<lambda>r c. uint (GET_PIX bayer ncol r c));
          red = red_blue_from_opposite_sum p row col sdiv 16;
          green = green_sum p row col sdiv 8
      in \<lparr> red = word_of_int (DM_LIMIT red 0 mx),
           green = word_of_int (DM_LIMIT green 0 mx),
           blue = GET_PIX bayer ncol row col \<rparr>)"

definition demosaic_malvar_row_rgb16 ::
  "U16 buffer option \<Rightarrow> demosaic_args option \<Rightarrow> I32 \<Rightarrow> demosaic_pix_rgb16 buffer option
     \<Rightarrow> demosaic_pix_rgb16 buffer option outcome" where
  "demosaic_malvar_row_rgb16 bayer args row output_row =
     (case args of None \<Rightarrow> Fatal output_row | Some a \<Rightarrow>
      if row < 2 \<or> row \<ge> n_rows a - 2
      then demosaic_malvar_row_rgb16_unoptimized bayer args row output_row
      else
     (case output_row of None \<Rightarrow> Fatal output_row | Some out \<Rightarrow>
     (case bayer of None \<Rightarrow> Fatal output_row | Some b \<Rightarrow>
      if \<not> demosaic_malvar_assert_proper_dimensions a then Fatal output_row
      else if \<not> (0 \<le> row \<and> row < n_rows a) then Fatal output_row
      else (let ncol = n_cols a in
         if row smod 2 = 0
         then
           (let out = out(0 := get_rgb16_at_red16 b a row 0);
                out = out(1 := get_rgb16_at_green_rg16 b a row 1);
                out = row_loop (fast_rgb16_at_red b a row)
                        (fast_rgb16_at_green_rg b a row) (ncol - 2) 2 out;
                out = out(ncol - 2 := get_rgb16_at_red16 b a row (ncol - 2));
                out = out(ncol - 1 := get_rgb16_at_green_rg16 b a row (ncol - 1))
            in Returned (Some out))
         else
           (let out = out(0 := get_rgb16_at_green_gb16 b a row 0);
                out = out(1 := get_rgb16_at_blue16 b a row 1);
                out = row_loop (fast_rgb16_at_green_gb b a row)
                        (fast_rgb16_at_blue b a row) (ncol - 2) 2 out;
                out = out(ncol - 2 := get_rgb16_at_green_gb16 b a row (ncol - 2));
                out = out(ncol - 1 := get_rgb16_at_blue16 b a row (ncol - 1))
            in Returned (Some out))))))"

section \<open>8-bit Bayer to 8-bit RGB\<close>

definition demosaic_malvar_row_rgb8_unoptimized ::
  "U8 buffer option \<Rightarrow> demosaic_args option \<Rightarrow> I32 \<Rightarrow> demosaic_pix_rgb8 buffer option
     \<Rightarrow> demosaic_pix_rgb8 buffer option outcome" where
  "demosaic_malvar_row_rgb8_unoptimized bayer args row output_row =
     (case bayer of None \<Rightarrow> Fatal output_row | Some b \<Rightarrow>
     (case args of None \<Rightarrow> Fatal output_row | Some a \<Rightarrow>
     (case output_row of None \<Rightarrow> Fatal output_row | Some out \<Rightarrow>
      if \<not> demosaic_malvar_assert_proper_dimensions a then Fatal output_row
      else if \<not> (0 \<le> row \<and> row < n_rows a) then Fatal output_row
      else if \<not> uint (max_val a) \<le> U8_MAX then Fatal output_row
      else if row smod 2 = 0
      then Returned (Some (row_loop (get_rgb8_at_red8 b a row)
                             (get_rgb8_at_green_rg8 b a row) (n_cols a) 0 out))
      else Returned (Some (row_loop (get_rgb8_at_green_gb8 b a row)
                             (get_rgb8_at_blue8 b a row) (n_cols a) 0 out)))))"

text \<open>The pixel computations of the fast loop of \<^verbatim>\<open>demosaic_malvar_row_rgb8\<close>. The limited
  \<^verbatim>\<open>I32\<close> value is stored in a \<^verbatim>\<open>U8\<close> field.\<close>

definition fast_rgb8_at_red :: "U8 buffer \<Rightarrow> demosaic_args \<Rightarrow> I32 \<Rightarrow> I32 \<Rightarrow> demosaic_pix_rgb8" where
  "fast_rgb8_at_red bayer args row col =
     (let ncol = n_cols args;
          mx = uint (max_val args);
          p = (\<lambda>r c. uint (GET_PIX bayer ncol r c));
          green = green_sum p row col sdiv 8;
          blue = red_blue_from_opposite_sum p row col sdiv 16
      in \<lparr> red = GET_PIX bayer ncol row col,
           green = word_of_int (DM_LIMIT green 0 mx),
           blue = word_of_int (DM_LIMIT blue 0 mx) \<rparr>)"

definition fast_rgb8_at_green_rg :: "U8 buffer \<Rightarrow> demosaic_args \<Rightarrow> I32 \<Rightarrow> I32 \<Rightarrow> demosaic_pix_rgb8" where
  "fast_rgb8_at_green_rg bayer args row col =
     (let ncol = n_cols args;
          mx = uint (max_val args);
          p = (\<lambda>r c. uint (GET_PIX bayer ncol r c));
          red = red_blue_from_row_sum p row col sdiv 16;
          blue = red_blue_from_column_sum p row col sdiv 16
      in \<lparr> red = word_of_int (DM_LIMIT red 0 mx),
           green = GET_PIX bayer ncol row col,
           blue = word_of_int (DM_LIMIT blue 0 mx) \<rparr>)"

definition fast_rgb8_at_green_gb :: "U8 buffer \<Rightarrow> demosaic_args \<Rightarrow> I32 \<Rightarrow> I32 \<Rightarrow> demosaic_pix_rgb8" where
  "fast_rgb8_at_green_gb bayer args row col =
     (let ncol = n_cols args;
          mx = uint (max_val args);
          p = (\<lambda>r c. uint (GET_PIX bayer ncol r c));
          red = red_blue_from_column_sum p row col sdiv 16;
          blue = red_blue_from_row_sum p row col sdiv 16
      in \<lparr> red = word_of_int (DM_LIMIT red 0 mx),
           green = GET_PIX bayer ncol row col,
           blue = word_of_int (DM_LIMIT blue 0 mx) \<rparr>)"

definition fast_rgb8_at_blue :: "U8 buffer \<Rightarrow> demosaic_args \<Rightarrow> I32 \<Rightarrow> I32 \<Rightarrow> demosaic_pix_rgb8" where
  "fast_rgb8_at_blue bayer args row col =
     (let ncol = n_cols args;
          mx = uint (max_val args);
          p = (\<lambda>r c. uint (GET_PIX bayer ncol r c));
          red = red_blue_from_opposite_sum p row col sdiv 16;
          green = green_sum p row col sdiv 8
      in \<lparr> red = word_of_int (DM_LIMIT red 0 mx),
           green = word_of_int (DM_LIMIT green 0 mx),
           blue = GET_PIX bayer ncol row col \<rparr>)"

definition demosaic_malvar_row_rgb8 ::
  "U8 buffer option \<Rightarrow> demosaic_args option \<Rightarrow> I32 \<Rightarrow> demosaic_pix_rgb8 buffer option
     \<Rightarrow> demosaic_pix_rgb8 buffer option outcome" where
  "demosaic_malvar_row_rgb8 bayer args row output_row =
     (case args of None \<Rightarrow> Fatal output_row | Some a \<Rightarrow>
      if row < 2 \<or> row \<ge> n_rows a - 2
      then demosaic_malvar_row_rgb8_unoptimized bayer args row output_row
      else
     (case output_row of None \<Rightarrow> Fatal output_row | Some out \<Rightarrow>
     (case bayer of None \<Rightarrow> Fatal output_row | Some b \<Rightarrow>
      if \<not> demosaic_malvar_assert_proper_dimensions a then Fatal output_row
      else if \<not> (0 \<le> row \<and> row < n_rows a) then Fatal output_row
      else if \<not> uint (max_val a) \<le> U8_MAX then Fatal output_row
      else (let ncol = n_cols a in
         if row smod 2 = 0
         then
           (let out = out(0 := get_rgb8_at_red8 b a row 0);
                out = out(1 := get_rgb8_at_green_rg8 b a row 1);
                out = row_loop (fast_rgb8_at_red b a row)
                        (fast_rgb8_at_green_rg b a row) (ncol - 2) 2 out;
                out = out(ncol - 2 := get_rgb8_at_red8 b a row (ncol - 2));
                out = out(ncol - 1 := get_rgb8_at_green_rg8 b a row (ncol - 1))
            in Returned (Some out))
         else
           (let out = out(0 := get_rgb8_at_green_gb8 b a row 0);
                out = out(1 := get_rgb8_at_blue8 b a row 1);
                out = row_loop (fast_rgb8_at_green_gb b a row)
                        (fast_rgb8_at_blue b a row) (ncol - 2) 2 out;
                out = out(ncol - 2 := get_rgb8_at_green_gb8 b a row (ncol - 2));
                out = out(ncol - 1 := get_rgb8_at_blue8 b a row (ncol - 1))
            in Returned (Some out))))))"

section \<open>16-bit Bayer to 8-bit RGB\<close>

definition demosaic_malvar_row_rgb16to8_unoptimized ::
  "U16 buffer option \<Rightarrow> demosaic_args option \<Rightarrow> I32 \<Rightarrow> demosaic_pix_rgb8 buffer option
     \<Rightarrow> demosaic_pix_rgb8 buffer option outcome" where
  "demosaic_malvar_row_rgb16to8_unoptimized bayer args row output_row =
     (case bayer of None \<Rightarrow> Fatal output_row | Some b \<Rightarrow>
     (case args of None \<Rightarrow> Fatal output_row | Some a \<Rightarrow>
     (case output_row of None \<Rightarrow> Fatal output_row | Some out \<Rightarrow>
      if \<not> demosaic_malvar_assert_proper_dimensions a then Fatal output_row
      else if \<not> (0 \<le> row \<and> row < n_rows a) then Fatal output_row
      else if \<not> rshift a \<ge> 0 then Fatal output_row
      else if rshift a \<ge> 32 then Undefined
      else if \<not> shr (uint (max_val a)) (rshift a) \<le> U8_MAX then Fatal output_row
      else if row smod 2 = 0
      then Returned (Some (row_loop (get_rgb8_at_red16 b a row)
                             (get_rgb8_at_green_rg16 b a row) (n_cols a) 0 out))
      else Returned (Some (row_loop (get_rgb8_at_green_gb16 b a row)
                             (get_rgb8_at_blue16 b a row) (n_cols a) 0 out)))))"

text \<open>The pixel computations of the fast loop of \<^verbatim>\<open>demosaic_malvar_row_rgb16to8\<close>, with its
  locals \<^verbatim>\<open>rshift\<close> and \<^verbatim>\<open>max_val_rshift\<close>.\<close>

definition fast_rgb16to8_at_red :: "U16 buffer \<Rightarrow> demosaic_args \<Rightarrow> I32 \<Rightarrow> I32 \<Rightarrow> demosaic_pix_rgb8" where
  "fast_rgb16to8_at_red bayer args row col =
     (let ncol = n_cols args;
          mx = uint (max_val args);
          rs = rshift args;
          max_val_rshift = (word_of_int (shr mx rs) :: U8);
          p = (\<lambda>r c. uint (GET_PIX bayer ncol r c));
          green = green_sum p row col sdiv 8;
          blue = red_blue_from_opposite_sum p row col sdiv 16
      in \<lparr> red = word_of_int (shr (uint (GET_PIX bayer ncol row col)) rs),
           green = word_of_int (limit_rshift green mx max_val_rshift rs),
           blue = word_of_int (limit_rshift blue mx max_val_rshift rs) \<rparr>)"

definition fast_rgb16to8_at_green_rg :: "U16 buffer \<Rightarrow> demosaic_args \<Rightarrow> I32 \<Rightarrow> I32 \<Rightarrow> demosaic_pix_rgb8" where
  "fast_rgb16to8_at_green_rg bayer args row col =
     (let ncol = n_cols args;
          mx = uint (max_val args);
          rs = rshift args;
          max_val_rshift = (word_of_int (shr mx rs) :: U8);
          p = (\<lambda>r c. uint (GET_PIX bayer ncol r c));
          red = red_blue_from_row_sum p row col sdiv 16;
          blue = red_blue_from_column_sum p row col sdiv 16
      in \<lparr> red = word_of_int (limit_rshift red mx max_val_rshift rs),
           green = word_of_int (shr (uint (GET_PIX bayer ncol row col)) rs),
           blue = word_of_int (limit_rshift blue mx max_val_rshift rs) \<rparr>)"

definition fast_rgb16to8_at_green_gb :: "U16 buffer \<Rightarrow> demosaic_args \<Rightarrow> I32 \<Rightarrow> I32 \<Rightarrow> demosaic_pix_rgb8" where
  "fast_rgb16to8_at_green_gb bayer args row col =
     (let ncol = n_cols args;
          mx = uint (max_val args);
          rs = rshift args;
          max_val_rshift = (word_of_int (shr mx rs) :: U8);
          p = (\<lambda>r c. uint (GET_PIX bayer ncol r c));
          red = red_blue_from_column_sum p row col sdiv 16;
          blue = red_blue_from_row_sum p row col sdiv 16
      in \<lparr> red = word_of_int (limit_rshift red mx max_val_rshift rs),
           green = word_of_int (shr (uint (GET_PIX bayer ncol row col)) rs),
           blue = word_of_int (limit_rshift blue mx max_val_rshift rs) \<rparr>)"

definition fast_rgb16to8_at_blue :: "U16 buffer \<Rightarrow> demosaic_args \<Rightarrow> I32 \<Rightarrow> I32 \<Rightarrow> demosaic_pix_rgb8" where
  "fast_rgb16to8_at_blue bayer args row col =
     (let ncol = n_cols args;
          mx = uint (max_val args);
          rs = rshift args;
          max_val_rshift = (word_of_int (shr mx rs) :: U8);
          p = (\<lambda>r c. uint (GET_PIX bayer ncol r c));
          red = red_blue_from_opposite_sum p row col sdiv 16;
          green = green_sum p row col sdiv 8
      in \<lparr> red = word_of_int (limit_rshift red mx max_val_rshift rs),
           green = word_of_int (limit_rshift green mx max_val_rshift rs),
           blue = word_of_int (shr (uint (GET_PIX bayer ncol row col)) rs) \<rparr>)"

definition demosaic_malvar_row_rgb16to8 ::
  "U16 buffer option \<Rightarrow> demosaic_args option \<Rightarrow> I32 \<Rightarrow> demosaic_pix_rgb8 buffer option
     \<Rightarrow> demosaic_pix_rgb8 buffer option outcome" where
  "demosaic_malvar_row_rgb16to8 bayer args row output_row =
     (case args of None \<Rightarrow> Fatal output_row | Some a \<Rightarrow>
      if row < 2 \<or> row \<ge> n_rows a - 2
      then demosaic_malvar_row_rgb16to8_unoptimized bayer args row output_row
      else
     (case output_row of None \<Rightarrow> Fatal output_row | Some out \<Rightarrow>
     (case bayer of None \<Rightarrow> Fatal output_row | Some b \<Rightarrow>
      if \<not> demosaic_malvar_assert_proper_dimensions a then Fatal output_row
      else if \<not> (0 \<le> row \<and> row < n_rows a) then Fatal output_row
      else if \<not> rshift a \<ge> 0 then Fatal output_row
      else if rshift a \<ge> 32 then Undefined
      else if \<not> shr (uint (max_val a)) (rshift a) \<le> U8_MAX then Fatal output_row
      else (let ncol = n_cols a in
         if row smod 2 = 0
         then
           (let out = out(0 := get_rgb8_at_red16 b a row 0);
                out = out(1 := get_rgb8_at_green_rg16 b a row 1);
                out = row_loop (fast_rgb16to8_at_red b a row)
                        (fast_rgb16to8_at_green_rg b a row) (ncol - 2) 2 out;
                out = out(ncol - 2 := get_rgb8_at_red16 b a row (ncol - 2));
                out = out(ncol - 1 := get_rgb8_at_green_rg16 b a row (ncol - 1))
            in Returned (Some out))
         else
           (let out = out(0 := get_rgb8_at_green_gb16 b a row 0);
                out = out(1 := get_rgb8_at_blue16 b a row 1);
                out = row_loop (fast_rgb16to8_at_green_gb b a row)
                        (fast_rgb16to8_at_blue b a row) (ncol - 2) 2 out;
                out = out(ncol - 2 := get_rgb8_at_green_gb16 b a row (ncol - 2));
                out = out(ncol - 1 := get_rgb8_at_blue16 b a row (ncol - 1))
            in Returned (Some out))))))"

section \<open>16-bit Bayer to 16-bit mono\<close>

definition demosaic_malvar_row_mono16_unoptimized ::
  "(F64 \<Rightarrow> F64) \<Rightarrow> U16 buffer option \<Rightarrow> demosaic_args option \<Rightarrow> I32 \<Rightarrow> U16 buffer option
     \<Rightarrow> U16 buffer option outcome" where
  "demosaic_malvar_row_mono16_unoptimized rnd bayer args row output_row =
     (case bayer of None \<Rightarrow> Fatal output_row | Some b \<Rightarrow>
     (case args of None \<Rightarrow> Fatal output_row | Some a \<Rightarrow>
     (case output_row of None \<Rightarrow> Fatal output_row | Some out \<Rightarrow>
      if \<not> demosaic_malvar_assert_proper_dimensions a then Fatal output_row
      else if \<not> (0 \<le> row \<and> row < n_rows a) then Fatal output_row
      else if \<not> coefs_in_range (coefs a) then Fatal output_row
      else (let cn = normalize_coefs rnd (coefs a) in
       if \<not> coefs_normed_sum rnd cn < 1 then Fatal output_row
       else if row smod 2 = 0
       then Returned (Some (row_loop (\<lambda>col. luma_of_rgb16 rnd cn (get_rgb16_at_red16 b a row col))
                              (\<lambda>col. luma_of_rgb16 rnd cn (get_rgb16_at_green_rg16 b a row col)) (n_cols a) 0 out))
       else Returned (Some (row_loop (\<lambda>col. luma_of_rgb16 rnd cn (get_rgb16_at_green_gb16 b a row col))
                              (\<lambda>col. luma_of_rgb16 rnd cn (get_rgb16_at_blue16 b a row col)) (n_cols a) 0 out))))))"

text \<open>The pixel computations of the fast loop of \<^verbatim>\<open>demosaic_malvar_row_mono16\<close>: the three
  channels are \<^verbatim>\<open>I32\<close> locals.\<close>

definition fast_mono16_at_red :: "(F64 \<Rightarrow> F64) \<Rightarrow> demosaic_luma_coefs \<Rightarrow> U16 buffer \<Rightarrow> demosaic_args \<Rightarrow> I32 \<Rightarrow> I32 \<Rightarrow> U16" where
  "fast_mono16_at_red rnd cn bayer args row col =
     (let ncol = n_cols args;
          mx = uint (max_val args);
          p = (\<lambda>r c. uint (GET_PIX bayer ncol r c));
          red = uint (GET_PIX bayer ncol row col);
          green = green_sum p row col sdiv 8;
          green = DM_LIMIT green 0 mx;
          blue = red_blue_from_opposite_sum p row col sdiv 16;
          blue = DM_LIMIT blue 0 mx
      in mix_to_U16 rnd cn red green blue)"

definition fast_mono16_at_green_rg :: "(F64 \<Rightarrow> F64) \<Rightarrow> demosaic_luma_coefs \<Rightarrow> U16 buffer \<Rightarrow> demosaic_args \<Rightarrow> I32 \<Rightarrow> I32 \<Rightarrow> U16" where
  "fast_mono16_at_green_rg rnd cn bayer args row col =
     (let ncol = n_cols args;
          mx = uint (max_val args);
          p = (\<lambda>r c. uint (GET_PIX bayer ncol r c));
          red = red_blue_from_row_sum p row col sdiv 16;
          red = DM_LIMIT red 0 mx;
          green = uint (GET_PIX bayer ncol row col);
          blue = red_blue_from_column_sum p row col sdiv 16;
          blue = DM_LIMIT blue 0 mx
      in mix_to_U16 rnd cn red green blue)"

definition fast_mono16_at_green_gb :: "(F64 \<Rightarrow> F64) \<Rightarrow> demosaic_luma_coefs \<Rightarrow> U16 buffer \<Rightarrow> demosaic_args \<Rightarrow> I32 \<Rightarrow> I32 \<Rightarrow> U16" where
  "fast_mono16_at_green_gb rnd cn bayer args row col =
     (let ncol = n_cols args;
          mx = uint (max_val args);
          p = (\<lambda>r c. uint (GET_PIX bayer ncol r c));
          red = red_blue_from_column_sum p row col sdiv 16;
          red = DM_LIMIT red 0 mx;
          green = uint (GET_PIX bayer ncol row col);
          blue = red_blue_from_row_sum p row col sdiv 16;
          blue = DM_LIMIT blue 0 mx
      in mix_to_U16 rnd cn red green blue)"

definition fast_mono16_at_blue :: "(F64 \<Rightarrow> F64) \<Rightarrow> demosaic_luma_coefs \<Rightarrow> U16 buffer \<Rightarrow> demosaic_args \<Rightarrow> I32 \<Rightarrow> I32 \<Rightarrow> U16" where
  "fast_mono16_at_blue rnd cn bayer args row col =
     (let ncol = n_cols args;
          mx = uint (max_val args);
          p = (\<lambda>r c. uint (GET_PIX bayer ncol r c));
          red = red_blue_from_opposite_sum p row col sdiv 16;
          red = DM_LIMIT red 0 mx;
          green = green_sum p row col sdiv 8;
          green = DM_LIMIT green 0 mx;
          blue = uint (GET_PIX bayer ncol row col)
      in mix_to_U16 rnd cn red green blue)"

definition demosaic_malvar_row_mono16 ::
  "(F64 \<Rightarrow> F64) \<Rightarrow> U16 buffer option \<Rightarrow> demosaic_args option \<Rightarrow> I32 \<Rightarrow> U16 buffer option
     \<Rightarrow> U16 buffer option outcome" where
  "demosaic_malvar_row_mono16 rnd bayer args row output_row =
     (case args of None \<Rightarrow> Fatal output_row | Some a \<Rightarrow>
      if row < 2 \<or> row \<ge> n_rows a - 2
      then demosaic_malvar_row_mono16_unoptimized rnd bayer args row output_row
      else
     (case output_row of None \<Rightarrow> Fatal output_row | Some out \<Rightarrow>
     (case bayer of None \<Rightarrow> Fatal output_row | Some b \<Rightarrow>
      if \<not> demosaic_malvar_assert_proper_dimensions a then Fatal output_row
      else if \<not> (0 \<le> row \<and> row < n_rows a) then Fatal output_row
      else if \<not> coefs_in_range (coefs a) then Fatal output_row
      else (let cn = normalize_coefs rnd (coefs a) in
       if \<not> coefs_normed_sum rnd cn < 1 then Fatal output_row
       else
        (let ncol = n_cols a in
         if row smod 2 = 0
         then
           (let out = out(0 := luma_of_rgb16 rnd cn (get_rgb16_at_red16 b a row 0));
                out = out(1 := luma_of_rgb16 rnd cn (get_rgb16_at_green_rg16 b a row 1));
                out = row_loop (fast_mono16_at_red rnd cn b a row)
                        (fast_mono16_at_green_rg rnd cn b a row) (ncol - 2) 2 out;
                out = out(ncol - 2 := luma_of_rgb16 rnd cn (get_rgb16_at_red16 b a row (ncol - 2)));
                out = out(ncol - 1 := luma_of_rgb16 rnd cn (get_rgb16_at_green_rg16 b a row (ncol - 1)))
            in Returned (Some out))
         else
           (let out = out(0 := luma_of_rgb16 rnd cn (get_rgb16_at_green_gb16 b a row 0));
                out = out(1 := luma_of_rgb16 rnd cn (get_rgb16_at_blue16 b a row 1));
                out = row_loop (fast_mono16_at_green_gb rnd cn b a row)
                        (fast_mono16_at_blue rnd cn b a row) (ncol - 2) 2 out;
                out = out(ncol - 2 := luma_of_rgb16 rnd cn (get_rgb16_at_green_gb16 b a row (ncol - 2)));
                out = out(ncol - 1 := luma_of_rgb16 rnd cn (get_rgb16_at_blue16 b a row (ncol - 1)))
            in Returned (Some out)))))))"

section \<open>8-bit Bayer to 8-bit mono\<close>

definition demosaic_malvar_row_mono8_unoptimized ::
  "(F64 \<Rightarrow> F64) \<Rightarrow> U8 buffer option \<Rightarrow> demosaic_args option \<Rightarrow> I32 \<Rightarrow> U8 buffer option
     \<Rightarrow> U8 buffer option outcome" where
  "demosaic_malvar_row_mono8_unoptimized rnd bayer args row output_row =
     (case bayer of None \<Rightarrow> Fatal output_row | Some b \<Rightarrow>
     (case args of None \<Rightarrow> Fatal output_row | Some a \<Rightarrow>
     (case output_row of None \<Rightarrow> Fatal output_row | Some out \<Rightarrow>
      if \<not> demosaic_malvar_assert_proper_dimensions a then Fatal output_row
      else if \<not> (0 \<le> row \<and> row < n_rows a) then Fatal output_row
      else if \<not> uint (max_val a) \<le> U8_MAX then Fatal output_row
      else if \<not> coefs_in_range (coefs a) then Fatal output_row
      else (let cn = normalize_coefs rnd (coefs a) in
       if \<not> coefs_normed_sum rnd cn < 1 then Fatal output_row
       else if row smod 2 = 0
       then Returned (Some (row_loop (\<lambda>col. luma_of_rgb8 rnd cn (get_rgb8_at_red8 b a row col))
                              (\<lambda>col. luma_of_rgb8 rnd cn (get_rgb8_at_green_rg8 b a row col)) (n_cols a) 0 out))
       else Returned (Some (row_loop (\<lambda>col. luma_of_rgb8 rnd cn (get_rgb8_at_green_gb8 b a row col))
                              (\<lambda>col. luma_of_rgb8 rnd cn (get_rgb8_at_blue8 b a row col)) (n_cols a) 0 out))))))"

text \<open>The pixel computations of the fast loop of \<^verbatim>\<open>demosaic_malvar_row_mono8\<close>.\<close>

definition fast_mono8_at_red :: "(F64 \<Rightarrow> F64) \<Rightarrow> demosaic_luma_coefs \<Rightarrow> U8 buffer \<Rightarrow> demosaic_args \<Rightarrow> I32 \<Rightarrow> I32 \<Rightarrow> U8" where
  "fast_mono8_at_red rnd cn bayer args row col =
     (let ncol = n_cols args;
          mx = uint (max_val args);
          p = (\<lambda>r c. uint (GET_PIX bayer ncol r c));
          red = uint (GET_PIX bayer ncol row col);
          green = green_sum p row col sdiv 8;
          green = DM_LIMIT green 0 mx;
          blue = red_blue_from_opposite_sum p row col sdiv 16;
          blue = DM_LIMIT blue 0 mx
      in mix_to_U8 rnd cn red green blue)"

definition fast_mono8_at_green_rg :: "(F64 \<Rightarrow> F64) \<Rightarrow> demosaic_luma_coefs \<Rightarrow> U8 buffer \<Rightarrow> demosaic_args \<Rightarrow> I32 \<Rightarrow> I32 \<Rightarrow> U8" where
  "fast_mono8_at_green_rg rnd cn bayer args row col =
     (let ncol = n_cols args;
          mx = uint (max_val args);
          p = (\<lambda>r c. uint (GET_PIX bayer ncol r c));
          red = red_blue_from_row_sum p row col sdiv 16;
          red = DM_LIMIT red 0 mx;
          green = uint (GET_PIX bayer ncol row col);
          blue = red_blue_from_column_sum p row col sdiv 16;
          blue = DM_LIMIT blue 0 mx
      in mix_to_U8 rnd cn red green blue)"

definition fast_mono8_at_green_gb :: "(F64 \<Rightarrow> F64) \<Rightarrow> demosaic_luma_coefs \<Rightarrow> U8 buffer \<Rightarrow> demosaic_args \<Rightarrow> I32 \<Rightarrow> I32 \<Rightarrow> U8" where
  "fast_mono8_at_green_gb rnd cn bayer args row col =
     (let ncol = n_cols args;
          mx = uint (max_val args);
          p = (\<lambda>r c. uint (GET_PIX bayer ncol r c));
          red = red_blue_from_column_sum p row col sdiv 16;
          red = DM_LIMIT red 0 mx;
          green = uint (GET_PIX bayer ncol row col);
          blue = red_blue_from_row_sum p row col sdiv 16;
          blue = DM_LIMIT blue 0 mx
      in mix_to_U8 rnd cn red green blue)"

definition fast_mono8_at_blue :: "(F64 \<Rightarrow> F64) \<Rightarrow> demosaic_luma_coefs \<Rightarrow> U8 buffer \<Rightarrow> demosaic_args \<Rightarrow> I32 \<Rightarrow> I32 \<Rightarrow> U8" where
  "fast_mono8_at_blue rnd cn bayer args row col =
     (let ncol = n_cols args;
          mx = uint (max_val args);
          p = (\<lambda>r c. uint (GET_PIX bayer ncol r c));
          red = red_blue_from_opposite_sum p row col sdiv 16;
          red = DM_LIMIT red 0 mx;
          green = green_sum p row col sdiv 8;
          green = DM_LIMIT green 0 mx;
          blue = uint (GET_PIX bayer ncol row col)
      in mix_to_U8 rnd cn red green blue)"

definition demosaic_malvar_row_mono8 ::
  "(F64 \<Rightarrow> F64) \<Rightarrow> U8 buffer option \<Rightarrow> demosaic_args option \<Rightarrow> I32 \<Rightarrow> U8 buffer option
     \<Rightarrow> U8 buffer option outcome" where
  "demosaic_malvar_row_mono8 rnd bayer args row output_row =
     (case args of None \<Rightarrow> Fatal output_row | Some a \<Rightarrow>
      if row < 2 \<or> row \<ge> n_rows a - 2
      then demosaic_malvar_row_mono8_unoptimized rnd bayer args row output_row
      else
     (case output_row of None \<Rightarrow> Fatal output_row | Some out \<Rightarrow>
     (case bayer of None \<Rightarrow> Fatal output_row | Some b \<Rightarrow>
      if \<not> demosaic_malvar_assert_proper_dimensions a then Fatal output_row
      else if \<not> (0 \<le> row \<and> row < n_rows a) then Fatal output_row
      else if \<not> uint (max_val a) \<le> U8_MAX then Fatal output_row
      else if \<not> coefs_in_range (coefs a) then Fatal output_row
      else (let cn = normalize_coefs rnd (coefs a) in
       if \<not> coefs_normed_sum rnd cn < 1 then Fatal output_row
       else
        (let ncol = n_cols a in
         if row smod 2 = 0
         then
           (let out = out(0 := luma_of_rgb8 rnd cn (get_rgb8_at_red8 b a row 0));
                out = out(1 := luma_of_rgb8 rnd cn (get_rgb8_at_green_rg8 b a row 1));
                out = row_loop (fast_mono8_at_red rnd cn b a row)
                        (fast_mono8_at_green_rg rnd cn b a row) (ncol - 2) 2 out;
                out = out(ncol - 2 := luma_of_rgb8 rnd cn (get_rgb8_at_red8 b a row (ncol - 2)));
                out = out(ncol - 1 := luma_of_rgb8 rnd cn (get_rgb8_at_green_rg8 b a row (ncol - 1)))
            in Returned (Some out))
         else
           (let out = out(0 := luma_of_rgb8 rnd cn (get_rgb8_at_green_gb8 b a row 0));
                out = out(1 := luma_of_rgb8 rnd cn (get_rgb8_at_blue8 b a row 1));
                out = row_loop (fast_mono8_at_green_gb rnd cn b a row)
                        (fast_mono8_at_blue rnd cn b a row) (ncol - 2) 2 out;
                out = out(ncol - 2 := luma_of_rgb8 rnd cn (get_rgb8_at_green_gb8 b a row (ncol - 2)));
                out = out(ncol - 1 := luma_of_rgb8 rnd cn (get_rgb8_at_blue8 b a row (ncol - 1)))
            in Returned (Some out)))))))"

section \<open>16-bit Bayer to 8-bit mono\<close>

definition demosaic_malvar_row_mono16to8_unoptimized ::
  "(F64 \<Rightarrow> F64) \<Rightarrow> U16 buffer option \<Rightarrow> demosaic_args option \<Rightarrow> I32 \<Rightarrow> U8 buffer option
     \<Rightarrow> U8 buffer option outcome" where
  "demosaic_malvar_row_mono16to8_unoptimized rnd bayer args row output_row =
     (case bayer of None \<Rightarrow> Fatal output_row | Some b \<Rightarrow>
     (case args of None \<Rightarrow> Fatal output_row | Some a \<Rightarrow>
     (case output_row of None \<Rightarrow> Fatal output_row | Some out \<Rightarrow>
      if \<not> demosaic_malvar_assert_proper_dimensions a then Fatal output_row
      else if \<not> (0 \<le> row \<and> row < n_rows a) then Fatal output_row
      else if \<not> coefs_in_range (coefs a) then Fatal output_row
      else if \<not> rshift a \<ge> 0 then Fatal output_row
      else if rshift a \<ge> 32 then Undefined
      else if \<not> shr (uint (max_val a)) (rshift a) \<le> U8_MAX then Fatal output_row
      else (let cn = normalize_coefs rnd (coefs a) in
       if \<not> coefs_normed_sum rnd cn < 1 then Fatal output_row
       else if row smod 2 = 0
       then Returned (Some (row_loop (\<lambda>col. luma_of_rgb8 rnd cn (get_rgb8_at_red16 b a row col))
                              (\<lambda>col. luma_of_rgb8 rnd cn (get_rgb8_at_green_rg16 b a row col)) (n_cols a) 0 out))
       else Returned (Some (row_loop (\<lambda>col. luma_of_rgb8 rnd cn (get_rgb8_at_green_gb16 b a row col))
                              (\<lambda>col. luma_of_rgb8 rnd cn (get_rgb8_at_blue16 b a row col)) (n_cols a) 0 out))))))"

text \<open>The pixel computations of the fast loop of \<^verbatim>\<open>demosaic_malvar_row_mono16to8\<close>: the three
  channels are \<^verbatim>\<open>I32\<close> locals, shifted but not stored in a \<^verbatim>\<open>U8\<close> before the mix.\<close>

definition fast_mono16to8_at_red :: "(F64 \<Rightarrow> F64) \<Rightarrow> demosaic_luma_coefs \<Rightarrow> U16 buffer \<Rightarrow> demosaic_args \<Rightarrow> I32 \<Rightarrow> I32 \<Rightarrow> U8" where
  "fast_mono16to8_at_red rnd cn bayer args row col =
     (let ncol = n_cols args;
          mx = uint (max_val args);
          rs = rshift args;
          max_val_rshift = (word_of_int (shr mx rs) :: U8);
          p = (\<lambda>r c. uint (GET_PIX bayer ncol r c));
          red = shr (uint (GET_PIX bayer ncol row col)) rs;
          green = green_sum p row col sdiv 8;
          green = limit_rshift green mx max_val_rshift rs;
          blue = red_blue_from_opposite_sum p row col sdiv 16;
          blue = limit_rshift blue mx max_val_rshift rs
      in mix_to_U8 rnd cn red green blue)"

definition fast_mono16to8_at_green_rg :: "(F64 \<Rightarrow> F64) \<Rightarrow> demosaic_luma_coefs \<Rightarrow> U16 buffer \<Rightarrow> demosaic_args \<Rightarrow> I32 \<Rightarrow> I32 \<Rightarrow> U8" where
  "fast_mono16to8_at_green_rg rnd cn bayer args row col =
     (let ncol = n_cols args;
          mx = uint (max_val args);
          rs = rshift args;
          max_val_rshift = (word_of_int (shr mx rs) :: U8);
          p = (\<lambda>r c. uint (GET_PIX bayer ncol r c));
          red = red_blue_from_row_sum p row col sdiv 16;
          red = limit_rshift red mx max_val_rshift rs;
          green = shr (uint (GET_PIX bayer ncol row col)) rs;
          blue = red_blue_from_column_sum p row col sdiv 16;
          blue = limit_rshift blue mx max_val_rshift rs
      in mix_to_U8 rnd cn red green blue)"

definition fast_mono16to8_at_green_gb :: "(F64 \<Rightarrow> F64) \<Rightarrow> demosaic_luma_coefs \<Rightarrow> U16 buffer \<Rightarrow> demosaic_args \<Rightarrow> I32 \<Rightarrow> I32 \<Rightarrow> U8" where
  "fast_mono16to8_at_green_gb rnd cn bayer args row col =
     (let ncol = n_cols args;
          mx = uint (max_val args);
          rs = rshift args;
          max_val_rshift = (word_of_int (shr mx rs) :: U8);
          p = (\<lambda>r c. uint (GET_PIX bayer ncol r c));
          red = red_blue_from_column_sum p row col sdiv 16;
          red = limit_rshift red mx max_val_rshift rs;
          green = shr (uint (GET_PIX bayer ncol row col)) rs;
          blue = red_blue_from_row_sum p row col sdiv 16;
          blue = limit_rshift blue mx max_val_rshift rs
      in mix_to_U8 rnd cn red green blue)"

definition fast_mono16to8_at_blue :: "(F64 \<Rightarrow> F64) \<Rightarrow> demosaic_luma_coefs \<Rightarrow> U16 buffer \<Rightarrow> demosaic_args \<Rightarrow> I32 \<Rightarrow> I32 \<Rightarrow> U8" where
  "fast_mono16to8_at_blue rnd cn bayer args row col =
     (let ncol = n_cols args;
          mx = uint (max_val args);
          rs = rshift args;
          max_val_rshift = (word_of_int (shr mx rs) :: U8);
          p = (\<lambda>r c. uint (GET_PIX bayer ncol r c));
          red = red_blue_from_opposite_sum p row col sdiv 16;
          red = limit_rshift red mx max_val_rshift rs;
          green = green_sum p row col sdiv 8;
          green = limit_rshift green mx max_val_rshift rs;
          blue = shr (uint (GET_PIX bayer ncol row col)) rs
      in mix_to_U8 rnd cn red green blue)"

definition demosaic_malvar_row_mono16to8 ::
  "(F64 \<Rightarrow> F64) \<Rightarrow> U16 buffer option \<Rightarrow> demosaic_args option \<Rightarrow> I32 \<Rightarrow> U8 buffer option
     \<Rightarrow> U8 buffer option outcome" where
  "demosaic_malvar_row_mono16to8 rnd bayer args row output_row =
     (case args of None \<Rightarrow> Fatal output_row | Some a \<Rightarrow>
      if row < 2 \<or> row \<ge> n_rows a - 2
      then demosaic_malvar_row_mono16to8_unoptimized rnd bayer args row output_row
      else
     (case output_row of None \<Rightarrow> Fatal output_row | Some out \<Rightarrow>
     (case bayer of None \<Rightarrow> Fatal output_row | Some b \<Rightarrow>
      if \<not> demosaic_malvar_assert_proper_dimensions a then Fatal output_row
      else if \<not> (0 \<le> row \<and> row < n_rows a) then Fatal output_row
      else if \<not> coefs_in_range (coefs a) then Fatal output_row
      else if \<not> rshift a \<ge> 0 then Fatal output_row
      else if rshift a \<ge> 32 then Undefined
      else if \<not> shr (uint (max_val a)) (rshift a) \<le> U8_MAX then Fatal output_row
      else (let cn = normalize_coefs rnd (coefs a) in
       if \<not> coefs_normed_sum rnd cn < 1 then Fatal output_row
       else
        (let ncol = n_cols a in
         if row smod 2 = 0
         then
           (let out = out(0 := luma_of_rgb8 rnd cn (get_rgb8_at_red16 b a row 0));
                out = out(1 := luma_of_rgb8 rnd cn (get_rgb8_at_green_rg16 b a row 1));
                out = row_loop (fast_mono16to8_at_red rnd cn b a row)
                        (fast_mono16to8_at_green_rg rnd cn b a row) (ncol - 2) 2 out;
                out = out(ncol - 2 := luma_of_rgb8 rnd cn (get_rgb8_at_red16 b a row (ncol - 2)));
                out = out(ncol - 1 := luma_of_rgb8 rnd cn (get_rgb8_at_green_rg16 b a row (ncol - 1)))
            in Returned (Some out))
         else
           (let out = out(0 := luma_of_rgb8 rnd cn (get_rgb8_at_green_gb16 b a row 0));
                out = out(1 := luma_of_rgb8 rnd cn (get_rgb8_at_blue16 b a row 1));
                out = row_loop (fast_mono16to8_at_green_gb rnd cn b a row)
                        (fast_mono16to8_at_blue rnd cn b a row) (ncol - 2) 2 out;
                out = out(ncol - 2 := luma_of_rgb8 rnd cn (get_rgb8_at_green_gb16 b a row (ncol - 2)));
                out = out(ncol - 1 := luma_of_rgb8 rnd cn (get_rgb8_at_blue16 b a row (ncol - 1)))
            in Returned (Some out)))))))"

section \<open>Notions used in the statements\<close>

text \<open>
  One coordinate after the two \<^verbatim>\<open>if\<close> statements of the accessor, and the positions
  that the fast loops handle.
\<close>

definition safe_coord :: "I32 \<Rightarrow> I32 \<Rightarrow> I32" where
  "safe_coord n x =
     (let x = (if x < 0 then (- x) smod 2 else x)
      in if x \<ge> n then n - 2 + (x smod 2) else x)"

definition interior :: "demosaic_args \<Rightarrow> I32 \<Rightarrow> I32 \<Rightarrow> bool" where
  "interior a row col \<longleftrightarrow> 2 \<le> row \<and> row < n_rows a - 2 \<and> 2 \<le> col \<and> col < n_cols a - 2"

text \<open>
  The remapping rule in the words of the specification: if the coordinate is negative,
  \<open>(-x) mod 2\<close>; if it is at least the dimension, \<open>n - 2 + (x mod 2)\<close>; \<open>mod\<close> is the
  mathematical remainder.
\<close>

definition remap_spec :: "int \<Rightarrow> int \<Rightarrow> int" where
  "remap_spec n x = (if x < 0 then (- x) mod 2 else if x \<ge> n then n - 2 + x mod 2 else x)"



definition rgb16to8_pixel :: "U16 buffer \<Rightarrow> demosaic_args \<Rightarrow> I32 \<Rightarrow> I32 \<Rightarrow> demosaic_pix_rgb8" where
  "rgb16to8_pixel bayer args row col =
     (if even row
      then (if even col then get_rgb8_at_red16 bayer args row col else get_rgb8_at_green_rg16 bayer args row col)
      else (if even col then get_rgb8_at_green_gb16 bayer args row col else get_rgb8_at_blue16 bayer args row col))"



definition mono16to8_pixel :: "(F64 \<Rightarrow> F64) \<Rightarrow> U16 buffer \<Rightarrow> demosaic_args \<Rightarrow> I32 \<Rightarrow> I32 \<Rightarrow> U8" where
  "mono16to8_pixel rnd bayer args row col =
     luma_of_rgb8 rnd (normalize_coefs rnd (coefs args)) (rgb16to8_pixel bayer args row col)"

text \<open>
  The arguments that pass every assertion of a row function, once the three pointers
  are not null. For the 16-to-8 row functions the assertions are evaluated as C defines
  them when \<^verbatim>\<open>rshift\<close> is below 32, which the statements add where they need it.
\<close>

definition valid_row :: "demosaic_args \<Rightarrow> I32 \<Rightarrow> bool" where
  "valid_row args row \<longleftrightarrow>
     demosaic_malvar_assert_proper_dimensions args \<and> 0 \<le> row \<and> row < n_rows args"

definition valid_rgb16 :: "demosaic_args \<Rightarrow> I32 \<Rightarrow> bool" where
  "valid_rgb16 args row \<longleftrightarrow>
     valid_row args row"

definition valid_rgb8 :: "demosaic_args \<Rightarrow> I32 \<Rightarrow> bool" where
  "valid_rgb8 args row \<longleftrightarrow>
     valid_row args row \<and>
     uint (max_val args) \<le> U8_MAX"

definition valid_rgb16to8 :: "demosaic_args \<Rightarrow> I32 \<Rightarrow> bool" where
  "valid_rgb16to8 args row \<longleftrightarrow>
     valid_row args row \<and>
     rshift args \<ge> 0 \<and>
     shr (uint (max_val args)) (rshift args) \<le> U8_MAX"

definition valid_mono16 :: "(F64 \<Rightarrow> F64) \<Rightarrow> demosaic_args \<Rightarrow> I32 \<Rightarrow> bool" where
  "valid_mono16 rnd args row \<longleftrightarrow>
     valid_row args row \<and>
     coefs_in_range (coefs args) \<and>
     coefs_normed_sum rnd (normalize_coefs rnd (coefs args)) < 1"

definition valid_mono8 :: "(F64 \<Rightarrow> F64) \<Rightarrow> demosaic_args \<Rightarrow> I32 \<Rightarrow> bool" where
  "valid_mono8 rnd args row \<longleftrightarrow>
     valid_row args row \<and>
     uint (max_val args) \<le> U8_MAX \<and>
     coefs_in_range (coefs args) \<and>
     coefs_normed_sum rnd (normalize_coefs rnd (coefs args)) < 1"

definition valid_mono16to8 :: "(F64 \<Rightarrow> F64) \<Rightarrow> demosaic_args \<Rightarrow> I32 \<Rightarrow> bool" where
  "valid_mono16to8 rnd args row \<longleftrightarrow>
     valid_row args row \<and>
     coefs_in_range (coefs args) \<and>
     rshift args \<ge> 0 \<and>
     shr (uint (max_val args)) (rshift args) \<le> U8_MAX \<and>
     coefs_normed_sum rnd (normalize_coefs rnd (coefs args)) < 1"

text \<open>
  The green kernel in the words of the specification: the nine weights, the nine
  offsets (row, column) at which they are placed, the weighted sum over an accessor,
  the division that truncates toward zero, and the clamping policy.
\<close>

definition green_weights :: "int list" where
  "green_weights = [- 1, 2, - 1, 2, 4, 2, - 1, 2, - 1]"

definition green_offsets :: "(int \<times> int) list" where
  "green_offsets = [(- 2, 0), (- 1, 0), (0, - 2), (0, - 1), (0, 0), (0, 1), (0, 2), (1, 0), (2, 0)]"

definition weighted_sum_spec :: "(int \<Rightarrow> int \<Rightarrow> int) \<Rightarrow> int \<Rightarrow> int \<Rightarrow> int list \<Rightarrow> (int \<times> int) list \<Rightarrow> int" where
  "weighted_sum_spec p row col ws offs =
     (\<Sum>(w, (dr, dc)) \<leftarrow> zip ws offs. w * p (row + dr) (col + dc))"

definition trunc_div_spec :: "int \<Rightarrow> int \<Rightarrow> int" where
  "trunc_div_spec a d = (if a \<ge> 0 then a div d else - ((- a) div d))"

definition clamp_spec :: "int \<Rightarrow> int \<Rightarrow> int" where
  "clamp_spec v mx = (if v \<ge> mx then mx else if v \<le> 0 then 0 else v)"

text \<open>
  The right shift in the words of the specification: shifting a non-negative value
  right by \<open>s\<close> bits is the quotient by \<open>2\<^sup>s\<close>, rounded down. Narrowing clamps to
  \<open>[0, max_val]\<close>, then shifts right.
\<close>

definition rshift_spec :: "int \<Rightarrow> int \<Rightarrow> int" where
  "rshift_spec x s = x div 2 ^ nat s"

definition narrow_spec :: "int \<Rightarrow> int \<Rightarrow> int \<Rightarrow> int" where
  "narrow_spec v mx rs = rshift_spec (clamp_spec v mx) rs"

text \<open>
  The range of a 32-bit signed integer, and the images all of whose flat indices are
  inside it: those of at most \<open>2\<^sup>3\<^sup>1 - 1\<close> samples.
\<close>

definition INT32_MIN :: int where "INT32_MIN = - 2147483648"

definition INT32_MAX :: int where "INT32_MAX = 2147483647"

definition image_fits_I32 :: "demosaic_args \<Rightarrow> bool" where
  "image_fits_I32 args \<longleftrightarrow> n_rows args * n_cols args \<le> INT32_MAX"

text \<open>Two buffers that hold the same image: they agree inside \<open>[0, n_rows * n_cols)\<close>.\<close>

definition same_image :: "'a buffer \<Rightarrow> 'a buffer \<Rightarrow> demosaic_args \<Rightarrow> bool" where
  "same_image b b' args \<longleftrightarrow> (\<forall>i. 0 \<le> i \<and> i < n_rows args * n_cols args \<longrightarrow> b i = b' i)"

text \<open>
  The element at a column of the row that a call returns, \<open>None\<close> when the call did not
  return; the channel of a pixel that has the Bayer colour of its position.
\<close>

definition returned_at :: "'o buffer option outcome \<Rightarrow> I32 \<Rightarrow> 'o option" where
  "returned_at res c = (case res of Returned (Some f) \<Rightarrow> Some (f c) | _ \<Rightarrow> None)"


text \<open>
  The argument faults of the precondition list: no arguments, no rows, an odd number of
  rows, fewer than two columns, a row outside the image; a maximal value that does not
  fit 8 bits, as it is or after the shift.
\<close>

definition rejected :: "demosaic_args option \<Rightarrow> I32 \<Rightarrow> bool" where
  "rejected args row \<longleftrightarrow>
     (case args of None \<Rightarrow> True
      | Some a \<Rightarrow> n_rows a = 0 \<or> odd (n_rows a) \<or> n_cols a < 2 \<or> row < 0 \<or> row \<ge> n_rows a)"

definition max_val_above_U8 :: "demosaic_args option \<Rightarrow> bool" where
  "max_val_above_U8 args \<longleftrightarrow> (case args of None \<Rightarrow> False | Some a \<Rightarrow> uint (max_val a) > 255)"

definition shifted_max_val_above_U8 :: "demosaic_args option \<Rightarrow> bool" where
  "shifted_max_val_above_U8 args \<longleftrightarrow>
     (case args of None \<Rightarrow> False
      | Some a \<Rightarrow> rshift a < 0 \<or> shr (uint (max_val a)) (rshift a) > 255)"

text \<open>
  A Bayer buffer in which no sample of the image exceeds \<^verbatim>\<open>max_val\<close>, and a pixel all of
  whose channels are at most \<open>m\<close>.
\<close>

definition samples_within :: "'a::len word buffer \<Rightarrow> demosaic_args \<Rightarrow> bool" where
  "samples_within bayer args \<longleftrightarrow>
     (\<forall>i. 0 \<le> i \<and> i < n_rows args * n_cols args \<longrightarrow> uint (bayer i) \<le> uint (max_val args))"



text \<open>
  The RGGB pattern, and an image every 2x2 block of which encodes the same triple.
\<close>

definition bayer_color :: "'a \<Rightarrow> 'a \<Rightarrow> 'a \<Rightarrow> I32 \<Rightarrow> I32 \<Rightarrow> 'a" where
  "bayer_color R G B row col =
     (if even row \<and> even col then R else if odd row \<and> odd col then B else G)"


section \<open>Concrete inputs\<close>

text \<open>
  Arguments with the luma coefficients of the unit tests (CCIR 601), arithmetic without
  rounding error, and some buffers: constant ones, single-colour ones of six columns,
  and a 6x6 image that is black except for one red sample above \<^verbatim>\<open>max_val\<close>.
\<close>

definition test_args :: "I32 \<Rightarrow> I32 \<Rightarrow> U16 \<Rightarrow> I32 \<Rightarrow> demosaic_args" where
  "test_args nr nc mv rs =
     \<lparr> n_rows = nr, n_cols = nc, max_val = mv, rshift = rs,
       coefs = \<lparr> red = 299 / 1000, green = 587 / 1000, blue = 114 / 1000 \<rparr> \<rparr>"

definition exact :: "F64 \<Rightarrow> F64" where
  "exact x = x"

definition bayer_4095 :: "U16 buffer" where
  "bayer_4095 i = 4095"


definition bayer8_200 :: "U8 buffer" where
  "bayer8_200 i = 200"

definition zero16 :: "U16 buffer" where
  "zero16 i = 0"

definition zero8 :: "U8 buffer" where
  "zero8 i = 0"

definition black16 :: "demosaic_pix_rgb16 buffer" where
  "black16 i = \<lparr> red = 0, green = 0, blue = 0 \<rparr>"

definition black8 :: "demosaic_pix_rgb8 buffer" where
  "black8 i = \<lparr> red = 0, green = 0, blue = 0 \<rparr>"

definition rgb_bayer :: "U16 buffer" where
  "rgb_bayer i = bayer_color 10 20 30 (i div 6) (i mod 6)"

definition rgb_bayer_padded :: "U16 buffer" where
  "rgb_bayer_padded i = (if 0 \<le> i \<and> i < 36 then rgb_bayer i else 65535)"


definition rgb_bayer8 :: "U8 buffer" where
  "rgb_bayer8 i = bayer_color 10 20 30 (i div 6) (i mod 6)"

definition spike_bayer :: "U16 buffer" where
  "spike_bayer i = (if i = 14 then 4096 else 0)"

definition spike_args :: demosaic_args where
  "spike_args = \<lparr> n_rows = 6, n_cols = 6, max_val = 4095, rshift = 4,
                   coefs = \<lparr> red = 1 / 2, green = 1 / 2, blue = 0 \<rparr> \<rparr>"

section \<open>The row loop\<close>

lemma row_loop_apply:
  "even (n - c0) \<Longrightarrow>
   row_loop f g n c0 out c =
     (if c0 \<le> c \<and> c < n then (if even (c - c0) then f c else g c) else out c)"
proof (induction f g n c0 out rule: row_loop.induct)
  case (1 f g n col out)
  show ?case
  proof (cases "col < n")
    case False
    then have "row_loop f g n col out = out" by (subst row_loop.simps) simp
    with False show ?thesis by auto
  next
    case True
    from "1.prems" have ev: "even (n - (col + 2))" by simp
    from True "1.prems" have lt: "col + 1 < n" by presburger
    have step: "row_loop f g n col out = row_loop f g n (col + 2) (out(col := f col, col + 1 := g (col + 1)))"
      using True by (subst row_loop.simps) simp
    show ?thesis
      unfolding step "1.IH"[OF True ev]
      using True lt by (auto elim: oddE)
  qed
qed

lemma fast_row_eq:
  assumes n: "even n" "2 \<le> n"
    and F: "\<And>c. 2 \<le> c \<Longrightarrow> c < n - 2 \<Longrightarrow> F c = A c"
    and G: "\<And>c. 2 \<le> c \<Longrightarrow> c < n - 2 \<Longrightarrow> G c = B c"
  shows "(row_loop F G (n - 2) 2 (out(0 := A 0, 1 := B 1)))(n - 2 := A (n - 2), n - 1 := B (n - 1))
         = row_loop A B n 0 out"
proof (rule ext)
  fix c
  have e1: "even (n - 2 - 2)" and e2: "even (n - 0)" using n by simp_all
  have odd1: "odd (n - 1)" using n by simp
  show "((row_loop F G (n - 2) 2 (out(0 := A 0, 1 := B 1)))(n - 2 := A (n - 2), n - 1 := B (n - 1))) c
         = row_loop A B n 0 out c"
    unfolding row_loop_apply[OF e2]
    using n F[of c] G[of c] odd1
    by (auto simp: row_loop_apply[OF e1])
qed

section \<open>The accessor\<close>

lemma I32_wrap_id: "- 2147483648 \<le> x \<Longrightarrow> x \<le> 2147483647 \<Longrightarrow> I32_wrap x = x"
  unfolding I32_wrap_def by (subst mod_pos_pos_trivial) simp_all

lemma get_pixel16_safe_coord:
  "get_pixel16_safe b nr nc r c = GET_PIX b nc (safe_coord nr r) (safe_coord nc c)"
  by (simp add: get_pixel16_safe_def GET_PIX_def safe_coord_def Let_def)

lemma get_pixel8_safe_coord:
  "get_pixel8_safe b nr nc r c = GET_PIX b nc (safe_coord nr r) (safe_coord nc c)"
  by (simp add: get_pixel8_safe_def GET_PIX_def safe_coord_def Let_def)

lemma safe_coord_inside: "0 \<le> x \<Longrightarrow> x < n \<Longrightarrow> safe_coord n x = x"
  by (simp add: safe_coord_def)

lemma safe16_interior:
  "2 \<le> row \<Longrightarrow> row < n_rows a - 2 \<Longrightarrow> 2 \<le> col \<Longrightarrow> col < n_cols a - 2 \<Longrightarrow>
   \<bar>dr\<bar> \<le> 2 \<Longrightarrow> \<bar>dc\<bar> \<le> 2 \<Longrightarrow>
   safe16 b a (row + dr) (col + dc) = uint (GET_PIX b (n_cols a) (row + dr) (col + dc))"
  by (simp add: safe16_def get_pixel16_safe_coord safe_coord_inside)

lemma safe8_interior:
  "2 \<le> row \<Longrightarrow> row < n_rows a - 2 \<Longrightarrow> 2 \<le> col \<Longrightarrow> col < n_cols a - 2 \<Longrightarrow>
   \<bar>dr\<bar> \<le> 2 \<Longrightarrow> \<bar>dc\<bar> \<le> 2 \<Longrightarrow>
   safe8 b a (row + dr) (col + dc) = uint (GET_PIX b (n_cols a) (row + dr) (col + dc))"
  by (simp add: safe8_def get_pixel8_safe_coord safe_coord_inside)

section \<open>The kernels read their taps only\<close>

lemma green_sum_cong:
  assumes h: "\<And>dr dc. \<bar>dr\<bar> \<le> 2 \<Longrightarrow> \<bar>dc\<bar> \<le> 2 \<Longrightarrow> p (row + dr) (col + dc) = q (row + dr) (col + dc)"
  shows "green_sum p row col = green_sum q row col"
  unfolding green_sum_def
  using h[of "-2" 0] h[of "-1" 0] h[of 0 "-2"] h[of 0 "-1"] h[of 0 0] h[of 0 1] h[of 0 2]
        h[of 1 0] h[of 2 0]
  by simp

lemma red_blue_from_row_sum_cong:
  assumes h: "\<And>dr dc. \<bar>dr\<bar> \<le> 2 \<Longrightarrow> \<bar>dc\<bar> \<le> 2 \<Longrightarrow> p (row + dr) (col + dc) = q (row + dr) (col + dc)"
  shows "red_blue_from_row_sum p row col = red_blue_from_row_sum q row col"
  unfolding red_blue_from_row_sum_def
  using h[of "-2" 0] h[of "-1" "-1"] h[of "-1" 1] h[of 0 "-2"] h[of 0 "-1"] h[of 0 0] h[of 0 1]
        h[of 0 2] h[of 1 "-1"] h[of 1 1] h[of 2 0]
  by simp

lemma red_blue_from_column_sum_cong:
  assumes h: "\<And>dr dc. \<bar>dr\<bar> \<le> 2 \<Longrightarrow> \<bar>dc\<bar> \<le> 2 \<Longrightarrow> p (row + dr) (col + dc) = q (row + dr) (col + dc)"
  shows "red_blue_from_column_sum p row col = red_blue_from_column_sum q row col"
  unfolding red_blue_from_column_sum_def
  using h[of "-2" 0] h[of "-1" "-1"] h[of "-1" 0] h[of "-1" 1] h[of 0 "-2"] h[of 0 0] h[of 0 2]
        h[of 1 "-1"] h[of 1 0] h[of 1 1] h[of 2 0]
  by simp

lemma red_blue_from_opposite_sum_cong:
  assumes h: "\<And>dr dc. \<bar>dr\<bar> \<le> 2 \<Longrightarrow> \<bar>dc\<bar> \<le> 2 \<Longrightarrow> p (row + dr) (col + dc) = q (row + dr) (col + dc)"
  shows "red_blue_from_opposite_sum p row col = red_blue_from_opposite_sum q row col"
  unfolding red_blue_from_opposite_sum_def
  using h[of "-2" 0] h[of "-1" "-1"] h[of "-1" 1] h[of 0 "-2"] h[of 0 0] h[of 0 2]
        h[of 1 "-1"] h[of 1 1] h[of 2 0]
  by simp

lemma sums16_interior:
  assumes "interior a row col"
  shows "green_sum (safe16 b a) row col = green_sum (\<lambda>r c. uint (GET_PIX b (n_cols a) r c)) row col"
    and "red_blue_from_row_sum (safe16 b a) row col = red_blue_from_row_sum (\<lambda>r c. uint (GET_PIX b (n_cols a) r c)) row col"
    and "red_blue_from_column_sum (safe16 b a) row col = red_blue_from_column_sum (\<lambda>r c. uint (GET_PIX b (n_cols a) r c)) row col"
    and "red_blue_from_opposite_sum (safe16 b a) row col = red_blue_from_opposite_sum (\<lambda>r c. uint (GET_PIX b (n_cols a) r c)) row col"
    and "get_pixel16_safe b (n_rows a) (n_cols a) row col = GET_PIX b (n_cols a) row col"
proof -
  have p: "\<And>dr dc. \<bar>dr\<bar> \<le> 2 \<Longrightarrow> \<bar>dc\<bar> \<le> 2 \<Longrightarrow>
     safe16 b a (row + dr) (col + dc) = uint (GET_PIX b (n_cols a) (row + dr) (col + dc))"
    using assms unfolding interior_def by (intro safe16_interior) simp_all
  show "green_sum (safe16 b a) row col = green_sum (\<lambda>r c. uint (GET_PIX b (n_cols a) r c)) row col"
    by (rule green_sum_cong) (rule p)
  show "red_blue_from_row_sum (safe16 b a) row col = red_blue_from_row_sum (\<lambda>r c. uint (GET_PIX b (n_cols a) r c)) row col"
    by (rule red_blue_from_row_sum_cong) (rule p)
  show "red_blue_from_column_sum (safe16 b a) row col = red_blue_from_column_sum (\<lambda>r c. uint (GET_PIX b (n_cols a) r c)) row col"
    by (rule red_blue_from_column_sum_cong) (rule p)
  show "red_blue_from_opposite_sum (safe16 b a) row col = red_blue_from_opposite_sum (\<lambda>r c. uint (GET_PIX b (n_cols a) r c)) row col"
    by (rule red_blue_from_opposite_sum_cong) (rule p)
  show "get_pixel16_safe b (n_rows a) (n_cols a) row col = GET_PIX b (n_cols a) row col"
    using assms unfolding interior_def
    by (simp add: get_pixel16_safe_coord safe_coord_inside)
qed

lemma sums8_interior:
  assumes "interior a row col"
  shows "green_sum (safe8 b a) row col = green_sum (\<lambda>r c. uint (GET_PIX b (n_cols a) r c)) row col"
    and "red_blue_from_row_sum (safe8 b a) row col = red_blue_from_row_sum (\<lambda>r c. uint (GET_PIX b (n_cols a) r c)) row col"
    and "red_blue_from_column_sum (safe8 b a) row col = red_blue_from_column_sum (\<lambda>r c. uint (GET_PIX b (n_cols a) r c)) row col"
    and "red_blue_from_opposite_sum (safe8 b a) row col = red_blue_from_opposite_sum (\<lambda>r c. uint (GET_PIX b (n_cols a) r c)) row col"
    and "get_pixel8_safe b (n_rows a) (n_cols a) row col = GET_PIX b (n_cols a) row col"
proof -
  have p: "\<And>dr dc. \<bar>dr\<bar> \<le> 2 \<Longrightarrow> \<bar>dc\<bar> \<le> 2 \<Longrightarrow>
     safe8 b a (row + dr) (col + dc) = uint (GET_PIX b (n_cols a) (row + dr) (col + dc))"
    using assms unfolding interior_def by (intro safe8_interior) simp_all
  show "green_sum (safe8 b a) row col = green_sum (\<lambda>r c. uint (GET_PIX b (n_cols a) r c)) row col"
    by (rule green_sum_cong) (rule p)
  show "red_blue_from_row_sum (safe8 b a) row col = red_blue_from_row_sum (\<lambda>r c. uint (GET_PIX b (n_cols a) r c)) row col"
    by (rule red_blue_from_row_sum_cong) (rule p)
  show "red_blue_from_column_sum (safe8 b a) row col = red_blue_from_column_sum (\<lambda>r c. uint (GET_PIX b (n_cols a) r c)) row col"
    by (rule red_blue_from_column_sum_cong) (rule p)
  show "red_blue_from_opposite_sum (safe8 b a) row col = red_blue_from_opposite_sum (\<lambda>r c. uint (GET_PIX b (n_cols a) r c)) row col"
    by (rule red_blue_from_opposite_sum_cong) (rule p)
  show "get_pixel8_safe b (n_rows a) (n_cols a) row col = GET_PIX b (n_cols a) row col"
    using assms unfolding interior_def
    by (simp add: get_pixel8_safe_coord safe_coord_inside)
qed

section \<open>Casts\<close>

lemma DM_LIMIT_range: "0 \<le> mx \<Longrightarrow> 0 \<le> DM_LIMIT v 0 mx \<and> DM_LIMIT v 0 mx \<le> mx"
  by (simp add: DM_LIMIT_def)

lemma uint_U16_DM_LIMIT:
  "uint (word_of_int (DM_LIMIT v 0 (uint (m :: U16))) :: U16) = DM_LIMIT v 0 (uint m)"
proof -
  have "uint m < 65536" using uint_bounded[of m] by simp
  with DM_LIMIT_range[of "uint m" v] show ?thesis
    by (simp add: uint_word_of_int)
qed

lemma uint_U8_small: "0 \<le> x \<Longrightarrow> x \<le> 255 \<Longrightarrow> uint (word_of_int x :: U8) = x"
  by (simp add: uint_word_of_int)

lemma ucast_U16_U8: "(ucast (word_of_int x :: U16) :: U8) = word_of_int x"
  by (rule bit_word_eqI) (auto simp add: bit_simps)

lemma shr_mono: "x \<le> y \<Longrightarrow> shr x s \<le> shr y s"
  by (simp add: shr_def drop_bit_eq_div zdiv_mono1)

lemma shr_nonneg: "0 \<le> x \<Longrightarrow> 0 \<le> shr x s"
  by (simp add: shr_def)

lemma shr_zero [simp]: "shr 0 s = 0"
  by (simp add: shr_def)

lemma shr_spec: "shr x s = rshift_spec x s"
  by (simp add: shr_def rshift_spec_def drop_bit_eq_div)

lemma shr_U16_above: "255 < shr (uint (m :: U16)) s \<Longrightarrow> s < 32"
proof (rule ccontr)
  assume h: "255 < shr (uint m) s" "\<not> s < 32"
  have "uint m < 2 ^ 16" using uint_bounded[of m] by simp
  also have "(2 :: int) ^ 16 \<le> 2 ^ nat s" using h(2) by (intro power_increasing) simp_all
  finally have "uint m div 2 ^ nat s = 0" by (intro div_pos_pos_trivial) simp_all
  with h(1) show False by (simp add: shr_def drop_bit_eq_div)
qed

text \<open>Limit, cast, shift, cast is the one-expression form of the fast loops.\<close>

lemma narrow_limit:
  "(word_of_int (shr (uint (word_of_int (DM_LIMIT v 0 (uint (m :: U16))) :: U16)) rs) :: U8)
   = word_of_int (limit_rshift v (uint m) (word_of_int (shr (uint m) rs)) rs)"
  unfolding uint_U16_DM_LIMIT
  by (simp add: DM_LIMIT_def limit_rshift_def)

lemma narrow_limit_uint:
  assumes "shr (uint (m :: U16)) rs \<le> 255"
  shows "uint (word_of_int (shr (uint (word_of_int (DM_LIMIT v 0 (uint m)) :: U16)) rs) :: U8)
   = limit_rshift v (uint m) (word_of_int (shr (uint m) rs)) rs"
proof -
  have r: "0 \<le> DM_LIMIT v 0 (uint m)" "DM_LIMIT v 0 (uint m) \<le> uint m"
    using DM_LIMIT_range[of "uint m" v] by simp_all
  have "0 \<le> shr (DM_LIMIT v 0 (uint m)) rs" "shr (DM_LIMIT v 0 (uint m)) rs \<le> 255"
    using r shr_nonneg shr_mono[of "DM_LIMIT v 0 (uint m)" "uint m" rs] assms by auto
  then have "uint (word_of_int (shr (DM_LIMIT v 0 (uint m)) rs) :: U8) = shr (DM_LIMIT v 0 (uint m)) rs"
    by (rule uint_U8_small)
  moreover have "shr (DM_LIMIT v 0 (uint m)) rs = limit_rshift v (uint m) (word_of_int (shr (uint m) rs)) rs"
    using assms shr_nonneg[of "uint m" rs]
    by (simp add: DM_LIMIT_def limit_rshift_def uint_U8_small)
  ultimately show ?thesis unfolding uint_U16_DM_LIMIT by simp
qed

lemmas safe_helper_defs =
  get_green16_def get_red_blue_from_row16_def get_red_blue_from_column16_def
  get_red_blue_from_opposite16_def
  get_green8_def get_red_blue_from_row8_def get_red_blue_from_column8_def
  get_red_blue_from_opposite8_def

lemmas safe_pixel_defs =
  get_rgb16_at_red16_def get_rgb16_at_green_rg16_def get_rgb16_at_green_gb16_def get_rgb16_at_blue16_def
  get_rgb8_at_red8_def get_rgb8_at_green_rg8_def get_rgb8_at_green_gb8_def get_rgb8_at_blue8_def
  get_rgb8_at_red16_def get_rgb8_at_green_rg16_def get_rgb8_at_green_gb16_def get_rgb8_at_blue16_def

lemma fast_rgb16_interior:
  assumes "interior a row col"
  shows "fast_rgb16_at_red b a row col = get_rgb16_at_red16 b a row col"
    and "fast_rgb16_at_green_rg b a row col = get_rgb16_at_green_rg16 b a row col"
    and "fast_rgb16_at_green_gb b a row col = get_rgb16_at_green_gb16 b a row col"
    and "fast_rgb16_at_blue b a row col = get_rgb16_at_blue16 b a row col"
  by (simp_all add: fast_rgb16_at_red_def fast_rgb16_at_green_rg_def fast_rgb16_at_green_gb_def
      fast_rgb16_at_blue_def safe_pixel_defs safe_helper_defs Let_def sums16_interior[OF assms])

lemma fast_rgb8_interior:
  assumes "interior a row col"
  shows "fast_rgb8_at_red b a row col = get_rgb8_at_red8 b a row col"
    and "fast_rgb8_at_green_rg b a row col = get_rgb8_at_green_rg8 b a row col"
    and "fast_rgb8_at_green_gb b a row col = get_rgb8_at_green_gb8 b a row col"
    and "fast_rgb8_at_blue b a row col = get_rgb8_at_blue8 b a row col"
  by (simp_all add: fast_rgb8_at_red_def fast_rgb8_at_green_rg_def fast_rgb8_at_green_gb_def
      fast_rgb8_at_blue_def safe_pixel_defs safe_helper_defs Let_def sums8_interior[OF assms]
      ucast_U16_U8)

lemma fast_rgb16to8_interior:
  assumes "interior a row col"
  shows "fast_rgb16to8_at_red b a row col = get_rgb8_at_red16 b a row col"
    and "fast_rgb16to8_at_green_rg b a row col = get_rgb8_at_green_rg16 b a row col"
    and "fast_rgb16to8_at_green_gb b a row col = get_rgb8_at_green_gb16 b a row col"
    and "fast_rgb16to8_at_blue b a row col = get_rgb8_at_blue16 b a row col"
  by (simp_all add: fast_rgb16to8_at_red_def fast_rgb16to8_at_green_rg_def fast_rgb16to8_at_green_gb_def
      fast_rgb16to8_at_blue_def safe_pixel_defs safe_helper_defs Let_def sums16_interior[OF assms]
      narrow_limit)

lemma fast_mono16_interior:
  assumes "interior a row col"
  shows "fast_mono16_at_red rnd cn b a row col = luma_of_rgb16 rnd cn (get_rgb16_at_red16 b a row col)"
    and "fast_mono16_at_green_rg rnd cn b a row col = luma_of_rgb16 rnd cn (get_rgb16_at_green_rg16 b a row col)"
    and "fast_mono16_at_green_gb rnd cn b a row col = luma_of_rgb16 rnd cn (get_rgb16_at_green_gb16 b a row col)"
    and "fast_mono16_at_blue rnd cn b a row col = luma_of_rgb16 rnd cn (get_rgb16_at_blue16 b a row col)"
  by (simp_all add: fast_mono16_at_red_def fast_mono16_at_green_rg_def fast_mono16_at_green_gb_def
      fast_mono16_at_blue_def luma_of_rgb16_def safe_pixel_defs safe_helper_defs Let_def
      sums16_interior[OF assms] uint_U16_DM_LIMIT)

lemma uint_U8_DM_LIMIT:
  assumes "uint (m :: U16) \<le> 255"
  shows "uint (word_of_int (DM_LIMIT v 0 (uint m)) :: U8) = DM_LIMIT v 0 (uint m)"
    and "uint (ucast (word_of_int (DM_LIMIT v 0 (uint m)) :: U16) :: U8) = DM_LIMIT v 0 (uint m)"
proof -
  have "0 \<le> DM_LIMIT v 0 (uint m)" "DM_LIMIT v 0 (uint m) \<le> 255"
    using DM_LIMIT_range[of "uint m" v] assms by simp_all
  then show "uint (word_of_int (DM_LIMIT v 0 (uint m)) :: U8) = DM_LIMIT v 0 (uint m)"
    by (rule uint_U8_small)
  then show "uint (ucast (word_of_int (DM_LIMIT v 0 (uint m)) :: U16) :: U8) = DM_LIMIT v 0 (uint m)"
    by (simp add: ucast_U16_U8)
qed

lemma fast_mono8_interior:
  assumes "interior a row col" and m: "uint (max_val a) \<le> 255"
  shows "fast_mono8_at_red rnd cn b a row col = luma_of_rgb8 rnd cn (get_rgb8_at_red8 b a row col)"
    and "fast_mono8_at_green_rg rnd cn b a row col = luma_of_rgb8 rnd cn (get_rgb8_at_green_rg8 b a row col)"
    and "fast_mono8_at_green_gb rnd cn b a row col = luma_of_rgb8 rnd cn (get_rgb8_at_green_gb8 b a row col)"
    and "fast_mono8_at_blue rnd cn b a row col = luma_of_rgb8 rnd cn (get_rgb8_at_blue8 b a row col)"
  by (simp_all add: fast_mono8_at_red_def fast_mono8_at_green_rg_def fast_mono8_at_green_gb_def
      fast_mono8_at_blue_def luma_of_rgb8_def safe_pixel_defs safe_helper_defs Let_def
      sums8_interior[OF assms(1)] uint_U8_DM_LIMIT[OF m])

lemma fast_mono16to8_interior:
  assumes "interior a row col" and m: "shr (uint (max_val a)) (rshift a) \<le> 255"
    and s: "shr (uint (GET_PIX b (n_cols a) row col)) (rshift a) \<le> 255"
  shows "fast_mono16to8_at_red rnd cn b a row col = luma_of_rgb8 rnd cn (get_rgb8_at_red16 b a row col)"
    and "fast_mono16to8_at_green_rg rnd cn b a row col = luma_of_rgb8 rnd cn (get_rgb8_at_green_rg16 b a row col)"
    and "fast_mono16to8_at_green_gb rnd cn b a row col = luma_of_rgb8 rnd cn (get_rgb8_at_green_gb16 b a row col)"
    and "fast_mono16to8_at_blue rnd cn b a row col = luma_of_rgb8 rnd cn (get_rgb8_at_blue16 b a row col)"
proof -
  have own: "uint (word_of_int (shr (uint (GET_PIX b (n_cols a) row col)) (rshift a)) :: U8)
      = shr (uint (GET_PIX b (n_cols a) row col)) (rshift a)"
    using s by (intro uint_U8_small shr_nonneg) simp_all
  show "fast_mono16to8_at_red rnd cn b a row col = luma_of_rgb8 rnd cn (get_rgb8_at_red16 b a row col)"
    and "fast_mono16to8_at_green_rg rnd cn b a row col = luma_of_rgb8 rnd cn (get_rgb8_at_green_rg16 b a row col)"
    and "fast_mono16to8_at_green_gb rnd cn b a row col = luma_of_rgb8 rnd cn (get_rgb8_at_green_gb16 b a row col)"
    and "fast_mono16to8_at_blue rnd cn b a row col = luma_of_rgb8 rnd cn (get_rgb8_at_blue16 b a row col)"
    by (simp_all add: fast_mono16to8_at_red_def fast_mono16to8_at_green_rg_def
        fast_mono16to8_at_green_gb_def fast_mono16to8_at_blue_def luma_of_rgb8_def safe_pixel_defs
        safe_helper_defs Let_def sums16_interior[OF assms(1)] narrow_limit_uint[OF m] own)
qed

lemma smod2_even: "(x :: int) smod 2 = 0 \<longleftrightarrow> even x"
  by (auto simp: smod_int_alt_def sgn_if abs_if)

lemma proper_dimensionsD:
  assumes "demosaic_malvar_assert_proper_dimensions a"
  shows "even (n_cols a)" "2 \<le> n_cols a" "even (n_rows a)" "2 \<le> n_rows a"
  using assms by (simp_all add: demosaic_malvar_assert_proper_dimensions_def smod2_even)

lemma interior_row:
  "\<not> (row < 2 \<or> row \<ge> n_rows a - 2) \<Longrightarrow> 2 \<le> c \<Longrightarrow> c < n_cols a - 2 \<Longrightarrow> interior a row c"
  by (simp add: interior_def)

lemma rgb16_row_eq:
  "demosaic_malvar_row_rgb16 bayer args row output_row
   = demosaic_malvar_row_rgb16_unoptimized bayer args row output_row"
proof (cases args)
  case None
  then show ?thesis
    by (simp add: demosaic_malvar_row_rgb16_def demosaic_malvar_row_rgb16_unoptimized_def
        split: option.splits)
next
  case (Some a)
  show ?thesis
  proof (cases "row < 2 \<or> row \<ge> n_rows a - 2")
    case True
    with Some show ?thesis by (simp add: demosaic_malvar_row_rgb16_def)
  next
    case mid: False
    show ?thesis
    proof (cases "demosaic_malvar_assert_proper_dimensions a")
      case False
      with Some mid show ?thesis
        by (simp add: demosaic_malvar_row_rgb16_def demosaic_malvar_row_rgb16_unoptimized_def
            split: option.splits)
    next
      case True
      note d = proper_dimensionsD[OF True]
      note i = interior_row[OF mid]
      have rg: "(row_loop (fast_rgb16_at_red b a row)
           (fast_rgb16_at_green_rg b a row) (n_cols a - 2) 2
           (out(0 := get_rgb16_at_red16 b a row 0,
                1 := get_rgb16_at_green_rg16 b a row 1)))
         (n_cols a - 2 := get_rgb16_at_red16 b a row (n_cols a - 2),
          n_cols a - 1 := get_rgb16_at_green_rg16 b a row (n_cols a - 1))
        = row_loop (get_rgb16_at_red16 b a row)
           (get_rgb16_at_green_rg16 b a row) (n_cols a) 0 out"
        for b out
        by (rule fast_row_eq[OF d(1,2), where A = "(get_rgb16_at_red16 b a row)"
              and B = "(get_rgb16_at_green_rg16 b a row)"])
           (simp_all add: fast_rgb16_interior i)
      have gb: "(row_loop (fast_rgb16_at_green_gb b a row)
           (fast_rgb16_at_blue b a row) (n_cols a - 2) 2
           (out(0 := get_rgb16_at_green_gb16 b a row 0,
                1 := get_rgb16_at_blue16 b a row 1)))
         (n_cols a - 2 := get_rgb16_at_green_gb16 b a row (n_cols a - 2),
          n_cols a - 1 := get_rgb16_at_blue16 b a row (n_cols a - 1))
        = row_loop (get_rgb16_at_green_gb16 b a row)
           (get_rgb16_at_blue16 b a row) (n_cols a) 0 out"
        for b out
        by (rule fast_row_eq[OF d(1,2), where A = "(get_rgb16_at_green_gb16 b a row)"
              and B = "(get_rgb16_at_blue16 b a row)"])
           (simp_all add: fast_rgb16_interior i)
      from Some mid True show ?thesis
        by (simp add: demosaic_malvar_row_rgb16_def demosaic_malvar_row_rgb16_unoptimized_def
            Let_def rg gb split: option.splits)
    qed
  qed
qed

lemma rgb8_row_eq:
  "demosaic_malvar_row_rgb8 bayer args row output_row
   = demosaic_malvar_row_rgb8_unoptimized bayer args row output_row"
proof (cases args)
  case None
  then show ?thesis
    by (simp add: demosaic_malvar_row_rgb8_def demosaic_malvar_row_rgb8_unoptimized_def
        split: option.splits)
next
  case (Some a)
  show ?thesis
  proof (cases "row < 2 \<or> row \<ge> n_rows a - 2")
    case True
    with Some show ?thesis by (simp add: demosaic_malvar_row_rgb8_def)
  next
    case mid: False
    show ?thesis
    proof (cases "demosaic_malvar_assert_proper_dimensions a")
      case False
      with Some mid show ?thesis
        by (simp add: demosaic_malvar_row_rgb8_def demosaic_malvar_row_rgb8_unoptimized_def
            split: option.splits)
    next
      case True
      note d = proper_dimensionsD[OF True]
      note i = interior_row[OF mid]
      have rg: "(row_loop (fast_rgb8_at_red b a row)
           (fast_rgb8_at_green_rg b a row) (n_cols a - 2) 2
           (out(0 := get_rgb8_at_red8 b a row 0,
                1 := get_rgb8_at_green_rg8 b a row 1)))
         (n_cols a - 2 := get_rgb8_at_red8 b a row (n_cols a - 2),
          n_cols a - 1 := get_rgb8_at_green_rg8 b a row (n_cols a - 1))
        = row_loop (get_rgb8_at_red8 b a row)
           (get_rgb8_at_green_rg8 b a row) (n_cols a) 0 out"
        for b out
        by (rule fast_row_eq[OF d(1,2), where A = "(get_rgb8_at_red8 b a row)"
              and B = "(get_rgb8_at_green_rg8 b a row)"])
           (simp_all add: fast_rgb8_interior i)
      have gb: "(row_loop (fast_rgb8_at_green_gb b a row)
           (fast_rgb8_at_blue b a row) (n_cols a - 2) 2
           (out(0 := get_rgb8_at_green_gb8 b a row 0,
                1 := get_rgb8_at_blue8 b a row 1)))
         (n_cols a - 2 := get_rgb8_at_green_gb8 b a row (n_cols a - 2),
          n_cols a - 1 := get_rgb8_at_blue8 b a row (n_cols a - 1))
        = row_loop (get_rgb8_at_green_gb8 b a row)
           (get_rgb8_at_blue8 b a row) (n_cols a) 0 out"
        for b out
        by (rule fast_row_eq[OF d(1,2), where A = "(get_rgb8_at_green_gb8 b a row)"
              and B = "(get_rgb8_at_blue8 b a row)"])
           (simp_all add: fast_rgb8_interior i)
      from Some mid True show ?thesis
        by (simp add: demosaic_malvar_row_rgb8_def demosaic_malvar_row_rgb8_unoptimized_def
            Let_def rg gb split: option.splits)
    qed
  qed
qed

lemma rgb16to8_row_eq:
  "demosaic_malvar_row_rgb16to8 bayer args row output_row
   = demosaic_malvar_row_rgb16to8_unoptimized bayer args row output_row"
proof (cases args)
  case None
  then show ?thesis
    by (simp add: demosaic_malvar_row_rgb16to8_def demosaic_malvar_row_rgb16to8_unoptimized_def
        split: option.splits)
next
  case (Some a)
  show ?thesis
  proof (cases "row < 2 \<or> row \<ge> n_rows a - 2")
    case True
    with Some show ?thesis by (simp add: demosaic_malvar_row_rgb16to8_def)
  next
    case mid: False
    show ?thesis
    proof (cases "demosaic_malvar_assert_proper_dimensions a")
      case False
      with Some mid show ?thesis
        by (simp add: demosaic_malvar_row_rgb16to8_def demosaic_malvar_row_rgb16to8_unoptimized_def
            split: option.splits)
    next
      case True
      note d = proper_dimensionsD[OF True]
      note i = interior_row[OF mid]
      have rg: "(row_loop (fast_rgb16to8_at_red b a row)
           (fast_rgb16to8_at_green_rg b a row) (n_cols a - 2) 2
           (out(0 := get_rgb8_at_red16 b a row 0,
                1 := get_rgb8_at_green_rg16 b a row 1)))
         (n_cols a - 2 := get_rgb8_at_red16 b a row (n_cols a - 2),
          n_cols a - 1 := get_rgb8_at_green_rg16 b a row (n_cols a - 1))
        = row_loop (get_rgb8_at_red16 b a row)
           (get_rgb8_at_green_rg16 b a row) (n_cols a) 0 out"
        for b out
        by (rule fast_row_eq[OF d(1,2), where A = "(get_rgb8_at_red16 b a row)"
              and B = "(get_rgb8_at_green_rg16 b a row)"])
           (simp_all add: fast_rgb16to8_interior i)
      have gb: "(row_loop (fast_rgb16to8_at_green_gb b a row)
           (fast_rgb16to8_at_blue b a row) (n_cols a - 2) 2
           (out(0 := get_rgb8_at_green_gb16 b a row 0,
                1 := get_rgb8_at_blue16 b a row 1)))
         (n_cols a - 2 := get_rgb8_at_green_gb16 b a row (n_cols a - 2),
          n_cols a - 1 := get_rgb8_at_blue16 b a row (n_cols a - 1))
        = row_loop (get_rgb8_at_green_gb16 b a row)
           (get_rgb8_at_blue16 b a row) (n_cols a) 0 out"
        for b out
        by (rule fast_row_eq[OF d(1,2), where A = "(get_rgb8_at_green_gb16 b a row)"
              and B = "(get_rgb8_at_blue16 b a row)"])
           (simp_all add: fast_rgb16to8_interior i)
      from Some mid True show ?thesis
        by (simp add: demosaic_malvar_row_rgb16to8_def demosaic_malvar_row_rgb16to8_unoptimized_def
            Let_def rg gb split: option.splits)
    qed
  qed
qed

lemma mono16_row_eq:
  "demosaic_malvar_row_mono16 rnd bayer args row output_row
   = demosaic_malvar_row_mono16_unoptimized rnd bayer args row output_row"
proof (cases args)
  case None
  then show ?thesis
    by (simp add: demosaic_malvar_row_mono16_def demosaic_malvar_row_mono16_unoptimized_def
        split: option.splits)
next
  case (Some a)
  show ?thesis
  proof (cases "row < 2 \<or> row \<ge> n_rows a - 2")
    case True
    with Some show ?thesis by (simp add: demosaic_malvar_row_mono16_def)
  next
    case mid: False
    show ?thesis
    proof (cases "demosaic_malvar_assert_proper_dimensions a")
      case False
      with Some mid show ?thesis
        by (simp add: demosaic_malvar_row_mono16_def demosaic_malvar_row_mono16_unoptimized_def
            split: option.splits)
    next
      case True
      note d = proper_dimensionsD[OF True]
      note i = interior_row[OF mid]
      have rg: "(row_loop (fast_mono16_at_red rnd cn b a row)
           (fast_mono16_at_green_rg rnd cn b a row) (n_cols a - 2) 2
           (out(0 := luma_of_rgb16 rnd cn (get_rgb16_at_red16 b a row 0),
                1 := luma_of_rgb16 rnd cn (get_rgb16_at_green_rg16 b a row 1))))
         (n_cols a - 2 := luma_of_rgb16 rnd cn (get_rgb16_at_red16 b a row (n_cols a - 2)),
          n_cols a - 1 := luma_of_rgb16 rnd cn (get_rgb16_at_green_rg16 b a row (n_cols a - 1)))
        = row_loop (\<lambda>col. luma_of_rgb16 rnd cn (get_rgb16_at_red16 b a row col))
           (\<lambda>col. luma_of_rgb16 rnd cn (get_rgb16_at_green_rg16 b a row col)) (n_cols a) 0 out"
        for b out cn
        by (rule fast_row_eq[OF d(1,2), where A = "(\<lambda>col. luma_of_rgb16 rnd cn (get_rgb16_at_red16 b a row col))"
              and B = "(\<lambda>col. luma_of_rgb16 rnd cn (get_rgb16_at_green_rg16 b a row col))"])
           (simp_all add: fast_mono16_interior i)
      have gb: "(row_loop (fast_mono16_at_green_gb rnd cn b a row)
           (fast_mono16_at_blue rnd cn b a row) (n_cols a - 2) 2
           (out(0 := luma_of_rgb16 rnd cn (get_rgb16_at_green_gb16 b a row 0),
                1 := luma_of_rgb16 rnd cn (get_rgb16_at_blue16 b a row 1))))
         (n_cols a - 2 := luma_of_rgb16 rnd cn (get_rgb16_at_green_gb16 b a row (n_cols a - 2)),
          n_cols a - 1 := luma_of_rgb16 rnd cn (get_rgb16_at_blue16 b a row (n_cols a - 1)))
        = row_loop (\<lambda>col. luma_of_rgb16 rnd cn (get_rgb16_at_green_gb16 b a row col))
           (\<lambda>col. luma_of_rgb16 rnd cn (get_rgb16_at_blue16 b a row col)) (n_cols a) 0 out"
        for b out cn
        by (rule fast_row_eq[OF d(1,2), where A = "(\<lambda>col. luma_of_rgb16 rnd cn (get_rgb16_at_green_gb16 b a row col))"
              and B = "(\<lambda>col. luma_of_rgb16 rnd cn (get_rgb16_at_blue16 b a row col))"])
           (simp_all add: fast_mono16_interior i)
      from Some mid True show ?thesis
        by (simp add: demosaic_malvar_row_mono16_def demosaic_malvar_row_mono16_unoptimized_def
            Let_def rg gb split: option.splits)
    qed
  qed
qed

lemma mono8_row_eq:
  "demosaic_malvar_row_mono8 rnd bayer args row output_row
   = demosaic_malvar_row_mono8_unoptimized rnd bayer args row output_row"
proof (cases args)
  case None
  then show ?thesis
    by (simp add: demosaic_malvar_row_mono8_def demosaic_malvar_row_mono8_unoptimized_def
        split: option.splits)
next
  case (Some a)
  show ?thesis
  proof (cases "row < 2 \<or> row \<ge> n_rows a - 2")
    case True
    with Some show ?thesis by (simp add: demosaic_malvar_row_mono8_def)
  next
    case mid: False
    show ?thesis
    proof (cases "demosaic_malvar_assert_proper_dimensions a")
      case False
      with Some mid show ?thesis
        by (simp add: demosaic_malvar_row_mono8_def demosaic_malvar_row_mono8_unoptimized_def
            split: option.splits)
    next
      case True
      note d = proper_dimensionsD[OF True]
      note i = interior_row[OF mid]
      show ?thesis
      proof (cases "uint (max_val a) \<le> U8_MAX")
        case False
        with Some mid True show ?thesis
          by (simp add: demosaic_malvar_row_mono8_def demosaic_malvar_row_mono8_unoptimized_def
              split: option.splits)
      next
        case m: True
        have rg: "(row_loop (fast_mono8_at_red rnd cn b a row)
             (fast_mono8_at_green_rg rnd cn b a row) (n_cols a - 2) 2
             (out(0 := luma_of_rgb8 rnd cn (get_rgb8_at_red8 b a row 0),
                  1 := luma_of_rgb8 rnd cn (get_rgb8_at_green_rg8 b a row 1))))
           (n_cols a - 2 := luma_of_rgb8 rnd cn (get_rgb8_at_red8 b a row (n_cols a - 2)),
            n_cols a - 1 := luma_of_rgb8 rnd cn (get_rgb8_at_green_rg8 b a row (n_cols a - 1)))
          = row_loop (\<lambda>col. luma_of_rgb8 rnd cn (get_rgb8_at_red8 b a row col))
             (\<lambda>col. luma_of_rgb8 rnd cn (get_rgb8_at_green_rg8 b a row col)) (n_cols a) 0 out"
          for b out cn
          by (rule fast_row_eq[OF d(1,2), where A = "(\<lambda>col. luma_of_rgb8 rnd cn (get_rgb8_at_red8 b a row col))"
                and B = "(\<lambda>col. luma_of_rgb8 rnd cn (get_rgb8_at_green_rg8 b a row col))"])
             (simp_all add: fast_mono8_interior i m[unfolded U8_MAX_def])
        have gb: "(row_loop (fast_mono8_at_green_gb rnd cn b a row)
             (fast_mono8_at_blue rnd cn b a row) (n_cols a - 2) 2
             (out(0 := luma_of_rgb8 rnd cn (get_rgb8_at_green_gb8 b a row 0),
                  1 := luma_of_rgb8 rnd cn (get_rgb8_at_blue8 b a row 1))))
           (n_cols a - 2 := luma_of_rgb8 rnd cn (get_rgb8_at_green_gb8 b a row (n_cols a - 2)),
            n_cols a - 1 := luma_of_rgb8 rnd cn (get_rgb8_at_blue8 b a row (n_cols a - 1)))
          = row_loop (\<lambda>col. luma_of_rgb8 rnd cn (get_rgb8_at_green_gb8 b a row col))
             (\<lambda>col. luma_of_rgb8 rnd cn (get_rgb8_at_blue8 b a row col)) (n_cols a) 0 out"
          for b out cn
          by (rule fast_row_eq[OF d(1,2), where A = "(\<lambda>col. luma_of_rgb8 rnd cn (get_rgb8_at_green_gb8 b a row col))"
                and B = "(\<lambda>col. luma_of_rgb8 rnd cn (get_rgb8_at_blue8 b a row col))"])
             (simp_all add: fast_mono8_interior i m[unfolded U8_MAX_def])
        from Some mid True m show ?thesis
          by (simp add: demosaic_malvar_row_mono8_def demosaic_malvar_row_mono8_unoptimized_def
              Let_def rg gb split: option.splits)
      qed
    qed
  qed
qed

lemma mono16to8_row_eq:
  assumes s: "\<And>b a r c. bayer = Some b \<Longrightarrow> args = Some a \<Longrightarrow> interior a r c \<Longrightarrow>
              shr (uint (GET_PIX b (n_cols a) r c)) (rshift a) \<le> 255"
  shows "demosaic_malvar_row_mono16to8 rnd bayer args row output_row
   = demosaic_malvar_row_mono16to8_unoptimized rnd bayer args row output_row"
proof (cases args)
  case None
  then show ?thesis
    by (simp add: demosaic_malvar_row_mono16to8_def demosaic_malvar_row_mono16to8_unoptimized_def
        split: option.splits)
next
  case (Some a)
  show ?thesis
  proof (cases "row < 2 \<or> row \<ge> n_rows a - 2")
    case True
    with Some show ?thesis by (simp add: demosaic_malvar_row_mono16to8_def)
  next
    case mid: False
    show ?thesis
    proof (cases "demosaic_malvar_assert_proper_dimensions a")
      case False
      with Some mid show ?thesis
        by (simp add: demosaic_malvar_row_mono16to8_def demosaic_malvar_row_mono16to8_unoptimized_def
            split: option.splits)
    next
      case True
      note d = proper_dimensionsD[OF True]
      note i = interior_row[OF mid]
      show ?thesis
      proof (cases "shr (uint (max_val a)) (rshift a) \<le> U8_MAX")
        case False
        with Some mid True show ?thesis
          by (simp add: demosaic_malvar_row_mono16to8_def demosaic_malvar_row_mono16to8_unoptimized_def
              split: option.splits)
      next
        case m: True
        have rg: "(row_loop (fast_mono16to8_at_red rnd cn b a row)
             (fast_mono16to8_at_green_rg rnd cn b a row) (n_cols a - 2) 2
             (out(0 := luma_of_rgb8 rnd cn (get_rgb8_at_red16 b a row 0),
                  1 := luma_of_rgb8 rnd cn (get_rgb8_at_green_rg16 b a row 1))))
           (n_cols a - 2 := luma_of_rgb8 rnd cn (get_rgb8_at_red16 b a row (n_cols a - 2)),
            n_cols a - 1 := luma_of_rgb8 rnd cn (get_rgb8_at_green_rg16 b a row (n_cols a - 1)))
          = row_loop (\<lambda>col. luma_of_rgb8 rnd cn (get_rgb8_at_red16 b a row col))
             (\<lambda>col. luma_of_rgb8 rnd cn (get_rgb8_at_green_rg16 b a row col)) (n_cols a) 0 out"
          if "bayer = Some b" for b out cn
          by (rule fast_row_eq[OF d(1,2), where A = "(\<lambda>col. luma_of_rgb8 rnd cn (get_rgb8_at_red16 b a row col))"
                and B = "(\<lambda>col. luma_of_rgb8 rnd cn (get_rgb8_at_green_rg16 b a row col))"])
             (simp_all add: fast_mono16to8_interior i m[unfolded U8_MAX_def] s[OF that Some])
        have gb: "(row_loop (fast_mono16to8_at_green_gb rnd cn b a row)
             (fast_mono16to8_at_blue rnd cn b a row) (n_cols a - 2) 2
             (out(0 := luma_of_rgb8 rnd cn (get_rgb8_at_green_gb16 b a row 0),
                  1 := luma_of_rgb8 rnd cn (get_rgb8_at_blue16 b a row 1))))
           (n_cols a - 2 := luma_of_rgb8 rnd cn (get_rgb8_at_green_gb16 b a row (n_cols a - 2)),
            n_cols a - 1 := luma_of_rgb8 rnd cn (get_rgb8_at_blue16 b a row (n_cols a - 1)))
          = row_loop (\<lambda>col. luma_of_rgb8 rnd cn (get_rgb8_at_green_gb16 b a row col))
             (\<lambda>col. luma_of_rgb8 rnd cn (get_rgb8_at_blue16 b a row col)) (n_cols a) 0 out"
          if "bayer = Some b" for b out cn
          by (rule fast_row_eq[OF d(1,2), where A = "(\<lambda>col. luma_of_rgb8 rnd cn (get_rgb8_at_green_gb16 b a row col))"
                and B = "(\<lambda>col. luma_of_rgb8 rnd cn (get_rgb8_at_blue16 b a row col))"])
             (simp_all add: fast_mono16to8_interior i m[unfolded U8_MAX_def] s[OF that Some])
        from Some mid True m show ?thesis
          by (auto simp add: demosaic_malvar_row_mono16to8_def demosaic_malvar_row_mono16to8_unoptimized_def
              Let_def rg gb split: option.splits)
      qed
    qed
  qed
qed



lemma rgb16to8_unoptimized_result:
  assumes s: "rshift a < 32"
  shows "demosaic_malvar_row_rgb16to8_unoptimized (Some b) (Some a) row (Some out) =
     (if valid_rgb16to8 a row
      then Returned (Some (\<lambda>c. if 0 \<le> c \<and> c < n_cols a then rgb16to8_pixel b a row c else out c))
      else Fatal (Some out))"
proof (cases "valid_rgb16to8 a row")
  case False
  with s show ?thesis
    by (auto simp add: demosaic_malvar_row_rgb16to8_unoptimized_def valid_rgb16to8_def valid_row_def Let_def)
next
  case True
  then have d: "demosaic_malvar_assert_proper_dimensions a"
    by (simp add: valid_rgb16to8_def valid_row_def)
  have e: "even (n_cols a - 0)" using proper_dimensionsD(1)[OF d] by simp
  from True s show ?thesis
    by (auto simp add: demosaic_malvar_row_rgb16to8_unoptimized_def valid_rgb16to8_def valid_row_def Let_def
        smod2_even row_loop_apply[OF e] rgb16to8_pixel_def fun_eq_iff)
qed



lemma mono16to8_unoptimized_result:
  assumes s: "rshift a < 32"
  shows "demosaic_malvar_row_mono16to8_unoptimized rnd (Some b) (Some a) row (Some out) =
     (if valid_mono16to8 rnd a row
      then Returned (Some (\<lambda>c. if 0 \<le> c \<and> c < n_cols a then mono16to8_pixel rnd b a row c else out c))
      else Fatal (Some out))"
proof (cases "valid_mono16to8 rnd a row")
  case False
  with s show ?thesis
    by (auto simp add: demosaic_malvar_row_mono16to8_unoptimized_def valid_mono16to8_def valid_row_def Let_def)
next
  case True
  then have d: "demosaic_malvar_assert_proper_dimensions a"
    by (simp add: valid_mono16to8_def valid_row_def)
  have e: "even (n_cols a - 0)" using proper_dimensionsD(1)[OF d] by simp
  from True s show ?thesis
    by (auto simp add: demosaic_malvar_row_mono16to8_unoptimized_def valid_mono16to8_def valid_row_def Let_def
        smod2_even row_loop_apply[OF e] mono16to8_pixel_def rgb16to8_pixel_def fun_eq_iff)
qed

lemma mod2_below: "2 \<le> n \<Longrightarrow> (y :: int) mod 2 < n"
  by (rule less_le_trans[of _ 2]) simp_all

lemma safe_coord_spec: "2 \<le> n \<Longrightarrow> safe_coord n x = remap_spec n x"
proof -
  assume n: "2 \<le> n"
  have m: "0 \<le> y \<Longrightarrow> y smod 2 = y mod 2" for y :: int
    by (simp add: smod_int_alt_def sgn_if)
  show ?thesis
  proof (cases "x < 0")
    case True
    then have "(- x) smod 2 = (- x) mod 2" by (intro m) simp
    moreover have "\<not> n \<le> (- x) mod 2" using mod2_below[OF n, of "- x"] by simp
    ultimately show ?thesis using True
      by (simp only: safe_coord_def remap_spec_def Let_def if_True if_False)
  next
    case False
    then have "x smod 2 = x mod 2" by (intro m) simp
    with False show ?thesis
      by (simp add: safe_coord_def remap_spec_def Let_def)
  qed
qed

lemma remap_spec_range:
  "2 \<le> n \<Longrightarrow> 0 \<le> remap_spec n x \<and> remap_spec n x < n"
proof -
  assume n: "2 \<le> n"
  have r: "0 \<le> y mod 2" "y mod 2 < 2" for y :: int by simp_all
  show ?thesis
  proof (cases "x < 0")
    case True
    with mod2_below[OF n, of "- x"] r(1)[of "- x"] show ?thesis
      by (simp only: remap_spec_def if_True)
  next
    case False
    show ?thesis
    proof (cases "x \<ge> n")
      case True
      have "0 \<le> n - 2 + x mod 2" using n r(1)[of x] by linarith
      moreover have "n - 2 + x mod 2 < n" using r(2)[of x] by linarith
      ultimately show ?thesis using False True by (simp only: remap_spec_def if_True if_False)
    next
      case False
      with \<open>\<not> x < 0\<close> show ?thesis by (simp add: remap_spec_def)
    qed
  qed
qed

lemma remap_spec_parity:
  "even n \<Longrightarrow> 2 \<le> n \<Longrightarrow> - 2 \<le> x \<Longrightarrow> x < n + 2 \<Longrightarrow> even (remap_spec n x) = even x"
proof -
  assume h: "even n" "2 \<le> n" "- 2 \<le> x" "x < n + 2"
  have e: "even (y mod 2) = even y" for y :: int by (simp add: even_iff_mod_2_eq_zero)
  show ?thesis
    unfolding remap_spec_def using h e[of "- x"] e[of x] by simp
qed

lemma flat_index_range:
  "0 \<le> r \<Longrightarrow> r < nr \<Longrightarrow> 0 \<le> c \<Longrightarrow> c < nc \<Longrightarrow>
   0 \<le> nc * r + c \<and> nc * r + c < nr * (nc :: int)"
proof -
  assume h: "0 \<le> r" "r < nr" "0 \<le> c" "c < nc"
  then have "0 \<le> nc * r" by simp
  moreover have "nc * r + nc \<le> nc * nr"
  proof -
    from h have "r + 1 \<le> nr" "0 \<le> nc" by simp_all
    then have "nc * (r + 1) \<le> nc * nr" by (rule mult_left_mono)
    then show ?thesis by (simp add: algebra_simps)
  qed
  ultimately show ?thesis using h by (simp add: mult.commute)
qed

lemma GET_PIX_index:
  assumes "0 \<le> r" "r < nr" "0 \<le> c" "c < nc" "nr * nc \<le> INT32_MAX"
  shows "GET_PIX b nc r c = b (nc * r + c)"
proof -
  have t: "0 \<le> nc * r + c \<and> nc * r + c < nr * nc"
    using assms(1-4) by (rule flat_index_range)
  have p: "0 \<le> nc * r + 0 \<and> nc * r + 0 < nr * nc"
    using assms(1,2) assms(3,4) by (intro flat_index_range) simp_all
  have "I32_mul nc r = nc * r"
    unfolding I32_mul_def using p assms(5) by (intro I32_wrap_id) (simp_all add: INT32_MAX_def)
  moreover have "I32_add (nc * r) c = nc * r + c"
    unfolding I32_add_def using t assms(5) by (intro I32_wrap_id) (simp_all add: INT32_MAX_def)
  ultimately show ?thesis by (simp add: GET_PIX_def)
qed

lemma safe_index:
  assumes "2 \<le> nr" "2 \<le> nc" "nr * nc \<le> INT32_MAX"
  shows "get_pixel16_safe b16 nr nc r c = b16 (nc * remap_spec nr r + remap_spec nc c)"
    and "get_pixel8_safe b8 nr nc r c = b8 (nc * remap_spec nr r + remap_spec nc c)"
    and "0 \<le> nc * remap_spec nr r + remap_spec nc c"
    and "nc * remap_spec nr r + remap_spec nc c < nr * nc"
proof -
  note rr = remap_spec_range[OF assms(1), of r] and rc = remap_spec_range[OF assms(2), of c]
  have g: "GET_PIX b nc (remap_spec nr r) (remap_spec nc c) = b (nc * remap_spec nr r + remap_spec nc c)"
    for b :: "'a buffer"
    using rr rc assms(3) by (intro GET_PIX_index) simp_all
  show "get_pixel16_safe b16 nr nc r c = b16 (nc * remap_spec nr r + remap_spec nc c)"
    by (simp add: get_pixel16_safe_coord safe_coord_spec assms(1,2) g)
  show "get_pixel8_safe b8 nr nc r c = b8 (nc * remap_spec nr r + remap_spec nc c)"
    by (simp add: get_pixel8_safe_coord safe_coord_spec assms(1,2) g)
  show "0 \<le> nc * remap_spec nr r + remap_spec nc c"
    and "nc * remap_spec nr r + remap_spec nc c < nr * nc"
    using flat_index_range[of "remap_spec nr r" nr "remap_spec nc c" nc] rr rc by simp_all
qed

section \<open>The kernels and the narrowing, in the words of the specification\<close>

lemma sdiv_trunc: "0 < d \<Longrightarrow> x sdiv d = trunc_div_spec x d"
  by (simp add: signed_divide_int_def trunc_div_spec_def sgn_if)

lemma DM_LIMIT_clamp: "DM_LIMIT v 0 mx = clamp_spec v mx"
  by (simp add: DM_LIMIT_def clamp_spec_def)

lemma green_sum_spec:
  "green_sum p row col = weighted_sum_spec p row col green_weights green_offsets"
  by (simp add: green_sum_def weighted_sum_spec_def green_weights_def green_offsets_def)

lemma narrow_spec_U8:
  assumes "rshift_spec mx rs \<le> 255" "0 \<le> mx"
  shows "uint (word_of_int (narrow_spec v mx rs) :: U8) = narrow_spec v mx rs"
    and "narrow_spec v mx rs \<le> rshift_spec mx rs"
proof -
  have c: "0 \<le> clamp_spec v mx" "clamp_spec v mx \<le> mx"
    using assms(2) by (simp_all add: clamp_spec_def)
  show le: "narrow_spec v mx rs \<le> rshift_spec mx rs"
    unfolding narrow_spec_def shr_spec[symmetric] using c(2) by (rule shr_mono)
  have "0 \<le> narrow_spec v mx rs"
    unfolding narrow_spec_def shr_spec[symmetric] using c(1) by (rule shr_nonneg)
  then show "uint (word_of_int (narrow_spec v mx rs) :: U8) = narrow_spec v mx rs"
    using le assms(1) by (intro uint_U8_small) simp_all
qed

lemma narrow_helper:
  "(word_of_int (shr (uint (word_of_int (DM_LIMIT v 0 (uint (m :: U16))) :: U16)) rs) :: U8)
   = word_of_int (narrow_spec v (uint m) rs)"
  unfolding uint_U16_DM_LIMIT by (simp add: narrow_spec_def DM_LIMIT_clamp shr_spec)

lemma limit_rshift_narrow:
  "(word_of_int (limit_rshift v (uint (m :: U16)) (word_of_int (shr (uint m) rs)) rs) :: U8)
   = word_of_int (narrow_spec v (uint m) rs)"
  using narrow_limit[of v m rs] narrow_helper[of v m rs] by simp

section \<open>The accumulators\<close>

lemma green_sum_bounds:
  assumes h: "\<And>r c. 0 \<le> p r c \<and> p r c \<le> 65535"
  shows "- 262140 \<le> green_sum p row col \<and> green_sum p row col \<le> 786420"
  unfolding green_sum_def
  using h[of "row - 2" "col + 0"] h[of "row - 1" "col + 0"] h[of "row + 0" "col - 2"]
    h[of "row + 0" "col - 1"] h[of "row + 0" "col + 0"] h[of "row + 0" "col + 1"]
    h[of "row + 0" "col + 2"] h[of "row + 1" "col + 0"] h[of "row + 2" "col + 0"]
  by linarith

lemma red_blue_from_row_sum_bounds:
  assumes h: "\<And>r c. 0 \<le> p r c \<and> p r c \<le> 65535"
  shows "- 786420 \<le> red_blue_from_row_sum p row col \<and> red_blue_from_row_sum p row col \<le> 1834980"
  unfolding red_blue_from_row_sum_def
  using h[of "row - 2" "col + 0"] h[of "row - 1" "col - 1"] h[of "row - 1" "col + 1"]
    h[of "row + 0" "col - 2"] h[of "row + 0" "col - 1"] h[of "row + 0" "col + 0"]
    h[of "row + 0" "col + 1"] h[of "row + 0" "col + 2"] h[of "row + 1" "col - 1"]
    h[of "row + 1" "col + 1"] h[of "row + 2" "col + 0"]
  by linarith

lemma red_blue_from_column_sum_bounds:
  assumes h: "\<And>r c. 0 \<le> p r c \<and> p r c \<le> 65535"
  shows "- 786420 \<le> red_blue_from_column_sum p row col \<and> red_blue_from_column_sum p row col \<le> 1834980"
  unfolding red_blue_from_column_sum_def
  using h[of "row - 2" "col + 0"] h[of "row - 1" "col - 1"] h[of "row - 1" "col + 0"]
    h[of "row - 1" "col + 1"] h[of "row + 0" "col - 2"] h[of "row + 0" "col + 0"]
    h[of "row + 0" "col + 2"] h[of "row + 1" "col - 1"] h[of "row + 1" "col + 0"]
    h[of "row + 1" "col + 1"] h[of "row + 2" "col + 0"]
  by linarith

lemma red_blue_from_opposite_sum_bounds:
  assumes h: "\<And>r c. 0 \<le> p r c \<and> p r c \<le> 65535"
  shows "- 786420 \<le> red_blue_from_opposite_sum p row col \<and> red_blue_from_opposite_sum p row col \<le> 1834980"
  unfolding red_blue_from_opposite_sum_def
  using h[of "row - 2" "col + 0"] h[of "row - 1" "col - 1"] h[of "row - 1" "col + 1"]
    h[of "row + 0" "col - 2"] h[of "row + 0" "col + 0"] h[of "row + 0" "col + 2"]
    h[of "row + 1" "col - 1"] h[of "row + 1" "col + 1"] h[of "row + 2" "col + 0"]
  by linarith

section \<open>What a row function returns\<close>



lemma rgb16to8_result:
  assumes "rshift a < 32"
  shows "demosaic_malvar_row_rgb16to8 (Some b) (Some a) row (Some out) =
     (if valid_rgb16to8 a row
      then Returned (Some (\<lambda>c. if 0 \<le> c \<and> c < n_cols a then rgb16to8_pixel b a row c else out c))
      else Fatal (Some out))"
  by (simp only: rgb16to8_row_eq rgb16to8_unoptimized_result[OF assms])






section \<open>Rejected arguments\<close>

lemma rejected_not_valid: "rejected (Some a) row \<Longrightarrow> \<not> valid_row a row"
  by (auto simp: rejected_def valid_row_def demosaic_malvar_assert_proper_dimensions_def smod2_even)

lemma fatal_rgb16:
  assumes "bayer = None \<or> output_row = None \<or> rejected args row"
  shows "demosaic_malvar_row_rgb16 bayer args row output_row = Fatal output_row"
    and "demosaic_malvar_row_rgb16_unoptimized bayer args row output_row = Fatal output_row"
proof -
  show u: "demosaic_malvar_row_rgb16_unoptimized bayer args row output_row = Fatal output_row"
  proof (cases args)
    case None
    then show ?thesis
      by (simp add: demosaic_malvar_row_rgb16_unoptimized_def split: option.splits)
  next
    case (Some a)
    with assms rejected_not_valid[of a row] show ?thesis
      by (auto simp: demosaic_malvar_row_rgb16_unoptimized_def valid_row_def split: option.splits)
  qed
  show "demosaic_malvar_row_rgb16 bayer args row output_row = Fatal output_row"
  proof (cases args)
    case None
    then show ?thesis by (simp add: demosaic_malvar_row_rgb16_def)
  next
    case (Some a)
    with assms rejected_not_valid[of a row] u show ?thesis
      by (auto simp: demosaic_malvar_row_rgb16_def valid_row_def split: option.splits)
  qed
qed

lemma fatal_rgb8:
  assumes "bayer = None \<or> output_row = None \<or> rejected args row \<or> max_val_above_U8 args"
  shows "demosaic_malvar_row_rgb8 bayer args row output_row = Fatal output_row"
    and "demosaic_malvar_row_rgb8_unoptimized bayer args row output_row = Fatal output_row"
proof -
  show u: "demosaic_malvar_row_rgb8_unoptimized bayer args row output_row = Fatal output_row"
  proof (cases args)
    case None
    then show ?thesis
      by (simp add: demosaic_malvar_row_rgb8_unoptimized_def split: option.splits)
  next
    case (Some a)
    with assms rejected_not_valid[of a row] show ?thesis
      by (auto simp: demosaic_malvar_row_rgb8_unoptimized_def valid_row_def max_val_above_U8_def U8_MAX_def split: option.splits)
  qed
  show "demosaic_malvar_row_rgb8 bayer args row output_row = Fatal output_row"
  proof (cases args)
    case None
    then show ?thesis by (simp add: demosaic_malvar_row_rgb8_def)
  next
    case (Some a)
    with assms rejected_not_valid[of a row] u show ?thesis
      by (auto simp: demosaic_malvar_row_rgb8_def valid_row_def max_val_above_U8_def U8_MAX_def split: option.splits)
  qed
qed

lemma fatal_rgb16to8:
  assumes "bayer = None \<or> output_row = None \<or> rejected args row \<or> shifted_max_val_above_U8 args"
  shows "demosaic_malvar_row_rgb16to8 bayer args row output_row = Fatal output_row"
    and "demosaic_malvar_row_rgb16to8_unoptimized bayer args row output_row = Fatal output_row"
proof -
  show u: "demosaic_malvar_row_rgb16to8_unoptimized bayer args row output_row = Fatal output_row"
  proof (cases args)
    case None
    then show ?thesis
      by (simp add: demosaic_malvar_row_rgb16to8_unoptimized_def split: option.splits)
  next
    case (Some a)
    with assms rejected_not_valid[of a row] show ?thesis
      by (auto simp: demosaic_malvar_row_rgb16to8_unoptimized_def valid_row_def shifted_max_val_above_U8_def U8_MAX_def
          dest: shr_U16_above split: option.splits)
  qed
  show "demosaic_malvar_row_rgb16to8 bayer args row output_row = Fatal output_row"
  proof (cases args)
    case None
    then show ?thesis by (simp add: demosaic_malvar_row_rgb16to8_def)
  next
    case (Some a)
    with assms rejected_not_valid[of a row] u show ?thesis
      by (auto simp: demosaic_malvar_row_rgb16to8_def valid_row_def shifted_max_val_above_U8_def U8_MAX_def
          dest: shr_U16_above split: option.splits)
  qed
qed

lemma fatal_mono16:
  assumes "bayer = None \<or> output_row = None \<or> rejected args row"
  shows "demosaic_malvar_row_mono16 rnd bayer args row output_row = Fatal output_row"
    and "demosaic_malvar_row_mono16_unoptimized rnd bayer args row output_row = Fatal output_row"
proof -
  show u: "demosaic_malvar_row_mono16_unoptimized rnd bayer args row output_row = Fatal output_row"
  proof (cases args)
    case None
    then show ?thesis
      by (simp add: demosaic_malvar_row_mono16_unoptimized_def split: option.splits)
  next
    case (Some a)
    with assms rejected_not_valid[of a row] show ?thesis
      by (auto simp: demosaic_malvar_row_mono16_unoptimized_def valid_row_def split: option.splits)
  qed
  show "demosaic_malvar_row_mono16 rnd bayer args row output_row = Fatal output_row"
  proof (cases args)
    case None
    then show ?thesis by (simp add: demosaic_malvar_row_mono16_def)
  next
    case (Some a)
    with assms rejected_not_valid[of a row] u show ?thesis
      by (auto simp: demosaic_malvar_row_mono16_def valid_row_def split: option.splits)
  qed
qed

lemma fatal_mono8:
  assumes "bayer = None \<or> output_row = None \<or> rejected args row \<or> max_val_above_U8 args"
  shows "demosaic_malvar_row_mono8 rnd bayer args row output_row = Fatal output_row"
    and "demosaic_malvar_row_mono8_unoptimized rnd bayer args row output_row = Fatal output_row"
proof -
  show u: "demosaic_malvar_row_mono8_unoptimized rnd bayer args row output_row = Fatal output_row"
  proof (cases args)
    case None
    then show ?thesis
      by (simp add: demosaic_malvar_row_mono8_unoptimized_def split: option.splits)
  next
    case (Some a)
    with assms rejected_not_valid[of a row] show ?thesis
      by (auto simp: demosaic_malvar_row_mono8_unoptimized_def valid_row_def max_val_above_U8_def U8_MAX_def split: option.splits)
  qed
  show "demosaic_malvar_row_mono8 rnd bayer args row output_row = Fatal output_row"
  proof (cases args)
    case None
    then show ?thesis by (simp add: demosaic_malvar_row_mono8_def)
  next
    case (Some a)
    with assms rejected_not_valid[of a row] u show ?thesis
      by (auto simp: demosaic_malvar_row_mono8_def valid_row_def max_val_above_U8_def U8_MAX_def split: option.splits)
  qed
qed

lemma fatal_mono16to8:
  assumes "bayer = None \<or> output_row = None \<or> rejected args row \<or> shifted_max_val_above_U8 args"
  shows "demosaic_malvar_row_mono16to8 rnd bayer args row output_row = Fatal output_row"
    and "demosaic_malvar_row_mono16to8_unoptimized rnd bayer args row output_row = Fatal output_row"
proof -
  show u: "demosaic_malvar_row_mono16to8_unoptimized rnd bayer args row output_row = Fatal output_row"
  proof (cases args)
    case None
    then show ?thesis
      by (simp add: demosaic_malvar_row_mono16to8_unoptimized_def split: option.splits)
  next
    case (Some a)
    with assms rejected_not_valid[of a row] show ?thesis
      by (auto simp: demosaic_malvar_row_mono16to8_unoptimized_def valid_row_def shifted_max_val_above_U8_def U8_MAX_def
          dest: shr_U16_above split: option.splits)
  qed
  show "demosaic_malvar_row_mono16to8 rnd bayer args row output_row = Fatal output_row"
  proof (cases args)
    case None
    then show ?thesis by (simp add: demosaic_malvar_row_mono16to8_def)
  next
    case (Some a)
    with assms rejected_not_valid[of a row] u show ?thesis
      by (auto simp: demosaic_malvar_row_mono16to8_def valid_row_def shifted_max_val_above_U8_def U8_MAX_def
          dest: shr_U16_above split: option.splits)
  qed
qed

section \<open>The luma mix under rounding\<close>











section \<open>Bounds of the pixels\<close>













lemma interior_sample_within:
  assumes "samples_within b a" "image_fits_I32 a" "interior a r c"
    "shr (uint (max_val a)) (rshift a) \<le> 255"
  shows "shr (uint (GET_PIX b (n_cols a) r c)) (rshift a) \<le> 255"
proof -
  have i: "0 \<le> r" "r < n_rows a" "0 \<le> c" "c < n_cols a"
    using assms(3) by (simp_all add: interior_def)
  have "0 \<le> n_cols a * r + c \<and> n_cols a * r + c < n_rows a * n_cols a"
    using i by (rule flat_index_range)
  moreover have "GET_PIX b (n_cols a) r c = b (n_cols a * r + c)"
    using i assms(2) by (intro GET_PIX_index[where nr = "n_rows a"]) (simp_all add: image_fits_I32_def)
  ultimately have "uint (GET_PIX b (n_cols a) r c) \<le> uint (max_val a)"
    using assms(1) by (simp add: samples_within_def)
  then have "shr (uint (GET_PIX b (n_cols a) r c)) (rshift a) \<le> shr (uint (max_val a)) (rshift a)"
    by (rule shr_mono)
  with assms(4) show ?thesis by simp
qed

lemma mono16to8_result:
  assumes "samples_within b a" "image_fits_I32 a" "valid_mono16to8 rnd a row" "rshift a < 32"
  shows "demosaic_malvar_row_mono16to8 rnd (Some b) (Some a) row (Some out) =
      Returned (Some (\<lambda>c. if 0 \<le> c \<and> c < n_cols a then mono16to8_pixel rnd b a row c else out c))"
proof -
  have m: "shr (uint (max_val a)) (rshift a) \<le> 255"
    using assms(3) by (simp add: valid_mono16to8_def U8_MAX_def)
  have "demosaic_malvar_row_mono16to8 rnd (Some b) (Some a) row (Some out)
      = demosaic_malvar_row_mono16to8_unoptimized rnd (Some b) (Some a) row (Some out)"
    using interior_sample_within[OF assms(1,2) _ m] by (intro mono16to8_row_eq) simp
  then show ?thesis using assms(3) by (simp add: mono16to8_unoptimized_result[OF assms(4)])
qed

lemma mono16to8_row_eq_within:
  assumes "\<And>b a. bayer = Some b \<Longrightarrow> args = Some a \<Longrightarrow> samples_within b a \<and> image_fits_I32 a"
  shows "demosaic_malvar_row_mono16to8 rnd bayer args row output_row
       = demosaic_malvar_row_mono16to8_unoptimized rnd bayer args row output_row"
proof (cases "shifted_max_val_above_U8 args")
  case True
  then show ?thesis
    using fatal_mono16to8[of bayer output_row args row rnd] by simp
next
  case False
  show ?thesis
  proof (rule mono16to8_row_eq)
    fix b a r c
    assume h: "bayer = Some b" "args = Some a" "interior a r c"
    from False h(2) have "shr (uint (max_val a)) (rshift a) \<le> 255"
      by (simp add: shifted_max_val_above_U8_def)
    with assms[OF h(1,2)] h(3) show "shr (uint (GET_PIX b (n_cols a) r c)) (rshift a) \<le> 255"
      by (intro interior_sample_within) simp_all
  qed
qed

section \<open>Single-colour images\<close>













section \<open>The concrete inputs\<close>

lemma test_args_fields:
  "n_rows (test_args nr nc mv rs) = nr" "n_cols (test_args nr nc mv rs) = nc"
  "max_val (test_args nr nc mv rs) = mv" "rshift (test_args nr nc mv rs) = rs"
  "coefs (test_args nr nc mv rs) = \<lparr> red = 299 / 1000, green = 587 / 1000, blue = 114 / 1000 \<rparr>"
  by (simp_all add: test_args_def)


lemma test_cn:
  "normalize_coefs exact \<lparr> red = 299 / 1000, green = 587 / 1000, blue = 114 / 1000 \<rparr>
   = \<lparr> red = 299000 / 1000001, green = 587000 / 1000001, blue = 114000 / 1000001 \<rparr>"
  by (simp add: normalize_coefs_def exact_def Let_def)

lemma test_coefs_ok:
  "coefs_in_range (coefs (test_args nr nc mv rs))"
  "coefs_normed_sum exact (normalize_coefs exact (coefs (test_args nr nc mv rs))) < 1"
  unfolding test_args_fields test_cn
  by (simp_all add: coefs_in_range_def coefs_normed_sum_def exact_def)

lemma test_dims:
  "even nr \<Longrightarrow> 2 \<le> nr \<Longrightarrow> even nc \<Longrightarrow> 2 \<le> nc \<Longrightarrow> 0 \<le> row \<Longrightarrow> row < nr \<Longrightarrow>
   valid_row (test_args nr nc mv rs) row"
  by (simp add: valid_row_def demosaic_malvar_assert_proper_dimensions_def test_args_fields smod2_even)

lemma test_valid_4x4:
  "valid_rgb16 (test_args 4 4 255 0) 1" "valid_rgb8 (test_args 4 4 255 0) 1"
  "valid_rgb16to8 (test_args 4 4 255 0) 1" "valid_mono16 exact (test_args 4 4 255 0) 1"
  "valid_mono8 exact (test_args 4 4 255 0) 1" "valid_mono16to8 exact (test_args 4 4 255 0) 1"
  using test_coefs_ok[of 4 4 255 0]
  by (simp_all add: valid_rgb16_def valid_rgb8_def valid_rgb16to8_def valid_mono16_def
      valid_mono8_def valid_mono16to8_def test_dims test_args_fields(1-4) U8_MAX_def shr_def)

lemma test_valid_6x6:
  "valid_rgb16 (test_args 6 6 255 0) 2" "valid_rgb8 (test_args 6 6 255 0) 2"
  "valid_rgb16to8 (test_args 6 6 255 0) 2"
  "valid_mono16to8 exact (test_args 6 6 4095 4) 2"
  using test_coefs_ok[of 6 6 4095 4]
  by (simp_all add: valid_rgb16_def valid_rgb8_def valid_rgb16to8_def valid_mono16to8_def
      test_dims test_args_fields(1-4) U8_MAX_def shr_def drop_bit_eq_div)



lemma test_fits: "nr * nc \<le> 2147483647 \<Longrightarrow> image_fits_I32 (test_args nr nc mv rs)"
  by (simp add: image_fits_I32_def INT32_MAX_def test_args_fields)

lemma test_samples:
  "samples_within bayer8_200 (test_args nr nc 255 rs)"
  "samples_within zero16 (test_args nr nc mv rs)"
  "samples_within bayer_4095 (test_args nr nc 4095 rs)"
  by (simp_all add: samples_within_def bayer8_200_def zero16_def bayer_4095_def test_args_fields)

lemma const_pixel16: "get_pixel16_safe bayer_4095 nr nc r c = 4095"
  by (simp add: get_pixel16_safe_coord GET_PIX_def bayer_4095_def)

lemma const_pixel8: "get_pixel8_safe bayer8_200 nr nc r c = 200"
  by (simp add: get_pixel8_safe_coord GET_PIX_def bayer8_200_def)



lemma spike_cn:
  "normalize_coefs exact (coefs spike_args) = \<lparr> red = 500000 / 1000001, green = 500000 / 1000001, blue = 0 \<rparr>"
  by (simp add: normalize_coefs_def exact_def spike_args_def Let_def)

lemma spike_valid: "valid_mono16to8 exact spike_args 2"
  unfolding valid_mono16to8_def spike_cn
  by (simp add: valid_row_def demosaic_malvar_assert_proper_dimensions_def
      spike_args_def smod2_even shr_def drop_bit_eq_div U8_MAX_def coefs_in_range_def
      coefs_normed_sum_def exact_def)

lemma floor_192: "\<lfloor>(500000 / 1000001 * 256 + 500000 / 1000001 * 128 + 1 / 2 :: real)\<rfloor> = 192"
  by (rule floor_unique) simp_all

lemma floor_64: "\<lfloor>(500000 / 1000001 * 128 + 1 / 2 :: real)\<rfloor> = 64"
  by (rule floor_unique) simp_all

lemma spike_sums:
  "green_sum (\<lambda>r c. uint (GET_PIX spike_bayer 6 r c)) 2 2 = 16384"
  "red_blue_from_opposite_sum (\<lambda>r c. uint (GET_PIX spike_bayer 6 r c)) 2 2 = 49152"
  by (simp_all add: green_sum_def red_blue_from_opposite_sum_def GET_PIX_def I32_add_def I32_mul_def
      I32_wrap_def spike_bayer_def)

lemma spike_sdiv: "(16384 :: int) sdiv 8 = 2048" "(49152 :: int) sdiv 16 = 3072"
  by (simp_all add: signed_divide_int_def)

lemma spike_shr: "shr 4096 4 = 256" "shr 2048 4 = 128" "shr 3072 4 = 192" "shr 4095 4 = 255"
  by (simp_all add: shr_def drop_bit_eq_div)

lemma spike_mix:
  "mix_to_U8 exact \<lparr> red = 500000 / 1000001, green = 500000 / 1000001, blue = 0 \<rparr> 256 128 192 = 192"
  "mix_to_U8 exact \<lparr> red = 500000 / 1000001, green = 500000 / 1000001, blue = 0 \<rparr> 0 128 192 = 64"
  by (simp_all add: mix_to_U8_def luma_def exact_def F64_to_int_def floor_192 floor_64)

lemma spike_fields:
  "n_rows spike_args = 6" "n_cols spike_args = 6" "uint (max_val spike_args) = 4095"
  "rshift spike_args = 4"
  by (simp_all add: spike_args_def)

lemma spike_own: "uint (GET_PIX spike_bayer 6 2 2) = 4096"
  by (simp add: GET_PIX_def I32_add_def I32_mul_def I32_wrap_def spike_bayer_def)

lemma spike_fast_pixel:
  "fast_mono16to8_at_red exact \<lparr> red = 500000 / 1000001, green = 500000 / 1000001, blue = 0 \<rparr>
      spike_bayer spike_args 2 2 = 192"
  unfolding fast_mono16to8_at_red_def Let_def spike_fields spike_sums spike_sdiv spike_own spike_shr
  by (simp add: limit_rshift_def spike_shr spike_mix)

lemma spike_interior: "interior spike_args 2 2"
  by (simp add: interior_def spike_fields)

lemma spike_own_safe: "uint (get_pixel16_safe spike_bayer 6 6 2 2) = 4096"
  by (simp add: get_pixel16_safe_coord safe_coord_inside spike_own)

lemma spike_safe_pixel:
  "luma_of_rgb8 exact \<lparr> red = 500000 / 1000001, green = 500000 / 1000001, blue = 0 \<rparr>
     (get_rgb8_at_red16 spike_bayer spike_args 2 2) = 64"
  unfolding get_rgb8_at_red16_def get_green16_def get_red_blue_from_opposite16_def Let_def
    sums16_interior(1-4)[OF spike_interior] spike_fields spike_sums spike_sdiv spike_own_safe
  by (simp add: DM_LIMIT_def spike_shr luma_of_rgb8_def spike_mix)

section \<open>A row function reads the image only\<close>

lemma row_loop_cong:
  assumes e: "even (n - c0)"
    and h: "\<And>c. c0 \<le> c \<Longrightarrow> c < n \<Longrightarrow> f c = f' c \<and> g c = g' c"
  shows "row_loop f g n c0 out = row_loop f' g' n c0 out"
proof (rule ext)
  fix c
  show "row_loop f g n c0 out c = row_loop f' g' n c0 out c"
    unfolding row_loop_apply[OF e] using h[of c] by simp
qed

lemma same_image_safe:
  assumes s: "same_image b b' a" and f: "image_fits_I32 a"
    and d: "demosaic_malvar_assert_proper_dimensions a"
  shows "get_pixel16_safe b (n_rows a) (n_cols a) = get_pixel16_safe b' (n_rows a) (n_cols a)"
    and "safe16 b a = safe16 b' a"
proof -
  note dd = proper_dimensionsD[OF d]
  have f': "n_rows a * n_cols a \<le> INT32_MAX" using f by (simp add: image_fits_I32_def)
  have p: "get_pixel16_safe b (n_rows a) (n_cols a) r c = get_pixel16_safe b' (n_rows a) (n_cols a) r c"
    for r c
    using s safe_index(3,4)[OF dd(4,2) f', of r c]
    unfolding safe_index(1)[OF dd(4,2) f'] same_image_def by blast
  show "get_pixel16_safe b (n_rows a) (n_cols a) = get_pixel16_safe b' (n_rows a) (n_cols a)"
    by (intro ext) (rule p)
  show "safe16 b a = safe16 b' a"
    by (intro ext) (simp add: safe16_def p)
qed

lemma same_image_safe8:
  assumes s: "same_image b b' a" and f: "image_fits_I32 a"
    and d: "demosaic_malvar_assert_proper_dimensions a"
  shows "get_pixel8_safe b (n_rows a) (n_cols a) = get_pixel8_safe b' (n_rows a) (n_cols a)"
    and "safe8 b a = safe8 b' a"
proof -
  note dd = proper_dimensionsD[OF d]
  have f': "n_rows a * n_cols a \<le> INT32_MAX" using f by (simp add: image_fits_I32_def)
  have p: "get_pixel8_safe b (n_rows a) (n_cols a) r c = get_pixel8_safe b' (n_rows a) (n_cols a) r c"
    for r c
    using s safe_index(3,4)[OF dd(4,2) f', of r c]
    unfolding safe_index(2)[OF dd(4,2) f'] same_image_def by blast
  show "get_pixel8_safe b (n_rows a) (n_cols a) = get_pixel8_safe b' (n_rows a) (n_cols a)"
    by (intro ext) (rule p)
  show "safe8 b a = safe8 b' a"
    by (intro ext) (simp add: safe8_def p)
qed

lemma same_image_helpers16:
  assumes s: "same_image b b' a" and f: "image_fits_I32 a"
    and d: "demosaic_malvar_assert_proper_dimensions a"
  shows "get_rgb16_at_red16 b a = get_rgb16_at_red16 b' a"
    and "get_rgb16_at_green_rg16 b a = get_rgb16_at_green_rg16 b' a"
    and "get_rgb16_at_green_gb16 b a = get_rgb16_at_green_gb16 b' a"
    and "get_rgb16_at_blue16 b a = get_rgb16_at_blue16 b' a"
    and "get_rgb8_at_red16 b a = get_rgb8_at_red16 b' a"
    and "get_rgb8_at_green_rg16 b a = get_rgb8_at_green_rg16 b' a"
    and "get_rgb8_at_green_gb16 b a = get_rgb8_at_green_gb16 b' a"
    and "get_rgb8_at_blue16 b a = get_rgb8_at_blue16 b' a"
  by (intro ext, simp add: safe_pixel_defs safe_helper_defs same_image_safe[OF s f d])+

lemma same_image_helpers8:
  assumes s: "same_image b b' a" and f: "image_fits_I32 a"
    and d: "demosaic_malvar_assert_proper_dimensions a"
  shows "get_rgb8_at_red8 b a = get_rgb8_at_red8 b' a"
    and "get_rgb8_at_green_rg8 b a = get_rgb8_at_green_rg8 b' a"
    and "get_rgb8_at_green_gb8 b a = get_rgb8_at_green_gb8 b' a"
    and "get_rgb8_at_blue8 b a = get_rgb8_at_blue8 b' a"
  by (intro ext, simp add: safe_pixel_defs safe_helper_defs same_image_safe8[OF s f d])+

lemma same_image_unoptimized16:
  assumes s: "same_image b b' a" and f: "image_fits_I32 a"
  shows "demosaic_malvar_row_rgb16_unoptimized (Some b) (Some a) row out16
       = demosaic_malvar_row_rgb16_unoptimized (Some b') (Some a) row out16"
    and "demosaic_malvar_row_rgb16to8_unoptimized (Some b) (Some a) row out8
       = demosaic_malvar_row_rgb16to8_unoptimized (Some b') (Some a) row out8"
    and "demosaic_malvar_row_mono16_unoptimized rnd (Some b) (Some a) row mono16
       = demosaic_malvar_row_mono16_unoptimized rnd (Some b') (Some a) row mono16"
    and "demosaic_malvar_row_mono16to8_unoptimized rnd (Some b) (Some a) row mono8
       = demosaic_malvar_row_mono16to8_unoptimized rnd (Some b') (Some a) row mono8"
proof -
  note h = same_image_helpers16[OF s f]
  show "demosaic_malvar_row_rgb16_unoptimized (Some b) (Some a) row out16
       = demosaic_malvar_row_rgb16_unoptimized (Some b') (Some a) row out16"
    by (simp add: demosaic_malvar_row_rgb16_unoptimized_def h split: option.splits)
  show "demosaic_malvar_row_rgb16to8_unoptimized (Some b) (Some a) row out8
       = demosaic_malvar_row_rgb16to8_unoptimized (Some b') (Some a) row out8"
    by (simp add: demosaic_malvar_row_rgb16to8_unoptimized_def h split: option.splits)
  show "demosaic_malvar_row_mono16_unoptimized rnd (Some b) (Some a) row mono16
       = demosaic_malvar_row_mono16_unoptimized rnd (Some b') (Some a) row mono16"
    by (simp add: demosaic_malvar_row_mono16_unoptimized_def Let_def h split: option.splits)
  show "demosaic_malvar_row_mono16to8_unoptimized rnd (Some b) (Some a) row mono8
       = demosaic_malvar_row_mono16to8_unoptimized rnd (Some b') (Some a) row mono8"
    by (simp add: demosaic_malvar_row_mono16to8_unoptimized_def Let_def h split: option.splits)
qed

lemma same_image_unoptimized8:
  assumes s: "same_image b b' a" and f: "image_fits_I32 a"
  shows "demosaic_malvar_row_rgb8_unoptimized (Some b) (Some a) row out8
       = demosaic_malvar_row_rgb8_unoptimized (Some b') (Some a) row out8"
    and "demosaic_malvar_row_mono8_unoptimized rnd (Some b) (Some a) row mono8
       = demosaic_malvar_row_mono8_unoptimized rnd (Some b') (Some a) row mono8"
proof -
  note h = same_image_helpers8[OF s f]
  show "demosaic_malvar_row_rgb8_unoptimized (Some b) (Some a) row out8
       = demosaic_malvar_row_rgb8_unoptimized (Some b') (Some a) row out8"
    by (simp add: demosaic_malvar_row_rgb8_unoptimized_def h split: option.splits)
  show "demosaic_malvar_row_mono8_unoptimized rnd (Some b) (Some a) row mono8
       = demosaic_malvar_row_mono8_unoptimized rnd (Some b') (Some a) row mono8"
    by (simp add: demosaic_malvar_row_mono8_unoptimized_def Let_def h split: option.splits)
qed

lemma same_image_fast_mono16to8:
  assumes s: "same_image b b' a" and f: "image_fits_I32 a"
    and d: "demosaic_malvar_assert_proper_dimensions a" and i: "interior a row col"
  shows "fast_mono16to8_at_red rnd cn b a row col = fast_mono16to8_at_red rnd cn b' a row col"
    and "fast_mono16to8_at_green_rg rnd cn b a row col = fast_mono16to8_at_green_rg rnd cn b' a row col"
    and "fast_mono16to8_at_green_gb rnd cn b a row col = fast_mono16to8_at_green_gb rnd cn b' a row col"
    and "fast_mono16to8_at_blue rnd cn b a row col = fast_mono16to8_at_blue rnd cn b' a row col"
proof -
  note e = same_image_safe[OF s f d]
  have g: "green_sum (\<lambda>r c. uint (GET_PIX b (n_cols a) r c)) row col
         = green_sum (\<lambda>r c. uint (GET_PIX b' (n_cols a) r c)) row col"
    using sums16_interior(1)[OF i, of b] sums16_interior(1)[OF i, of b'] e(2) by simp
  have r: "red_blue_from_row_sum (\<lambda>r c. uint (GET_PIX b (n_cols a) r c)) row col
         = red_blue_from_row_sum (\<lambda>r c. uint (GET_PIX b' (n_cols a) r c)) row col"
    using sums16_interior(2)[OF i, of b] sums16_interior(2)[OF i, of b'] e(2) by simp
  have c: "red_blue_from_column_sum (\<lambda>r c. uint (GET_PIX b (n_cols a) r c)) row col
         = red_blue_from_column_sum (\<lambda>r c. uint (GET_PIX b' (n_cols a) r c)) row col"
    using sums16_interior(3)[OF i, of b] sums16_interior(3)[OF i, of b'] e(2) by simp
  have o: "red_blue_from_opposite_sum (\<lambda>r c. uint (GET_PIX b (n_cols a) r c)) row col
         = red_blue_from_opposite_sum (\<lambda>r c. uint (GET_PIX b' (n_cols a) r c)) row col"
    using sums16_interior(4)[OF i, of b] sums16_interior(4)[OF i, of b'] e(2) by simp
  have w: "GET_PIX b (n_cols a) row col = GET_PIX b' (n_cols a) row col"
    using sums16_interior(5)[OF i, of b] sums16_interior(5)[OF i, of b'] e(1) by simp
  show "fast_mono16to8_at_red rnd cn b a row col = fast_mono16to8_at_red rnd cn b' a row col"
    by (simp add: fast_mono16to8_at_red_def Let_def g o w)
  show "fast_mono16to8_at_green_rg rnd cn b a row col = fast_mono16to8_at_green_rg rnd cn b' a row col"
    by (simp add: fast_mono16to8_at_green_rg_def Let_def r c w)
  show "fast_mono16to8_at_green_gb rnd cn b a row col = fast_mono16to8_at_green_gb rnd cn b' a row col"
    by (simp add: fast_mono16to8_at_green_gb_def Let_def r c w)
  show "fast_mono16to8_at_blue rnd cn b a row col = fast_mono16to8_at_blue rnd cn b' a row col"
    by (simp add: fast_mono16to8_at_blue_def Let_def g o w)
qed

lemma same_image_mono16to8:
  assumes s: "same_image b b' a" and f: "image_fits_I32 a"
  shows "demosaic_malvar_row_mono16to8 rnd (Some b) (Some a) row mono8
       = demosaic_malvar_row_mono16to8 rnd (Some b') (Some a) row mono8"
proof (cases "row < 2 \<or> row \<ge> n_rows a - 2")
  case True
  then show ?thesis
    by (simp add: demosaic_malvar_row_mono16to8_def same_image_unoptimized16(4)[OF s f])
next
  case mid: False
  show ?thesis
  proof (cases "demosaic_malvar_assert_proper_dimensions a")
    case False
    with mid show ?thesis
      by (simp add: demosaic_malvar_row_mono16to8_def split: option.splits)
  next
    case True
    note d = proper_dimensionsD[OF True]
    note i = interior_row[OF mid]
    note h = same_image_helpers16(5-8)[OF s f True]
    have e: "even (n_cols a - 2 - 2)" using d(1) by simp
    have rg: "row_loop (fast_mono16to8_at_red rnd cn b a row)
               (fast_mono16to8_at_green_rg rnd cn b a row) (n_cols a - 2) 2 out
            = row_loop (fast_mono16to8_at_red rnd cn b' a row)
               (fast_mono16to8_at_green_rg rnd cn b' a row) (n_cols a - 2) 2 out" for cn out
      by (rule row_loop_cong[OF e]) (simp add: same_image_fast_mono16to8[OF s f True i])
    have gb: "row_loop (fast_mono16to8_at_green_gb rnd cn b a row)
               (fast_mono16to8_at_blue rnd cn b a row) (n_cols a - 2) 2 out
            = row_loop (fast_mono16to8_at_green_gb rnd cn b' a row)
               (fast_mono16to8_at_blue rnd cn b' a row) (n_cols a - 2) 2 out" for cn out
      by (rule row_loop_cong[OF e]) (simp add: same_image_fast_mono16to8[OF s f True i])
    from mid True show ?thesis
      by (simp add: demosaic_malvar_row_mono16to8_def Let_def h rg gb split: option.splits)
  qed
qed

section \<open>Fast rows and safe rows\<close>

text \<open>
  For all arguments, valid or not, every buffer and every row, the optimized row
  functions \<^verbatim>\<open>rgb16\<close>, \<^verbatim>\<open>rgb8\<close>, \<^verbatim>\<open>rgb16to8\<close>, \<^verbatim>\<open>mono16\<close> and \<^verbatim>\<open>mono8\<close> end as their unoptimized
  counterparts do, with the same output row: the same elements at every column when
  they return, the untouched row when an assertion fails. For \<^verbatim>\<open>mono16to8\<close> this is
  proved when every sample that \<^verbatim>\<open>GET_PIX\<close> reads at an interior position, shifted right
  by \<^verbatim>\<open>rshift\<close>, fits 8 bits, and in particular when no sample of an image of at most
  \<open>2\<^sup>3\<^sup>1 - 1\<close> samples exceeds \<^verbatim>\<open>max_val\<close>. The rounding \<open>rnd\<close> of the \<^verbatim>\<open>F64\<close> operations is
  arbitrary. Where both functions of a 16-to-8 variant end as \<open>Undefined\<close>, with a shift
  count of 32 or more, the equality says nothing of the C functions.
\<close>

theorem fast_equals_safe:
  "demosaic_malvar_row_rgb16 bayer16 args row out16
     = demosaic_malvar_row_rgb16_unoptimized bayer16 args row out16 \<and>
   demosaic_malvar_row_rgb8 bayer8 args row out8
     = demosaic_malvar_row_rgb8_unoptimized bayer8 args row out8 \<and>
   demosaic_malvar_row_rgb16to8 bayer16 args row out8
     = demosaic_malvar_row_rgb16to8_unoptimized bayer16 args row out8 \<and>
   demosaic_malvar_row_mono16 rnd bayer16 args row mono16
     = demosaic_malvar_row_mono16_unoptimized rnd bayer16 args row mono16 \<and>
   demosaic_malvar_row_mono8 rnd bayer8 args row mono8
     = demosaic_malvar_row_mono8_unoptimized rnd bayer8 args row mono8 \<and>
   ((\<forall>b a r c. bayer16 = Some b \<and> args = Some a \<and> interior a r c \<longrightarrow>
        shr (uint (GET_PIX b (n_cols a) r c)) (rshift a) \<le> 255) \<longrightarrow>
    demosaic_malvar_row_mono16to8 rnd bayer16 args row mono8
      = demosaic_malvar_row_mono16to8_unoptimized rnd bayer16 args row mono8) \<and>
   ((\<forall>b a. bayer16 = Some b \<and> args = Some a \<longrightarrow> samples_within b a \<and> image_fits_I32 a) \<longrightarrow>
    demosaic_malvar_row_mono16to8 rnd bayer16 args row mono8
      = demosaic_malvar_row_mono16to8_unoptimized rnd bayer16 args row mono8)"
proof -
  have a: "demosaic_malvar_row_mono16to8 rnd bayer16 args row mono8
      = demosaic_malvar_row_mono16to8_unoptimized rnd bayer16 args row mono8"
    if "\<forall>b a r c. bayer16 = Some b \<and> args = Some a \<and> interior a r c \<longrightarrow>
        shr (uint (GET_PIX b (n_cols a) r c)) (rshift a) \<le> 255"
    using that by (intro mono16to8_row_eq) simp
  have b: "demosaic_malvar_row_mono16to8 rnd bayer16 args row mono8
      = demosaic_malvar_row_mono16to8_unoptimized rnd bayer16 args row mono8"
    if "\<forall>b a. bayer16 = Some b \<and> args = Some a \<longrightarrow> samples_within b a \<and> image_fits_I32 a"
    using that by (intro mono16to8_row_eq_within) simp
  show ?thesis
    using a b by (simp add: rgb16_row_eq rgb8_row_eq rgb16to8_row_eq mono16_row_eq mono8_row_eq)
qed

text \<open>An instance: row 2 of a 6x6 image of 12-bit samples, all 4095, shifted by 4.\<close>

theorem fast_equals_safe_witness:
  "valid_mono16to8 exact (test_args 6 6 4095 4) 2 \<and>
   demosaic_malvar_row_mono16to8 exact (Some bayer_4095) (Some (test_args 6 6 4095 4)) 2 (Some zero8)
     = demosaic_malvar_row_mono16to8_unoptimized exact (Some bayer_4095) (Some (test_args 6 6 4095 4)) 2 (Some zero8)"
  using fast_equals_safe[where ?bayer16.0 = "Some bayer_4095" and args = "Some (test_args 6 6 4095 4)"
      and row = 2 and rnd = exact and ?mono8.0 = "Some zero8" and ?bayer8.0 = "Some bayer8_200"
      and ?out8.0 = "Some black8" and ?out16.0 = "Some black16" and ?mono16.0 = "Some zero16"]
    test_samples(3)[of 6 6 4] test_valid_6x6(4) test_fits[of 6 6 4095 4]
  by simp

text \<open>
  C1. The optimized row function of each of the six variants is to store, at every
  position of every row, what its unoptimized counterpart stores on the same input.
  \<^verbatim>\<open>demosaic_malvar_row_mono16to8\<close> does not. On a 6x6 image with \<^verbatim>\<open>max_val = 4095\<close>,
  \<^verbatim>\<open>rshift = 4\<close> and the coefficients \<open>(1/2, 1/2, 0)\<close>, all of which pass the assertions,
  the red sample at row 2, column 2 is 4096 and every other sample is 0, so that at
  this position green is interpolated to 2048 and blue to 3072. The unoptimized
  function stores \<open>4096 >> 4 = 256\<close> in the \<^verbatim>\<open>U8\<close> field of its pixel, where it becomes
  0, and mixes \<open>(0, 128, 192)\<close> to 64; the optimized function keeps 256 in an \<^verbatim>\<open>I32\<close> and
  mixes \<open>(256, 128, 192)\<close> to 192.
\<close>

theorem mono16to8_fast_differs:
  "returned_at (demosaic_malvar_row_mono16to8 exact (Some spike_bayer) (Some spike_args) 2 (Some zero8)) 2
     = Some 192 \<and>
   returned_at (demosaic_malvar_row_mono16to8_unoptimized exact (Some spike_bayer) (Some spike_args) 2 (Some zero8)) 2
     = Some 64 \<and>
   demosaic_malvar_row_mono16to8 exact (Some spike_bayer) (Some spike_args) 2 (Some zero8)
     \<noteq> demosaic_malvar_row_mono16to8_unoptimized exact (Some spike_bayer) (Some spike_args) 2 (Some zero8)"
proof -
  have u: "returned_at (demosaic_malvar_row_mono16to8_unoptimized exact (Some spike_bayer) (Some spike_args) 2 (Some zero8)) 2
     = Some 64"
    unfolding mono16to8_unoptimized_result[of spike_args, unfolded spike_fields, simplified]
    using spike_safe_pixel
    by (simp add: spike_valid returned_at_def mono16to8_pixel_def rgb16to8_pixel_def spike_cn
        spike_fields)
  have e: "even ((4::int) - 2)" by simp
  have s32: "\<not> 32 \<le> rshift spike_args" by (simp add: spike_fields)
  have v: "demosaic_malvar_assert_proper_dimensions spike_args" "coefs_in_range (coefs spike_args)"
    "shr (uint (max_val spike_args)) (rshift spike_args) \<le> U8_MAX" "0 \<le> rshift spike_args"
    "coefs_normed_sum exact \<lparr> red = 500000 / 1000001, green = 500000 / 1000001, blue = 0 \<rparr> < 1"
    using spike_valid unfolding valid_mono16to8_def valid_row_def spike_cn by simp_all
  have f: "returned_at (demosaic_malvar_row_mono16to8 exact (Some spike_bayer) (Some spike_args) 2 (Some zero8)) 2
     = Some 192"
    using spike_fast_pixel
    by (simp add: demosaic_malvar_row_mono16to8_def v s32 spike_fields(1,2) Let_def returned_at_def
        smod2_even row_loop_apply[OF e] spike_cn)
  from u f show ?thesis by auto
qed

section \<open>The edge-safe accessor\<close>

text \<open>
  C3. For dimensions of at least 2, \<^verbatim>\<open>get_pixel16_safe\<close> and \<^verbatim>\<open>get_pixel8_safe\<close> return
  the sample at the coordinates remapped by the rule of the specification, rows and
  columns independently: the sample that \<^verbatim>\<open>GET_PIX\<close> reads at the remapped coordinates,
  which is element \<open>nc * row' + col'\<close> of the buffer when the image has at most
  \<open>2\<^sup>3\<^sup>1 - 1\<close> samples, so that the \<^verbatim>\<open>I32\<close> index does not overflow. For an even
  dimension of at least 2 and a coordinate that is out of range by at most 2, the
  remapped coordinate has the parity of the original one, so the sample read has the
  same Bayer colour.
\<close>

theorem accessor_remap:
  "(2 \<le> nr \<and> 2 \<le> nc \<longrightarrow>
      get_pixel16_safe b16 nr nc r c = GET_PIX b16 nc (remap_spec nr r) (remap_spec nc c) \<and>
      get_pixel8_safe b8 nr nc r c = GET_PIX b8 nc (remap_spec nr r) (remap_spec nc c)) \<and>
   (2 \<le> nr \<and> 2 \<le> nc \<and> nr * nc \<le> INT32_MAX \<longrightarrow>
      get_pixel16_safe b16 nr nc r c = b16 (nc * remap_spec nr r + remap_spec nc c) \<and>
      get_pixel8_safe b8 nr nc r c = b8 (nc * remap_spec nr r + remap_spec nc c)) \<and>
   (even n \<and> 2 \<le> n \<and> - 2 \<le> x \<and> x < n + 2 \<longrightarrow> even (remap_spec n x) = even x)"
  by (simp add: get_pixel16_safe_coord get_pixel8_safe_coord safe_coord_spec remap_spec_parity
      safe_index(1,2)[symmetric])

text \<open>An instance: row -1 and column 5 of a 4x4 image are remapped to row 1 and column 3.\<close>

theorem accessor_remap_witness:
  "get_pixel16_safe (\<lambda>i. word_of_int i) 4 4 (- 1) 5 = 7 \<and>
   get_pixel8_safe (\<lambda>i. word_of_int i) 4 4 (- 1) 5 = 7 \<and>
   even (remap_spec 4 5) = even (5 :: int)"
  using accessor_remap[where nr = 4 and nc = 4 and ?b16.0 = "\<lambda>i. word_of_int i" and r = "- 1"
      and c = 5 and ?b8.0 = "\<lambda>i. word_of_int i" and n = 4 and x = 5]
  by (simp add: remap_spec_def INT32_MAX_def GET_PIX_def I32_add_def I32_mul_def I32_wrap_def)

section \<open>Indices inside the image\<close>

text \<open>
  C2. For an image with even \<open>nr \<ge> 2\<close> rows, even \<open>nc \<ge> 2\<close> columns and at most
  \<open>2\<^sup>3\<^sup>1 - 1\<close> samples, the index that the edge-safe accessor reads, at a coordinate out
  of range by at most 2 in either direction, is inside \<open>[0, nr * nc)\<close>, and so is the
  index that \<^verbatim>\<open>GET_PIX\<close> reads at an offset of at most 2 in row and column from an
  interior pixel (row in \<open>[2, nr - 2)\<close>, column in \<open>[2, nc - 2)\<close>). For such an image
  each of the twelve row functions reads the Bayer buffer inside \<open>[0, nr * nc)\<close> only:
  on two buffers that agree there it ends in the same way with the same output row,
  whatever the arguments, the row and the output row are (for a 16-to-8 row function
  that ends as \<open>Undefined\<close>, with a shift count of 32 or more, this says nothing).
\<close>

theorem indices_in_bounds:
  "(even nr \<and> 2 \<le> nr \<and> even nc \<and> 2 \<le> nc \<and> nr * nc \<le> INT32_MAX \<longrightarrow>
      (- 2 \<le> r \<and> r < nr + 2 \<and> - 2 \<le> c \<and> c < nc + 2 \<longrightarrow>
         (\<exists>i. 0 \<le> i \<and> i < nr * nc \<and>
              (\<forall>b. get_pixel16_safe b nr nc r c = b i) \<and> (\<forall>b. get_pixel8_safe b nr nc r c = b i))) \<and>
      (2 \<le> row \<and> row < nr - 2 \<and> 2 \<le> col \<and> col < nc - 2 \<and> \<bar>dr\<bar> \<le> 2 \<and> \<bar>dc\<bar> \<le> 2 \<longrightarrow>
         (\<exists>i. 0 \<le> i \<and> i < nr * nc \<and> (\<forall>b :: 'a buffer. GET_PIX b nc (row + dr) (col + dc) = b i)))) \<and>
   (image_fits_I32 a \<and> same_image b16 b16' a \<longrightarrow>
      demosaic_malvar_row_rgb16 (Some b16) (Some a) y out16
        = demosaic_malvar_row_rgb16 (Some b16') (Some a) y out16 \<and>
      demosaic_malvar_row_rgb16_unoptimized (Some b16) (Some a) y out16
        = demosaic_malvar_row_rgb16_unoptimized (Some b16') (Some a) y out16 \<and>
      demosaic_malvar_row_rgb16to8 (Some b16) (Some a) y out8
        = demosaic_malvar_row_rgb16to8 (Some b16') (Some a) y out8 \<and>
      demosaic_malvar_row_rgb16to8_unoptimized (Some b16) (Some a) y out8
        = demosaic_malvar_row_rgb16to8_unoptimized (Some b16') (Some a) y out8 \<and>
      demosaic_malvar_row_mono16 rnd (Some b16) (Some a) y mono16
        = demosaic_malvar_row_mono16 rnd (Some b16') (Some a) y mono16 \<and>
      demosaic_malvar_row_mono16_unoptimized rnd (Some b16) (Some a) y mono16
        = demosaic_malvar_row_mono16_unoptimized rnd (Some b16') (Some a) y mono16 \<and>
      demosaic_malvar_row_mono16to8 rnd (Some b16) (Some a) y mono8
        = demosaic_malvar_row_mono16to8 rnd (Some b16') (Some a) y mono8 \<and>
      demosaic_malvar_row_mono16to8_unoptimized rnd (Some b16) (Some a) y mono8
        = demosaic_malvar_row_mono16to8_unoptimized rnd (Some b16') (Some a) y mono8) \<and>
   (image_fits_I32 a \<and> same_image b8 b8' a \<longrightarrow>
      demosaic_malvar_row_rgb8 (Some b8) (Some a) y out8
        = demosaic_malvar_row_rgb8 (Some b8') (Some a) y out8 \<and>
      demosaic_malvar_row_rgb8_unoptimized (Some b8) (Some a) y out8
        = demosaic_malvar_row_rgb8_unoptimized (Some b8') (Some a) y out8 \<and>
      demosaic_malvar_row_mono8 rnd (Some b8) (Some a) y mono8
        = demosaic_malvar_row_mono8 rnd (Some b8') (Some a) y mono8 \<and>
      demosaic_malvar_row_mono8_unoptimized rnd (Some b8) (Some a) y mono8
        = demosaic_malvar_row_mono8_unoptimized rnd (Some b8') (Some a) y mono8)"
proof (intro conjI impI; (elim conjE)?)
  assume h: "2 \<le> nr" "2 \<le> nc" "nr * nc \<le> INT32_MAX"
  note s = safe_index[OF h]
  show "\<exists>i. 0 \<le> i \<and> i < nr * nc \<and>
       (\<forall>b. get_pixel16_safe b nr nc r c = b i) \<and> (\<forall>b. get_pixel8_safe b nr nc r c = b i)"
    using s(3,4)[of r c]
    by (intro exI[of _ "nc * remap_spec nr r + remap_spec nc c"]) (simp add: s(1,2))
next
  assume h: "2 \<le> row" "row < nr - 2" "2 \<le> col" "col < nc - 2" "\<bar>dr\<bar> \<le> 2" "\<bar>dc\<bar> \<le> 2"
    and f: "nr * nc \<le> INT32_MAX"
  let ?i = "nc * (row + dr) + (col + dc)"
  have p: "0 \<le> row + dr" "row + dr < nr" "0 \<le> col + dc" "col + dc < nc"
    using h by linarith+
  have "0 \<le> ?i \<and> ?i < nr * nc" using p by (rule flat_index_range)
  then show "\<exists>i. 0 \<le> i \<and> i < nr * nc \<and> (\<forall>b :: 'a buffer. GET_PIX b nc (row + dr) (col + dc) = b i)"
    by (intro exI[of _ ?i]) (simp add: GET_PIX_index[OF p f])
next
  assume h: "image_fits_I32 a" "same_image b16 b16' a"
  note u = same_image_unoptimized16[OF h(2,1)]
  show "demosaic_malvar_row_rgb16 (Some b16) (Some a) y out16
        = demosaic_malvar_row_rgb16 (Some b16') (Some a) y out16"
    unfolding rgb16_row_eq by (rule u(1))
  show "demosaic_malvar_row_rgb16_unoptimized (Some b16) (Some a) y out16
        = demosaic_malvar_row_rgb16_unoptimized (Some b16') (Some a) y out16"
    by (rule u(1))
  show "demosaic_malvar_row_rgb16to8 (Some b16) (Some a) y out8
        = demosaic_malvar_row_rgb16to8 (Some b16') (Some a) y out8"
    unfolding rgb16to8_row_eq by (rule u(2))
  show "demosaic_malvar_row_rgb16to8_unoptimized (Some b16) (Some a) y out8
        = demosaic_malvar_row_rgb16to8_unoptimized (Some b16') (Some a) y out8"
    by (rule u(2))
  show "demosaic_malvar_row_mono16 rnd (Some b16) (Some a) y mono16
        = demosaic_malvar_row_mono16 rnd (Some b16') (Some a) y mono16"
    unfolding mono16_row_eq by (rule u(3))
  show "demosaic_malvar_row_mono16_unoptimized rnd (Some b16) (Some a) y mono16
        = demosaic_malvar_row_mono16_unoptimized rnd (Some b16') (Some a) y mono16"
    by (rule u(3))
  show "demosaic_malvar_row_mono16to8 rnd (Some b16) (Some a) y mono8
        = demosaic_malvar_row_mono16to8 rnd (Some b16') (Some a) y mono8"
    by (rule same_image_mono16to8[OF h(2,1)])
  show "demosaic_malvar_row_mono16to8_unoptimized rnd (Some b16) (Some a) y mono8
        = demosaic_malvar_row_mono16to8_unoptimized rnd (Some b16') (Some a) y mono8"
    by (rule u(4))
next
  assume h: "image_fits_I32 a" "same_image b8 b8' a"
  note u = same_image_unoptimized8[OF h(2,1)]
  show "demosaic_malvar_row_rgb8 (Some b8) (Some a) y out8
        = demosaic_malvar_row_rgb8 (Some b8') (Some a) y out8"
    unfolding rgb8_row_eq by (rule u(1))
  show "demosaic_malvar_row_rgb8_unoptimized (Some b8) (Some a) y out8
        = demosaic_malvar_row_rgb8_unoptimized (Some b8') (Some a) y out8"
    by (rule u(1))
  show "demosaic_malvar_row_mono8 rnd (Some b8) (Some a) y mono8
        = demosaic_malvar_row_mono8 rnd (Some b8') (Some a) y mono8"
    unfolding mono8_row_eq by (rule u(2))
  show "demosaic_malvar_row_mono8_unoptimized rnd (Some b8) (Some a) y mono8
        = demosaic_malvar_row_mono8_unoptimized rnd (Some b8') (Some a) y mono8"
    by (rule u(2))
qed

text \<open>
  An instance: a 6x6 image, the accessor at row -1 and column 7, \<^verbatim>\<open>GET_PIX\<close> two rows
  above and two columns right of the interior pixel at row 2 and column 3, and row 2
  of two buffers that hold the same image and differ outside it.
\<close>

theorem indices_in_bounds_witness:
  "(\<exists>i. 0 \<le> i \<and> i < 6 * 6 \<and>
       (\<forall>b. get_pixel16_safe b 6 6 (- 1) 7 = b i) \<and> (\<forall>b. get_pixel8_safe b 6 6 (- 1) 7 = b i)) \<and>
   (\<exists>i. 0 \<le> i \<and> i < 6 * 6 \<and> (\<forall>b :: U16 buffer. GET_PIX b 6 (2 + - 2) (3 + 2) = b i)) \<and>
   rgb_bayer 36 \<noteq> rgb_bayer_padded 36 \<and>
   demosaic_malvar_row_rgb16 (Some rgb_bayer) (Some (test_args 6 6 255 0)) 2 (Some black16)
     = demosaic_malvar_row_rgb16 (Some rgb_bayer_padded) (Some (test_args 6 6 255 0)) 2 (Some black16) \<and>
   demosaic_malvar_row_mono16to8 exact (Some rgb_bayer) (Some (test_args 6 6 255 0)) 2 (Some zero8)
     = demosaic_malvar_row_mono16to8 exact (Some rgb_bayer_padded) (Some (test_args 6 6 255 0)) 2 (Some zero8)"
proof -
  have s: "same_image rgb_bayer rgb_bayer_padded (test_args 6 6 255 0)"
    by (simp add: same_image_def rgb_bayer_padded_def test_args_fields)
  have d: "rgb_bayer 36 \<noteq> rgb_bayer_padded 36"
    by (simp add: rgb_bayer_def rgb_bayer_padded_def bayer_color_def)
  show ?thesis
    using indices_in_bounds[where 'a = "16 word" and nr = 6 and nc = 6 and r = "- 1" and c = 7 and row = 2 and col = 3
        and dr = "- 2" and dc = 2 and a = "test_args 6 6 255 0" and ?b16.0 = rgb_bayer
        and ?b16'.0 = rgb_bayer_padded and y = 2 and ?out16.0 = "Some black16" and rnd = exact
        and ?mono8.0 = "Some zero8" and ?b8.0 = rgb_bayer8 and ?b8'.0 = rgb_bayer8
        and ?out8.0 = "Some black8" and ?mono16.0 = "Some zero16"]
      s d test_fits[of 6 6 255 0]
    by (simp add: INT32_MAX_def)
qed

text \<open>
  The bound on the number of samples is needed. In a 65536x65536 image the pixel at
  row 32768 and column 2 is an interior one, and the \<^verbatim>\<open>I32\<close> product \<^verbatim>\<open>n_cols*row\<close> of its
  index is \<open>2\<^sup>3\<^sup>1\<close>, above \<^verbatim>\<open>INT32_MAX\<close>: it overflows, and with the wrap-around of two's
  complement what \<^verbatim>\<open>GET_PIX\<close> reads there is element -2147483646 of the buffer.
\<close>

theorem large_image_index_counterexample:
  "even (65536 :: int) \<and> (2 :: int) \<le> 65536 \<and>
   (2 :: int) \<le> 32768 \<and> (32768 :: int) < 65536 - 2 \<and> (2 :: int) \<le> 2 \<and> (2 :: int) < 65536 - 2 \<and>
   INT32_MAX < 65536 * 32768 \<and>
   GET_PIX (\<lambda>i. i) 65536 (32768 + 0) (2 + 0) = - 2147483646 \<and>
   \<not> (\<exists>i. 0 \<le> i \<and> i < 65536 * 65536 \<and>
          (\<forall>b :: int buffer. GET_PIX b 65536 (32768 + 0) (2 + 0) = b i))"
proof -
  have g: "GET_PIX (\<lambda>i. i) 65536 (32768 + 0) (2 + 0) = - 2147483646"
    by (simp add: GET_PIX_def I32_add_def I32_mul_def I32_wrap_def)
  have "\<not> (\<exists>i. 0 \<le> i \<and> i < 65536 * 65536 \<and>
          (\<forall>b :: int buffer. GET_PIX b 65536 (32768 + 0) (2 + 0) = b i))"
  proof
    assume "\<exists>i. 0 \<le> i \<and> i < 65536 * 65536 \<and>
          (\<forall>b :: int buffer. GET_PIX b 65536 (32768 + 0) (2 + 0) = b i)"
    then obtain i where i: "0 \<le> i" "\<forall>b :: int buffer. GET_PIX b 65536 (32768 + 0) (2 + 0) = b i"
      by blast
    from i(2) have "GET_PIX (\<lambda>i. i) 65536 (32768 + 0) (2 + 0) = i" by blast
    with g i(1) show False by simp
  qed
  with g show ?thesis by (simp add: INT32_MAX_def)
qed

section \<open>The green kernel\<close>

text \<open>
  C4. For every buffer, all arguments and every coordinate, \<^verbatim>\<open>get_green16\<close> returns
  \<open>clamp (T, 0, max_val)\<close>, where \<open>T\<close> is the quotient, truncated toward zero, by 8 of
  the sum of the edge-safe samples weighted by \<open>-1, 2, -1, 2, 4, 2, -1, 2, -1\<close> at the
  offsets \<open>(-2,0), (-1,0), (0,-2), (0,-1), (0,0), (0,1), (0,2), (1,0), (2,0)\<close>, and the
  clamp is that of the specification, applied to the quotient. \<^verbatim>\<open>get_green8\<close> does the
  same on 8-bit samples when \<^verbatim>\<open>max_val\<close> is at most 255, which its row functions assert.
\<close>

theorem green_kernel:
  "uint (get_green16 b16 a row col)
     = clamp_spec (trunc_div_spec (weighted_sum_spec
          (\<lambda>r c. uint (get_pixel16_safe b16 (n_rows a) (n_cols a) r c)) row col
          green_weights green_offsets) 8) (uint (max_val a)) \<and>
   (uint (max_val a) \<le> 255 \<longrightarrow>
    uint (get_green8 b8 a row col)
     = clamp_spec (trunc_div_spec (weighted_sum_spec
          (\<lambda>r c. uint (get_pixel8_safe b8 (n_rows a) (n_cols a) r c)) row col
          green_weights green_offsets) 8) (uint (max_val a)))"
proof -
  have s16: "safe16 b16 a = (\<lambda>r c. uint (get_pixel16_safe b16 (n_rows a) (n_cols a) r c))"
    by (simp add: safe16_def fun_eq_iff)
  have s8: "safe8 b8 a = (\<lambda>r c. uint (get_pixel8_safe b8 (n_rows a) (n_cols a) r c))"
    by (simp add: safe8_def fun_eq_iff)
  have g16: "uint (get_green16 b16 a row col)
      = DM_LIMIT (green_sum (safe16 b16 a) row col sdiv 8) 0 (uint (max_val a))"
    by (simp add: get_green16_def Let_def uint_U16_DM_LIMIT)
  have g8: "uint (get_green8 b8 a row col)
      = DM_LIMIT (green_sum (safe8 b8 a) row col sdiv 8) 0 (uint (max_val a))"
    if "uint (max_val a) \<le> 255"
    using that by (simp add: get_green8_def Let_def uint_U8_DM_LIMIT)
  show ?thesis
    by (simp add: g16 g8 green_sum_spec sdiv_trunc DM_LIMIT_clamp s16 s8)
qed

text \<open>An instance: constant images, where the quotient is the sample.\<close>

theorem green_kernel_witness:
  "uint (get_green16 bayer_4095 (test_args 4 4 255 0) 1 1) = 255 \<and>
   uint (get_green8 bayer8_200 (test_args 4 4 255 0) 1 1) = 200"
  using green_kernel[of bayer_4095 "test_args 4 4 255 0" 1 1 bayer8_200]
  by (simp add: test_args_fields const_pixel16 const_pixel8 weighted_sum_spec_def green_weights_def
      green_offsets_def trunc_div_spec_def clamp_spec_def)

section \<open>Narrowing from 16 to 8 bits\<close>

text \<open>
  C5. For a shift count \<open>0 \<le> rshift < 32\<close>, where C defines the shift: in the 16-to-8
  pixel helpers every interpolated channel is the kernel quotient clamped to
  \<open>[0, max_val]\<close> and then shifted right by \<^verbatim>\<open>rshift\<close>, stored in 8 bits; when
  \<^verbatim>\<open>max_val >> rshift\<close> is at most 255, as the row functions assert, the stored value is
  that number and it is at most \<^verbatim>\<open>max_val >> rshift\<close>. The channel of the pixel's own
  colour is the raw sample shifted right and stored in 8 bits; it is the
  clamped-then-shifted value, and at most \<^verbatim>\<open>max_val >> rshift\<close>, when the sample does not
  exceed \<^verbatim>\<open>max_val\<close>. The one-expression form of the fast loops stores the same value as
  clamping and then shifting, for every quotient \<open>v\<close>, and at an interior position the
  pixels of the fast loop of \<^verbatim>\<open>rgb16to8\<close> are those of the helpers. The pixel that
  \<^verbatim>\<open>rgb16to8\<close> stores at a position, optimized or not, is the helper's pixel of the
  Bayer phase of the position, and the sample that \<^verbatim>\<open>mono16to8\<close> stores is the mix of
  that pixel (for the optimized function, on an image of at most \<open>2\<^sup>3\<^sup>1 - 1\<close> samples
  none of which exceeds \<^verbatim>\<open>max_val\<close>). The shift is that of the specification,
  \<open>rshift_spec\<close>.
\<close>

theorem narrowing_channels:
  "0 \<le> rshift a \<and> rshift a < 32 \<longrightarrow>
     red (get_rgb8_at_red16 b a row col)
       = word_of_int (rshift_spec (uint (get_pixel16_safe b (n_rows a) (n_cols a) row col)) (rshift a)) \<and>
     green (get_rgb8_at_red16 b a row col)
       = word_of_int (narrow_spec (green_sum (safe16 b a) row col sdiv 8) (uint (max_val a)) (rshift a)) \<and>
     blue (get_rgb8_at_red16 b a row col)
       = word_of_int (narrow_spec (red_blue_from_opposite_sum (safe16 b a) row col sdiv 16) (uint (max_val a)) (rshift a)) \<and>
     red (get_rgb8_at_green_rg16 b a row col)
       = word_of_int (narrow_spec (red_blue_from_row_sum (safe16 b a) row col sdiv 16) (uint (max_val a)) (rshift a)) \<and>
     green (get_rgb8_at_green_rg16 b a row col)
       = word_of_int (rshift_spec (uint (get_pixel16_safe b (n_rows a) (n_cols a) row col)) (rshift a)) \<and>
     blue (get_rgb8_at_green_rg16 b a row col)
       = word_of_int (narrow_spec (red_blue_from_column_sum (safe16 b a) row col sdiv 16) (uint (max_val a)) (rshift a)) \<and>
     red (get_rgb8_at_green_gb16 b a row col)
       = word_of_int (narrow_spec (red_blue_from_column_sum (safe16 b a) row col sdiv 16) (uint (max_val a)) (rshift a)) \<and>
     green (get_rgb8_at_green_gb16 b a row col)
       = word_of_int (rshift_spec (uint (get_pixel16_safe b (n_rows a) (n_cols a) row col)) (rshift a)) \<and>
     blue (get_rgb8_at_green_gb16 b a row col)
       = word_of_int (narrow_spec (red_blue_from_row_sum (safe16 b a) row col sdiv 16) (uint (max_val a)) (rshift a)) \<and>
     red (get_rgb8_at_blue16 b a row col)
       = word_of_int (narrow_spec (red_blue_from_opposite_sum (safe16 b a) row col sdiv 16) (uint (max_val a)) (rshift a)) \<and>
     green (get_rgb8_at_blue16 b a row col)
       = word_of_int (narrow_spec (green_sum (safe16 b a) row col sdiv 8) (uint (max_val a)) (rshift a)) \<and>
     blue (get_rgb8_at_blue16 b a row col)
       = word_of_int (rshift_spec (uint (get_pixel16_safe b (n_rows a) (n_cols a) row col)) (rshift a)) \<and>
     (rshift_spec (uint (max_val a)) (rshift a) \<le> 255 \<longrightarrow>
        uint (word_of_int (narrow_spec v (uint (max_val a)) (rshift a)) :: U8)
          = narrow_spec v (uint (max_val a)) (rshift a) \<and>
        narrow_spec v (uint (max_val a)) (rshift a) \<le> rshift_spec (uint (max_val a)) (rshift a)) \<and>
     (rshift_spec (uint (max_val a)) (rshift a) \<le> 255 \<and> s \<le> max_val a \<longrightarrow>
        uint (word_of_int (rshift_spec (uint s) (rshift a)) :: U8)
          = narrow_spec (uint s) (uint (max_val a)) (rshift a) \<and>
        uint (word_of_int (rshift_spec (uint s) (rshift a)) :: U8)
          \<le> rshift_spec (uint (max_val a)) (rshift a)) \<and>
     (word_of_int (limit_rshift v (uint (max_val a)) (word_of_int (shr (uint (max_val a)) (rshift a))) (rshift a)) :: U8)
       = word_of_int (narrow_spec v (uint (max_val a)) (rshift a)) \<and>
     (interior a row col \<longrightarrow>
        fast_rgb16to8_at_red b a row col = get_rgb8_at_red16 b a row col \<and>
        fast_rgb16to8_at_green_rg b a row col = get_rgb8_at_green_rg16 b a row col \<and>
        fast_rgb16to8_at_green_gb b a row col = get_rgb8_at_green_gb16 b a row col \<and>
        fast_rgb16to8_at_blue b a row col = get_rgb8_at_blue16 b a row col) \<and>
     (valid_rgb16to8 a row \<and> 0 \<le> col \<and> col < n_cols a \<longrightarrow>
        returned_at (demosaic_malvar_row_rgb16to8 (Some b) (Some a) row (Some out8)) col
          = Some (rgb16to8_pixel b a row col) \<and>
        returned_at (demosaic_malvar_row_rgb16to8_unoptimized (Some b) (Some a) row (Some out8)) col
          = Some (rgb16to8_pixel b a row col)) \<and>
     (valid_mono16to8 rnd a row \<and> 0 \<le> col \<and> col < n_cols a \<longrightarrow>
        returned_at (demosaic_malvar_row_mono16to8_unoptimized rnd (Some b) (Some a) row (Some mono8)) col
          = Some (luma_of_rgb8 rnd (normalize_coefs rnd (coefs a)) (rgb16to8_pixel b a row col))) \<and>
     (valid_mono16to8 rnd a row \<and> samples_within b a \<and> image_fits_I32 a \<and> 0 \<le> col \<and> col < n_cols a \<longrightarrow>
        returned_at (demosaic_malvar_row_mono16to8 rnd (Some b) (Some a) row (Some mono8)) col
          = Some (luma_of_rgb8 rnd (normalize_coefs rnd (coefs a)) (rgb16to8_pixel b a row col)))"
proof (intro impI)
  assume r: "0 \<le> rshift a \<and> rshift a < 32"
  have m0: "0 \<le> uint (max_val a)" by simp
  have nh: "(word_of_int (rshift_spec (uint (word_of_int (DM_LIMIT v 0 (uint (m :: U16))) :: U16)) rs) :: U8)
        = word_of_int (narrow_spec v (uint m) rs)" for v m rs
    using narrow_helper[of v m rs] by (simp add: shr_spec)
  have A: "red (get_rgb8_at_red16 b a row col)
       = word_of_int (rshift_spec (uint (get_pixel16_safe b (n_rows a) (n_cols a) row col)) (rshift a)) \<and>
     green (get_rgb8_at_red16 b a row col)
       = word_of_int (narrow_spec (green_sum (safe16 b a) row col sdiv 8) (uint (max_val a)) (rshift a)) \<and>
     blue (get_rgb8_at_red16 b a row col)
       = word_of_int (narrow_spec (red_blue_from_opposite_sum (safe16 b a) row col sdiv 16) (uint (max_val a)) (rshift a)) \<and>
     red (get_rgb8_at_green_rg16 b a row col)
       = word_of_int (narrow_spec (red_blue_from_row_sum (safe16 b a) row col sdiv 16) (uint (max_val a)) (rshift a)) \<and>
     green (get_rgb8_at_green_rg16 b a row col)
       = word_of_int (rshift_spec (uint (get_pixel16_safe b (n_rows a) (n_cols a) row col)) (rshift a)) \<and>
     blue (get_rgb8_at_green_rg16 b a row col)
       = word_of_int (narrow_spec (red_blue_from_column_sum (safe16 b a) row col sdiv 16) (uint (max_val a)) (rshift a)) \<and>
     red (get_rgb8_at_green_gb16 b a row col)
       = word_of_int (narrow_spec (red_blue_from_column_sum (safe16 b a) row col sdiv 16) (uint (max_val a)) (rshift a)) \<and>
     green (get_rgb8_at_green_gb16 b a row col)
       = word_of_int (rshift_spec (uint (get_pixel16_safe b (n_rows a) (n_cols a) row col)) (rshift a)) \<and>
     blue (get_rgb8_at_green_gb16 b a row col)
       = word_of_int (narrow_spec (red_blue_from_row_sum (safe16 b a) row col sdiv 16) (uint (max_val a)) (rshift a)) \<and>
     red (get_rgb8_at_blue16 b a row col)
       = word_of_int (narrow_spec (red_blue_from_opposite_sum (safe16 b a) row col sdiv 16) (uint (max_val a)) (rshift a)) \<and>
     green (get_rgb8_at_blue16 b a row col)
       = word_of_int (narrow_spec (green_sum (safe16 b a) row col sdiv 8) (uint (max_val a)) (rshift a)) \<and>
     blue (get_rgb8_at_blue16 b a row col)
       = word_of_int (rshift_spec (uint (get_pixel16_safe b (n_rows a) (n_cols a) row col)) (rshift a))"
    by (simp add: safe_pixel_defs safe_helper_defs Let_def shr_spec nh)
  have B: "(rshift_spec (uint (max_val a)) (rshift a) \<le> 255 \<longrightarrow>
        uint (word_of_int (narrow_spec v (uint (max_val a)) (rshift a)) :: U8)
          = narrow_spec v (uint (max_val a)) (rshift a) \<and>
        narrow_spec v (uint (max_val a)) (rshift a) \<le> rshift_spec (uint (max_val a)) (rshift a))"
    using narrow_spec_U8[OF _ m0, of "rshift a" v] by simp
  have C: "(rshift_spec (uint (max_val a)) (rshift a) \<le> 255 \<and> s \<le> max_val a \<longrightarrow>
        uint (word_of_int (rshift_spec (uint s) (rshift a)) :: U8)
          = narrow_spec (uint s) (uint (max_val a)) (rshift a) \<and>
        uint (word_of_int (rshift_spec (uint s) (rshift a)) :: U8)
          \<le> rshift_spec (uint (max_val a)) (rshift a))"
  proof (intro impI; elim conjE)
    assume h: "rshift_spec (uint (max_val a)) (rshift a) \<le> 255" "s \<le> max_val a"
    from h(2) have "uint s \<le> uint (max_val a)" by (simp add: word_le_def)
    then have e: "narrow_spec (uint s) (uint (max_val a)) (rshift a) = rshift_spec (uint s) (rshift a)"
      by (simp add: narrow_spec_def clamp_spec_def)
    from narrow_spec_U8[OF h(1) m0, of "uint s"]
    show "uint (word_of_int (rshift_spec (uint s) (rshift a)) :: U8)
          = narrow_spec (uint s) (uint (max_val a)) (rshift a) \<and>
        uint (word_of_int (rshift_spec (uint s) (rshift a)) :: U8)
          \<le> rshift_spec (uint (max_val a)) (rshift a)"
      unfolding e by simp
  qed
  have D: "(word_of_int (limit_rshift v (uint (max_val a)) (word_of_int (shr (uint (max_val a)) (rshift a))) (rshift a)) :: U8)
       = word_of_int (narrow_spec v (uint (max_val a)) (rshift a))"
    by (rule limit_rshift_narrow)
  have E: "(interior a row col \<longrightarrow>
        fast_rgb16to8_at_red b a row col = get_rgb8_at_red16 b a row col \<and>
        fast_rgb16to8_at_green_rg b a row col = get_rgb8_at_green_rg16 b a row col \<and>
        fast_rgb16to8_at_green_gb b a row col = get_rgb8_at_green_gb16 b a row col \<and>
        fast_rgb16to8_at_blue b a row col = get_rgb8_at_blue16 b a row col)"
    by (simp add: fast_rgb16to8_interior)
  have F: "(valid_rgb16to8 a row \<and> 0 \<le> col \<and> col < n_cols a \<longrightarrow>
        returned_at (demosaic_malvar_row_rgb16to8 (Some b) (Some a) row (Some out8)) col
          = Some (rgb16to8_pixel b a row col) \<and>
        returned_at (demosaic_malvar_row_rgb16to8_unoptimized (Some b) (Some a) row (Some out8)) col
          = Some (rgb16to8_pixel b a row col))"
    using r by (simp add: rgb16to8_result rgb16to8_unoptimized_result returned_at_def)
  have G: "(valid_mono16to8 rnd a row \<and> 0 \<le> col \<and> col < n_cols a \<longrightarrow>
        returned_at (demosaic_malvar_row_mono16to8_unoptimized rnd (Some b) (Some a) row (Some mono8)) col
          = Some (luma_of_rgb8 rnd (normalize_coefs rnd (coefs a)) (rgb16to8_pixel b a row col)))"
    using r by (simp add: mono16to8_unoptimized_result returned_at_def mono16to8_pixel_def)
  have H: "(valid_mono16to8 rnd a row \<and> samples_within b a \<and> image_fits_I32 a \<and> 0 \<le> col \<and> col < n_cols a \<longrightarrow>
        returned_at (demosaic_malvar_row_mono16to8 rnd (Some b) (Some a) row (Some mono8)) col
          = Some (luma_of_rgb8 rnd (normalize_coefs rnd (coefs a)) (rgb16to8_pixel b a row col)))"
    using r by (simp add: mono16to8_result returned_at_def mono16to8_pixel_def)
  from A B C D E F G H
  show "red (get_rgb8_at_red16 b a row col)
       = word_of_int (rshift_spec (uint (get_pixel16_safe b (n_rows a) (n_cols a) row col)) (rshift a)) \<and>
     green (get_rgb8_at_red16 b a row col)
       = word_of_int (narrow_spec (green_sum (safe16 b a) row col sdiv 8) (uint (max_val a)) (rshift a)) \<and>
     blue (get_rgb8_at_red16 b a row col)
       = word_of_int (narrow_spec (red_blue_from_opposite_sum (safe16 b a) row col sdiv 16) (uint (max_val a)) (rshift a)) \<and>
     red (get_rgb8_at_green_rg16 b a row col)
       = word_of_int (narrow_spec (red_blue_from_row_sum (safe16 b a) row col sdiv 16) (uint (max_val a)) (rshift a)) \<and>
     green (get_rgb8_at_green_rg16 b a row col)
       = word_of_int (rshift_spec (uint (get_pixel16_safe b (n_rows a) (n_cols a) row col)) (rshift a)) \<and>
     blue (get_rgb8_at_green_rg16 b a row col)
       = word_of_int (narrow_spec (red_blue_from_column_sum (safe16 b a) row col sdiv 16) (uint (max_val a)) (rshift a)) \<and>
     red (get_rgb8_at_green_gb16 b a row col)
       = word_of_int (narrow_spec (red_blue_from_column_sum (safe16 b a) row col sdiv 16) (uint (max_val a)) (rshift a)) \<and>
     green (get_rgb8_at_green_gb16 b a row col)
       = word_of_int (rshift_spec (uint (get_pixel16_safe b (n_rows a) (n_cols a) row col)) (rshift a)) \<and>
     blue (get_rgb8_at_green_gb16 b a row col)
       = word_of_int (narrow_spec (red_blue_from_row_sum (safe16 b a) row col sdiv 16) (uint (max_val a)) (rshift a)) \<and>
     red (get_rgb8_at_blue16 b a row col)
       = word_of_int (narrow_spec (red_blue_from_opposite_sum (safe16 b a) row col sdiv 16) (uint (max_val a)) (rshift a)) \<and>
     green (get_rgb8_at_blue16 b a row col)
       = word_of_int (narrow_spec (green_sum (safe16 b a) row col sdiv 8) (uint (max_val a)) (rshift a)) \<and>
     blue (get_rgb8_at_blue16 b a row col)
       = word_of_int (rshift_spec (uint (get_pixel16_safe b (n_rows a) (n_cols a) row col)) (rshift a)) \<and>
     (rshift_spec (uint (max_val a)) (rshift a) \<le> 255 \<longrightarrow>
        uint (word_of_int (narrow_spec v (uint (max_val a)) (rshift a)) :: U8)
          = narrow_spec v (uint (max_val a)) (rshift a) \<and>
        narrow_spec v (uint (max_val a)) (rshift a) \<le> rshift_spec (uint (max_val a)) (rshift a)) \<and>
     (rshift_spec (uint (max_val a)) (rshift a) \<le> 255 \<and> s \<le> max_val a \<longrightarrow>
        uint (word_of_int (rshift_spec (uint s) (rshift a)) :: U8)
          = narrow_spec (uint s) (uint (max_val a)) (rshift a) \<and>
        uint (word_of_int (rshift_spec (uint s) (rshift a)) :: U8)
          \<le> rshift_spec (uint (max_val a)) (rshift a)) \<and>
     (word_of_int (limit_rshift v (uint (max_val a)) (word_of_int (shr (uint (max_val a)) (rshift a))) (rshift a)) :: U8)
       = word_of_int (narrow_spec v (uint (max_val a)) (rshift a)) \<and>
     (interior a row col \<longrightarrow>
        fast_rgb16to8_at_red b a row col = get_rgb8_at_red16 b a row col \<and>
        fast_rgb16to8_at_green_rg b a row col = get_rgb8_at_green_rg16 b a row col \<and>
        fast_rgb16to8_at_green_gb b a row col = get_rgb8_at_green_gb16 b a row col \<and>
        fast_rgb16to8_at_blue b a row col = get_rgb8_at_blue16 b a row col) \<and>
     (valid_rgb16to8 a row \<and> 0 \<le> col \<and> col < n_cols a \<longrightarrow>
        returned_at (demosaic_malvar_row_rgb16to8 (Some b) (Some a) row (Some out8)) col
          = Some (rgb16to8_pixel b a row col) \<and>
        returned_at (demosaic_malvar_row_rgb16to8_unoptimized (Some b) (Some a) row (Some out8)) col
          = Some (rgb16to8_pixel b a row col)) \<and>
     (valid_mono16to8 rnd a row \<and> 0 \<le> col \<and> col < n_cols a \<longrightarrow>
        returned_at (demosaic_malvar_row_mono16to8_unoptimized rnd (Some b) (Some a) row (Some mono8)) col
          = Some (luma_of_rgb8 rnd (normalize_coefs rnd (coefs a)) (rgb16to8_pixel b a row col))) \<and>
     (valid_mono16to8 rnd a row \<and> samples_within b a \<and> image_fits_I32 a \<and> 0 \<le> col \<and> col < n_cols a \<longrightarrow>
        returned_at (demosaic_malvar_row_mono16to8 rnd (Some b) (Some a) row (Some mono8)) col
          = Some (luma_of_rgb8 rnd (normalize_coefs rnd (coefs a)) (rgb16to8_pixel b a row col)))"
    by blast
qed

text \<open>
  An instance: row 2 and column 2 of a 6x6 image of 12-bit samples, all 4095, shifted by
  4; the quotient 5000 is narrowed to 255 and the sample 4000 to 250.
\<close>

theorem narrowing_channels_witness:
  "interior (test_args 6 6 4095 4) 2 2 \<and> valid_rgb16to8 (test_args 6 6 4095 4) 2 \<and>
   valid_mono16to8 exact (test_args 6 6 4095 4) 2 \<and>
   rshift_spec (uint (max_val (test_args 6 6 4095 4))) (rshift (test_args 6 6 4095 4)) = 255 \<and>
   (4000 :: U16) \<le> max_val (test_args 6 6 4095 4) \<and>
   uint (word_of_int (narrow_spec 5000 4095 4) :: U8) = 255 \<and>
   uint (word_of_int (rshift_spec (uint (4000 :: U16)) 4) :: U8) = 250 \<and>
   green (get_rgb8_at_red16 bayer_4095 (test_args 6 6 4095 4) 2 2) = 255 \<and>
   returned_at (demosaic_malvar_row_rgb16to8 (Some bayer_4095) (Some (test_args 6 6 4095 4)) 2 (Some black8)) 2
     = Some (rgb16to8_pixel bayer_4095 (test_args 6 6 4095 4) 2 2)"
proof -
  have i: "interior (test_args 6 6 4095 4) 2 2" by (simp add: interior_def test_args_fields)
  have v: "valid_rgb16to8 (test_args 6 6 4095 4) 2"
    by (simp add: valid_rgb16to8_def test_dims test_args_fields U8_MAX_def shr_def drop_bit_eq_div)
  have g: "green_sum (safe16 bayer_4095 (test_args 6 6 4095 4)) 2 2 sdiv 8 = 4095"
    by (simp add: green_sum_def safe16_def const_pixel16 signed_divide_int_def)
  show ?thesis
    using narrowing_channels[where a = "test_args 6 6 4095 4" and b = bayer_4095 and row = 2
        and col = 2 and v = 5000 and s = 4000 and rnd = exact and ?out8.0 = black8 and ?mono8.0 = zero8]
      i v test_valid_6x6(4) test_samples(3)[of 6 6 4] test_fits[of 6 6 4095 4]
    by (simp add: test_args_fields g narrow_spec_def clamp_spec_def rshift_spec_def)
qed

text \<open>
  The bound does not hold for the own-colour channel of a sample above \<^verbatim>\<open>max_val\<close>: with
  \<^verbatim>\<open>max_val = 2047\<close> and \<^verbatim>\<open>rshift = 4\<close>, which pass the assertions, the red sample 4095 at
  row 0 and column 0 gives the red channel \<open>4095 >> 4 = 255\<close>, above \<open>2047 >> 4 = 127\<close>,
  and not the clamped and shifted 127.
\<close>

theorem narrowing_own_channel_counterexample:
  "returned_at (demosaic_malvar_row_rgb16to8 (Some bayer_4095) (Some (test_args 2 2 2047 4)) 0 (Some black8)) 0
     = Some \<lparr> red = 255, green = 127, blue = 127 \<rparr> \<and>
   rshift_spec (uint (max_val (test_args 2 2 2047 4))) (rshift (test_args 2 2 2047 4)) = 127 \<and>
   narrow_spec (uint (bayer_4095 0)) (uint (max_val (test_args 2 2 2047 4))) (rshift (test_args 2 2 2047 4)) = 127"
proof -
  have v: "valid_rgb16to8 (test_args 2 2 2047 4) 0"
    by (simp add: valid_rgb16to8_def test_dims test_args_fields U8_MAX_def shr_def drop_bit_eq_div)
  have p: "rgb16to8_pixel bayer_4095 (test_args 2 2 2047 4) 0 0 = \<lparr> red = 255, green = 127, blue = 127 \<rparr>"
    by (simp add: rgb16to8_pixel_def get_rgb8_at_red16_def get_green16_def
        get_red_blue_from_opposite16_def Let_def green_sum_def red_blue_from_opposite_sum_def
        safe16_def const_pixel16 signed_divide_int_def DM_LIMIT_def test_args_fields shr_def
        drop_bit_eq_div)
  show ?thesis
    using v by (simp add: rgb16to8_result returned_at_def p test_args_fields rshift_spec_def
        narrow_spec_def clamp_spec_def bayer_4095_def)
qed

section \<open>Bounded outputs\<close>



section \<open>The accumulators fit 32 bits\<close>

text \<open>
  C7. The accessors that the kernels read, promoted to \<^verbatim>\<open>int\<close>, are in the 16-bit range
  \<open>[0, 65535]\<close>, and for every accessor in that range the four weighted sums, before
  the division, lie strictly inside the range of a 32-bit signed integer. The four sums
  are all the kernels of the helpers and of the fast loops of the six variants. A
  partial sum of a kernel is its sum over the accessor that is 0 at the taps still to
  be added, so the partial sums are covered as well.
\<close>

theorem accumulators_fit_I32:
  "0 \<le> safe16 b16 a r c \<and> safe16 b16 a r c \<le> 65535 \<and>
   0 \<le> safe8 b8 a r c \<and> safe8 b8 a r c \<le> 65535 \<and>
   0 \<le> uint (GET_PIX b16 n r c) \<and> uint (GET_PIX b16 n r c) \<le> 65535 \<and>
   0 \<le> uint (GET_PIX b8 n r c) \<and> uint (GET_PIX b8 n r c) \<le> 65535 \<and>
   ((\<forall>r c. 0 \<le> p r c \<and> p r c \<le> 65535) \<longrightarrow>
      INT32_MIN < green_sum p row col \<and> green_sum p row col < INT32_MAX \<and>
      INT32_MIN < red_blue_from_row_sum p row col \<and> red_blue_from_row_sum p row col < INT32_MAX \<and>
      INT32_MIN < red_blue_from_column_sum p row col \<and> red_blue_from_column_sum p row col < INT32_MAX \<and>
      INT32_MIN < red_blue_from_opposite_sum p row col \<and> red_blue_from_opposite_sum p row col < INT32_MAX)"
  for b16 :: "U16 buffer" and b8 :: "U8 buffer"
proof -
  have u16: "0 \<le> uint x \<and> uint x \<le> 65535" for x :: U16
    using uint_bounded[of x] by simp
  have u8: "0 \<le> uint x \<and> uint x \<le> 65535" for x :: U8
    using uint_bounded[of x] by simp
  have s: "INT32_MIN < green_sum p row col \<and> green_sum p row col < INT32_MAX \<and>
      INT32_MIN < red_blue_from_row_sum p row col \<and> red_blue_from_row_sum p row col < INT32_MAX \<and>
      INT32_MIN < red_blue_from_column_sum p row col \<and> red_blue_from_column_sum p row col < INT32_MAX \<and>
      INT32_MIN < red_blue_from_opposite_sum p row col \<and> red_blue_from_opposite_sum p row col < INT32_MAX"
    if "\<forall>r c. 0 \<le> p r c \<and> p r c \<le> 65535"
  proof -
    have h: "\<And>r c. 0 \<le> p r c \<and> p r c \<le> 65535" using that by simp
    show ?thesis
      using green_sum_bounds[of p row col, OF h] red_blue_from_row_sum_bounds[of p row col, OF h]
        red_blue_from_column_sum_bounds[of p row col, OF h]
        red_blue_from_opposite_sum_bounds[of p row col, OF h]
      by (simp add: INT32_MIN_def INT32_MAX_def)
  qed
  show ?thesis
    using u16 u8 s by (simp add: safe16_def safe8_def)
qed

text \<open>An instance: every sample at its maximum, 65535.\<close>

theorem accumulators_fit_I32_witness:
  "INT32_MIN < green_sum (\<lambda>r c. 65535) 0 0 \<and> green_sum (\<lambda>r c. 65535) 0 0 < INT32_MAX \<and>
   INT32_MIN < red_blue_from_row_sum (\<lambda>r c. 65535) 0 0 \<and>
   red_blue_from_row_sum (\<lambda>r c. 65535) 0 0 < INT32_MAX \<and>
   INT32_MIN < red_blue_from_column_sum (\<lambda>r c. 65535) 0 0 \<and>
   red_blue_from_column_sum (\<lambda>r c. 65535) 0 0 < INT32_MAX \<and>
   INT32_MIN < red_blue_from_opposite_sum (\<lambda>r c. 65535) 0 0 \<and>
   red_blue_from_opposite_sum (\<lambda>r c. 65535) 0 0 < INT32_MAX"
  using accumulators_fit_I32[where p = "\<lambda>r c. 65535" and row = 0 and col = 0 and ?b16.0 = zero16
      and ?b8.0 = bayer8_200 and a = "test_args 4 4 255 0" and n = 4 and r = 0 and c = 0]
  by simp

section \<open>Rejected arguments\<close>

text \<open>
  C8. A row function called with a null \<^verbatim>\<open>bayer\<close>, \<^verbatim>\<open>args\<close> or \<^verbatim>\<open>output_row\<close>, with no rows,
  an odd number of rows, fewer than two columns, a negative row or a row that is not
  below the number of rows ends in the host's handler with the output row untouched,
  in its optimized and in its unoptimized form.
  So does a variant with 8-bit input (\<^verbatim>\<open>rgb8\<close>, \<^verbatim>\<open>mono8\<close>) when \<^verbatim>\<open>max_val\<close> is above 255,
  and a 16-to-8 variant when \<^verbatim>\<open>rshift\<close> is negative or \<^verbatim>\<open>max_val >> rshift\<close> is above 255.
\<close>


theorem precondition_rejection:
  "(bayer16 = None \<or> out16 = None \<or> rejected args row \<longrightarrow>
      demosaic_malvar_row_rgb16 bayer16 args row out16 = Fatal out16 \<and>
      demosaic_malvar_row_rgb16_unoptimized bayer16 args row out16 = Fatal out16) \<and>
   (bayer8 = None \<or> out8 = None \<or> rejected args row \<or> max_val_above_U8 args \<longrightarrow>
      demosaic_malvar_row_rgb8 bayer8 args row out8 = Fatal out8 \<and>
      demosaic_malvar_row_rgb8_unoptimized bayer8 args row out8 = Fatal out8) \<and>
   (bayer16 = None \<or> out8 = None \<or> rejected args row \<or> shifted_max_val_above_U8 args \<longrightarrow>
      demosaic_malvar_row_rgb16to8 bayer16 args row out8 = Fatal out8 \<and>
      demosaic_malvar_row_rgb16to8_unoptimized bayer16 args row out8 = Fatal out8) \<and>
   (bayer16 = None \<or> mono16 = None \<or> rejected args row \<longrightarrow>
      demosaic_malvar_row_mono16 rnd bayer16 args row mono16 = Fatal mono16 \<and>
      demosaic_malvar_row_mono16_unoptimized rnd bayer16 args row mono16 = Fatal mono16) \<and>
   (bayer8 = None \<or> mono8 = None \<or> rejected args row \<or> max_val_above_U8 args \<longrightarrow>
      demosaic_malvar_row_mono8 rnd bayer8 args row mono8 = Fatal mono8 \<and>
      demosaic_malvar_row_mono8_unoptimized rnd bayer8 args row mono8 = Fatal mono8) \<and>
   (bayer16 = None \<or> mono8 = None \<or> rejected args row \<or> shifted_max_val_above_U8 args \<longrightarrow>
      demosaic_malvar_row_mono16to8 rnd bayer16 args row mono8 = Fatal mono8 \<and>
      demosaic_malvar_row_mono16to8_unoptimized rnd bayer16 args row mono8 = Fatal mono8)"
  using fatal_rgb16[of bayer16 out16 args row] fatal_rgb8[of bayer8 out8 args row]
    fatal_rgb16to8[of bayer16 out8 args row] fatal_mono16[of bayer16 mono16 args row rnd]
    fatal_mono8[of bayer8 mono8 args row rnd] fatal_mono16to8[of bayer16 mono8 args row rnd]
  by blast


text \<open>An instance: no rows, \<^verbatim>\<open>max_val = 300\<close> and a negative shift.\<close>

theorem precondition_rejection_witness:
  "demosaic_malvar_row_rgb16 (Some bayer_4095) (Some (test_args 0 4 300 (- 1))) 0 (Some black16)
     = Fatal (Some black16) \<and>
   demosaic_malvar_row_rgb8 (Some bayer8_200) (Some (test_args 0 4 300 (- 1))) 0 (Some black8)
     = Fatal (Some black8) \<and>
   demosaic_malvar_row_rgb16to8 (Some bayer_4095) (Some (test_args 0 4 300 (- 1))) 0 (Some black8)
     = Fatal (Some black8) \<and>
   demosaic_malvar_row_mono16 exact (Some bayer_4095) (Some (test_args 0 4 300 (- 1))) 0 (Some zero16)
     = Fatal (Some zero16) \<and>
   demosaic_malvar_row_mono8 exact (Some bayer8_200) (Some (test_args 0 4 300 (- 1))) 0 (Some zero8)
     = Fatal (Some zero8) \<and>
   demosaic_malvar_row_mono16to8 exact (Some bayer_4095) (Some (test_args 0 4 300 (- 1))) 0 (Some zero8)
     = Fatal (Some zero8)"
  using precondition_rejection[where ?bayer16.0 = "Some bayer_4095" and ?bayer8.0 = "Some bayer8_200"
      and args = "Some (test_args 0 4 300 (- 1))" and row = 0 and ?out16.0 = "Some black16"
      and ?out8.0 = "Some black8" and ?mono16.0 = "Some zero16" and ?mono8.0 = "Some zero8"
      and rnd = exact]
  by (simp add: rejected_def test_args_fields)

text \<open>
  A 16-to-8 variant does not reject \<^verbatim>\<open>max_val\<close> above 255 as such: with
  \<^verbatim>\<open>max_val = 4095\<close> and \<^verbatim>\<open>rshift = 4\<close>, the values of the unit tests, row 0 of a 2x2
  image is demosaiced.
\<close>

theorem narrowing_accepts_large_max_val_counterexample:
  "max_val_above_U8 (Some (test_args 2 2 4095 4)) \<and>
   demosaic_malvar_row_rgb16to8 (Some bayer_4095) (Some (test_args 2 2 4095 4)) 0 (Some black8)
     \<noteq> Fatal (Some black8)"
proof -
  have v: "valid_rgb16to8 (test_args 2 2 4095 4) 0"
    by (simp add: valid_rgb16to8_def valid_row_def demosaic_malvar_assert_proper_dimensions_def
        test_args_def smod2_even shr_def drop_bit_eq_div U8_MAX_def)
  show ?thesis
    using v by (simp add: rgb16to8_result max_val_above_U8_def test_args_def)
qed

section \<open>Single-colour images\<close>



section \<open>The channel of the pixel's own colour\<close>




end
